(* ===== verification/Py_Prelude.thy ===== *)
theory Py_Prelude
  imports Complex_Main
begin

text \<open>
  Shared vocabulary of the model of \<^verbatim>\<open>src/homework.py\<close>: the Python exceptions the
  program can raise, the result type \<open>'a pyres\<close> of a computation that may raise, its
  bind \<open>pbind\<close> (the order in which Python evaluates and propagates), Python's two
  division operators on floats with their \<^verbatim>\<open>ZeroDivisionError\<close>, and the UTF-8 encoding
  through which the Russian text of the program is written as bytes.
\<close>

named_theorems pyres_simps "evaluation rules of the exception monad"
named_theorems class_attrs "values of the class attributes (constants) of the program"

section \<open>Exceptions and results\<close>

text \<open>Which float operator raised \<^verbatim>\<open>ZeroDivisionError\<close>: \<^verbatim>\<open>/\<close> or \<^verbatim>\<open>//\<close>.\<close>

datatype div_op = TrueDivision | FloorDivision

text \<open>
  The exceptions of the program. \<open>TypeError f k n\<close> is the arity error of calling
  \<open>f\<close>, which takes \<open>k\<close> positional arguments (besides \<^verbatim>\<open>self\<close>), with \<open>n\<close> of them;
  \<open>IndexError i\<close> is \<^verbatim>\<open>str.format\<close> finding no argument for replacement field \<open>i\<close>;
  \<open>AttributeError c a\<close> is an object of class \<open>c\<close> with no attribute \<open>a\<close>;
  \<open>KeyError k\<close> is a lookup of the missing key \<open>k\<close>; \<open>OverflowError m\<close> is a
  float result out of range.
\<close>

datatype py_error =
    ZeroDivisionError div_op
  | NotImplementedError string
  | ValueError string
  | TypeError string nat nat
  | IndexError nat
  | AttributeError string string
  | KeyError string
  | OverflowError string

type_synonym 'a pyres = "py_error + 'a"

definition pbind :: "'a pyres \<Rightarrow> ('a \<Rightarrow> 'b pyres) \<Rightarrow> 'b pyres" where
  "pbind m f = (case m of Inl e \<Rightarrow> Inl e | Inr a \<Rightarrow> f a)"

lemma pbind_Inl [simp, pyres_simps]: "pbind (Inl e) f = Inl e"
  by (simp add: pbind_def)

lemma pbind_Inr [simp, pyres_simps]: "pbind (Inr a) f = f a"
  by (simp add: pbind_def)

lemma pbind_assoc: "pbind (pbind m f) g = pbind m (\<lambda>a. pbind (f a) g)"
  by (simp add: pbind_def split: sum.split)

lemma pbind_eq_Inr_iff: "pbind m f = Inr b \<longleftrightarrow> (\<exists>a. m = Inr a \<and> f a = Inr b)"
  by (cases m) simp_all

lemma pbind_eq_Inl_iff:
  "pbind m f = Inl e \<longleftrightarrow> m = Inl e \<or> (\<exists>a. m = Inr a \<and> f a = Inl e)"
  by (cases m) simp_all

section \<open>Float division\<close>

text \<open>
  Python's \<^verbatim>\<open>x / y\<close> and \<^verbatim>\<open>x // y\<close> on floats: both raise \<^verbatim>\<open>ZeroDivisionError\<close>
  when \<open>y = 0\<close> (HOL's own \<open>x / 0 = 0\<close> is not what Python does); \<^verbatim>\<open>//\<close> is the
  floor of the quotient, returned as a float.
\<close>

definition py_truediv :: "real \<Rightarrow> real \<Rightarrow> real pyres" where
  "py_truediv x y = (if y = 0 then Inl (ZeroDivisionError TrueDivision) else Inr (x / y))"

definition py_floordiv :: "real \<Rightarrow> real \<Rightarrow> real pyres" where
  "py_floordiv x y =
     (if y = 0 then Inl (ZeroDivisionError FloorDivision) else Inr (of_int \<lfloor>x / y\<rfloor>))"

lemma py_truediv_nonzero [simp, pyres_simps]: "y \<noteq> 0 \<Longrightarrow> py_truediv x y = Inr (x / y)"
  by (simp add: py_truediv_def)

lemma py_truediv_zero [simp, pyres_simps]:
  "py_truediv x 0 = Inl (ZeroDivisionError TrueDivision)"
  by (simp add: py_truediv_def)

lemma py_floordiv_nonzero [simp, pyres_simps]:
  "y \<noteq> 0 \<Longrightarrow> py_floordiv x y = Inr (of_int \<lfloor>x / y\<rfloor>)"
  by (simp add: py_floordiv_def)

lemma py_floordiv_zero [simp, pyres_simps]:
  "py_floordiv x 0 = Inl (ZeroDivisionError FloorDivision)"
  by (simp add: py_floordiv_def)

lemma floor_divide_eq_zero:
  fixes x y :: real
  assumes "0 \<le> x" and "x < y"
  shows "\<lfloor>x / y\<rfloor> = 0"
proof -
  from assms have "0 \<le> x / y" and "x / y < 1" by simp_all
  then show ?thesis by (simp add: floor_eq_iff)
qed

lemma mult_pos_neg_iff: "0 < (k::real) \<Longrightarrow> x * k < 0 \<longleftrightarrow> x < 0"
  by (simp add: mult_less_0_iff)

section \<open>Text as UTF-8 bytes\<close>

text \<open>
  A Python \<^verbatim>\<open>str\<close> is written here as the bytes of its UTF-8 encoding, the bytes
  that \<^verbatim>\<open>print\<close> sends to standard output. ASCII text is a HOL string literal;
  the Cyrillic text of the source is given by its code points (\<open>utf8\<close>), so that
  each can be checked against the source character by character.
\<close>

definition utf8_char :: "nat \<Rightarrow> string" where
  "utf8_char c =
     (if c < 0x80 then [char_of c]
      else if c < 0x800 then [char_of (0xC0 + c div 0x40), char_of (0x80 + c mod 0x40)]
      else if c < 0x10000 then
        [char_of (0xE0 + c div 0x1000), char_of (0x80 + c div 0x40 mod 0x40),
         char_of (0x80 + c mod 0x40)]
      else
        [char_of (0xF0 + c div 0x40000), char_of (0x80 + c div 0x1000 mod 0x40),
         char_of (0x80 + c div 0x40 mod 0x40), char_of (0x80 + c mod 0x40)])"

definition utf8 :: "nat list \<Rightarrow> string" where
  "utf8 cs = concat (map utf8_char cs)"

lemma utf8_Nil [simp]: "utf8 [] = []"
  by (simp add: utf8_def)

lemma utf8_append [simp]: "utf8 (xs @ ys) = utf8 xs @ utf8 ys"
  by (simp add: utf8_def)

text \<open>Cyrillic letters take two bytes, both with the high bit set: no ASCII byte occurs.\<close>

lemma utf8_two_byte_high:
  assumes "\<forall>c\<in>set cs. 0x80 \<le> c \<and> c < (0x800::nat)" and "x \<in> set (utf8 cs)"
  shows "0x80 \<le> (of_char x :: nat)"
proof -
  from assms(2) obtain c where c: "c \<in> set cs" "x \<in> set (utf8_char c)"
    by (auto simp add: utf8_def)
  with assms(1) have "0x80 \<le> c" "c < 0x800" by auto
  then have "c div 0x40 < 32" by simp
  with c(2) \<open>0x80 \<le> c\<close> \<open>c < 0x800\<close> show ?thesis
    by (auto simp add: utf8_char_def)
qed

lemma utf8_two_byte_notin:
  "\<forall>c\<in>set cs. 0x80 \<le> c \<and> c < (0x800::nat) \<Longrightarrow> (of_char a :: nat) < 0x80 \<Longrightarrow> a \<notin> set (utf8 cs)"
  using utf8_two_byte_high by fastforce

section \<open>Lists of characters\<close>

lemma takeWhile_upto [simp]:
  "c \<notin> set xs \<Longrightarrow> takeWhile (\<lambda>x. x \<noteq> c) (xs @ c # ys) = xs"
  by (induction xs) auto

lemma dropWhile_upto [simp]:
  "c \<notin> set xs \<Longrightarrow> dropWhile (\<lambda>x. x \<noteq> c) (xs @ c # ys) = c # ys"
  by (induction xs) auto

end
