(* ===== verification/Decimal.thy ===== *)
theory Decimal
  imports Py_Prelude
begin

text \<open>
  Python's fixed-point float formatting, the \<^verbatim>\<open>{:.3f}\<close> of the message template in
  \<^verbatim>\<open>InfoMessage.MESSAGE\<close> (\<^verbatim>\<open>src/homework.py\<close>, lines 12--16): the value is rounded to
  \<open>p\<close> fractional digits, half to even, and printed as an optional minus sign, the
  integer part without leading zeros, a point and exactly \<open>p\<close> digits. The sign is the
  sign of the value, not of the rounded value: Python prints \<^verbatim>\<open>-0.000\<close> for
  \<^verbatim>\<open>-0.0004\<close>. A parser for the same format gives the round trip.
\<close>

section \<open>Decimal digits\<close>

definition digit_char :: "nat \<Rightarrow> char" where
  "digit_char d = char_of (48 + d)"

definition digit_value :: "char \<Rightarrow> nat option" where
  "digit_value c = (let k = (of_char c :: nat) in if 48 \<le> k \<and> k < 58 then Some (k - 48) else None)"

definition is_digit :: "char \<Rightarrow> bool" where
  "is_digit c \<longleftrightarrow> digit_value c \<noteq> None"

text \<open>The decimal numeral of a natural number, without leading zeros (\<^verbatim>\<open>str(n)\<close>).\<close>

fun string_of_nat :: "nat \<Rightarrow> string" where
  "string_of_nat n =
     (if n < 10 then [digit_char n] else string_of_nat (n div 10) @ [digit_char (n mod 10)])"

declare string_of_nat.simps [simp del]

text \<open>The last \<open>k\<close> decimal digits of \<open>n\<close>, padded with leading zeros.\<close>

fun digits_pad :: "nat \<Rightarrow> nat \<Rightarrow> string" where
  "digits_pad 0 n = []"
| "digits_pad (Suc k) n = digits_pad k (n div 10) @ [digit_char (n mod 10)]"

text \<open>Reading a digit string, accumulator first; \<open>None\<close> on a non-digit.\<close>

fun digits_acc :: "nat \<Rightarrow> string \<Rightarrow> nat option" where
  "digits_acc a [] = Some a"
| "digits_acc a (c # cs) =
     (case digit_value c of None \<Rightarrow> None | Some d \<Rightarrow> digits_acc (10 * a + d) cs)"

section \<open>Rounding and formatting\<close>

text \<open>Round to the nearest integer, ties to the even neighbour.\<close>

definition round_half_even :: "real \<Rightarrow> int" where
  "round_half_even r =
     (let f = \<lfloor>r\<rfloor>; d = r - of_int f in
      if d < 1/2 then f else if 1/2 < d then f + 1 else if even f then f else f + 1)"

text \<open>The digits of \<open>m / 10 ^ p\<close>: integer part, and for \<open>0 < p\<close> a point and \<open>p\<close> digits.\<close>

definition format_unsigned :: "nat \<Rightarrow> nat \<Rightarrow> string" where
  "format_unsigned p m =
     string_of_nat (m div 10 ^ p) @ (if p = 0 then [] else CHR ''.'' # digits_pad p (m mod 10 ^ p))"

text \<open>\<^verbatim>\<open>format(x, '.<p>f')\<close>: the sign of \<open>x\<close>, then the digits of the rounded magnitude.\<close>

definition format_fixed :: "nat \<Rightarrow> real \<Rightarrow> string" where
  "format_fixed p x =
     (if x < 0 then ''-'' else []) @ format_unsigned p (nat \<bar>round_half_even (x * 10 ^ p)\<bar>)"

text \<open>The value that \<open>format_fixed p x\<close> denotes.\<close>

definition round_fixed :: "nat \<Rightarrow> real \<Rightarrow> real" where
  "round_fixed p x = of_int (round_half_even (x * 10 ^ p)) / 10 ^ p"

text \<open>Reading the format back: an optional minus sign, then \<open>parse_unsigned\<close>.\<close>

definition parse_unsigned :: "nat \<Rightarrow> string \<Rightarrow> real option" where
  "parse_unsigned p s =
     (let ip = takeWhile (\<lambda>c. c \<noteq> CHR ''.'') s;
          rest = dropWhile (\<lambda>c. c \<noteq> CHR ''.'') s
      in if ip = [] then None
         else case digits_acc 0 ip of
           None \<Rightarrow> None
         | Some i \<Rightarrow>
             (if p = 0 then (if rest = [] then Some (of_nat i) else None)
              else if length rest = Suc p
              then map_option (\<lambda>f. of_nat i + of_nat f / 10 ^ p) (digits_acc 0 (tl rest))
              else None))"

definition parse_fixed :: "nat \<Rightarrow> string \<Rightarrow> real option" where
  "parse_fixed p s =
     (if s \<noteq> [] \<and> hd s = CHR ''-'' then map_option uminus (parse_unsigned p (tl s))
      else parse_unsigned p s)"

section \<open>Digits\<close>

lemma digit_value_digit_char [simp]: "d < 10 \<Longrightarrow> digit_value (digit_char d) = Some d"
  by (simp add: digit_value_def digit_char_def)

lemma is_digit_digit_char [simp]: "d < 10 \<Longrightarrow> is_digit (digit_char d)"
  by (simp add: is_digit_def)

lemma not_is_digit_point [simp]: "\<not> is_digit (CHR ''.'')"
  by (simp add: is_digit_def digit_value_def)

lemma not_is_digit_minus [simp]: "\<not> is_digit (CHR ''-'')"
  by (simp add: is_digit_def digit_value_def)

lemma string_of_nat_digits: "c \<in> set (string_of_nat n) \<Longrightarrow> is_digit c"
proof (induction n rule: string_of_nat.induct)
  case (1 n)
  then show ?case
    by (cases "n < 10") (auto simp add: string_of_nat.simps [of n])
qed

lemma string_of_nat_not_Nil [simp]: "string_of_nat n \<noteq> []"
  by (simp add: string_of_nat.simps [of n])

lemma length_digits_pad [simp]: "length (digits_pad k n) = k"
  by (induction k arbitrary: n) simp_all

lemma digits_pad_numeral:
  "digits_pad (numeral k) n = digits_pad (pred_numeral k) (n div 10) @ [digit_char (n mod 10)]"
  by (subst numeral_eq_Suc) (rule digits_pad.simps(2))

lemma digits_acc_append:
  "digits_acc a (xs @ ys) = (case digits_acc a xs of None \<Rightarrow> None | Some b \<Rightarrow> digits_acc b ys)"
  by (induction a xs rule: digits_acc.induct) (simp_all split: option.split)

lemma digits_acc_string_of_nat:
  "digits_acc a (string_of_nat n) = Some (a * 10 ^ length (string_of_nat n) + n)"
proof (induction n arbitrary: a rule: string_of_nat.induct)
  case (1 n)
  show ?case
  proof (cases "n < 10")
    case True
    then show ?thesis by (simp add: string_of_nat.simps [of n])
  next
    case False
    let ?s = "string_of_nat (n div 10)"
    have s: "string_of_nat n = ?s @ [digit_char (n mod 10)]"
      using False by (simp add: string_of_nat.simps [of n])
    have "digits_acc a (string_of_nat n) = Some (10 * (a * 10 ^ length ?s + n div 10) + n mod 10)"
      using "1.IH" False by (simp add: s digits_acc_append)
    also have "\<dots> = Some (a * 10 ^ length (string_of_nat n) + n)"
      by (simp add: s algebra_simps)
    finally show ?thesis .
  qed
qed

lemma digits_acc_digits_pad:
  "digits_acc a (digits_pad k n) = Some (a * 10 ^ k + n mod 10 ^ k)"
proof (induction k arbitrary: a n)
  case 0
  then show ?case by simp
next
  case (Suc k)
  have "n mod 10 ^ Suc k = 10 * (n div 10 mod 10 ^ k) + n mod 10"
    by (simp add: mod_mult2_eq)
  with Suc.IH show ?case
    by (simp add: digits_acc_append algebra_simps)
qed

section \<open>Rounding\<close>

lemma round_half_even_cases:
  "round_half_even r = \<lfloor>r\<rfloor> \<or> round_half_even r = \<lfloor>r\<rfloor> + 1"
  by (simp add: round_half_even_def Let_def)

lemma round_half_even_dist: "\<bar>of_int (round_half_even r) - r\<bar> \<le> 1 / 2"
proof -
  have "of_int \<lfloor>r\<rfloor> \<le> r" and "r < of_int \<lfloor>r\<rfloor> + 1"
    by (simp_all add: of_int_floor_le)
  then show ?thesis
    by (auto simp add: round_half_even_def Let_def)
qed

lemma round_half_even_nonneg: "0 \<le> r \<Longrightarrow> 0 \<le> round_half_even r"
  using round_half_even_cases [of r] by auto

lemma round_half_even_neg: "r < 0 \<Longrightarrow> round_half_even r \<le> 0"
proof -
  assume "r < 0"
  then have "\<lfloor>r\<rfloor> \<le> -1" by linarith
  with round_half_even_cases [of r] show ?thesis by (elim disjE) linarith+
qed

lemma round_half_even_mono:
  assumes "x \<le> y" shows "round_half_even x \<le> round_half_even y"
proof (rule ccontr)
  assume "\<not> round_half_even x \<le> round_half_even y"
  then have lt: "of_int (round_half_even y) + 1 \<le> (of_int (round_half_even x) :: real)"
    by linarith
  have "y \<le> x"
    using round_half_even_dist [of x, unfolded abs_le_iff]
      round_half_even_dist [of y, unfolded abs_le_iff] lt
    by linarith
  with assms have "x = y" by simp
  with lt show False by simp
qed

section \<open>Reading back what was printed\<close>

lemma no_point_string_of_nat: "c \<in> set (string_of_nat n) \<Longrightarrow> c \<noteq> CHR ''.''"
  using string_of_nat_digits [of c n] by auto

lemma takeWhile_string_of_nat [simp]:
  "takeWhile (\<lambda>c. c \<noteq> CHR ''.'') (string_of_nat n) = string_of_nat n"
  by (simp add: takeWhile_eq_all_conv no_point_string_of_nat)

lemma dropWhile_string_of_nat [simp]:
  "dropWhile (\<lambda>c. c \<noteq> CHR ''.'') (string_of_nat n) = []"
  by (simp add: dropWhile_eq_Nil_conv no_point_string_of_nat)

lemma takeWhile_string_of_nat_point [simp]:
  "takeWhile (\<lambda>c. c \<noteq> CHR ''.'') (string_of_nat n @ CHR ''.'' # r) = string_of_nat n"
  by (simp add: takeWhile_append2 no_point_string_of_nat)

lemma dropWhile_string_of_nat_point [simp]:
  "dropWhile (\<lambda>c. c \<noteq> CHR ''.'') (string_of_nat n @ CHR ''.'' # r) = CHR ''.'' # r"
  by (simp add: dropWhile_append2 no_point_string_of_nat)

lemma real_div_mod_sum:
  assumes "0 < q"
  shows "real (m div q) + real (m mod q) / real q = real m / real q"
proof -
  have "real m = real (m div q) * real q + real (m mod q)"
    by (metis div_mult_mod_eq of_nat_add of_nat_mult)
  with assms show ?thesis by (simp add: field_simps)
qed

lemma parse_format_unsigned:
  "parse_unsigned p (format_unsigned p m) = Some (real m / 10 ^ p)"
proof -
  let ?I = "string_of_nat (m div 10 ^ p)"
  have acc: "digits_acc 0 ?I = Some (m div 10 ^ p)"
    by (simp add: digits_acc_string_of_nat)
  have q: "real (m div 10 ^ p) + real (m mod 10 ^ p) / 10 ^ p = real m / 10 ^ p"
    using real_div_mod_sum [of "10 ^ p" m] by simp
  show ?thesis
  proof (cases "p = 0")
    case True
    then show ?thesis
      using acc by (simp add: parse_unsigned_def format_unsigned_def)
  next
    case False
    then show ?thesis
      using acc q by (simp add: parse_unsigned_def format_unsigned_def digits_acc_digits_pad)
  qed
qed

lemma hd_format_unsigned: "format_unsigned p m \<noteq> [] \<and> is_digit (hd (format_unsigned p m))"
proof -
  obtain c cs where "string_of_nat (m div 10 ^ p) = c # cs"
    by (cases "string_of_nat (m div 10 ^ p)") simp_all
  moreover from this have "is_digit c"
    using string_of_nat_digits [of c "m div 10 ^ p"] by simp
  ultimately show ?thesis by (simp add: format_unsigned_def)
qed

lemma format_unsigned_not_Nil [simp]: "format_unsigned p m \<noteq> []"
  using hd_format_unsigned by blast

lemma hd_format_unsigned_not_minus [simp]: "hd (format_unsigned p m) \<noteq> CHR ''-''"
  using hd_format_unsigned [of p m] by auto

text \<open>Sign and magnitude of the rounded value give it back.\<close>

lemma round_sign_magnitude:
  "(if x < 0 then - real (nat \<bar>round_half_even (x * 10 ^ p)\<bar>)
    else real (nat \<bar>round_half_even (x * 10 ^ p)\<bar>)) = of_int (round_half_even (x * 10 ^ p))"
proof (cases "x < 0")
  case True
  then have "x * 10 ^ p < 0" by (simp add: mult_neg_pos)
  then have "round_half_even (x * 10 ^ p) \<le> 0" by (rule round_half_even_neg)
  with True show ?thesis by simp
next
  case False
  then have "0 \<le> x * 10 ^ p" by simp
  then have "0 \<le> round_half_even (x * 10 ^ p)" by (rule round_half_even_nonneg)
  with False show ?thesis by simp
qed

lemma parse_fixed_format_fixed [simp]:
  "parse_fixed p (format_fixed p x) = Some (round_fixed p x)"
proof (cases "x < 0")
  case True
  then show ?thesis
    using round_sign_magnitude [of x p]
    by (simp add: parse_fixed_def format_fixed_def round_fixed_def parse_format_unsigned)
next
  case False
  then show ?thesis
    using round_sign_magnitude [of x p]
    by (simp add: parse_fixed_def format_fixed_def round_fixed_def parse_format_unsigned)
qed

lemma round_fixed_dist: "\<bar>round_fixed p x - x\<bar> \<le> 1 / (2 * 10 ^ p)"
proof -
  let ?R = "of_int (round_half_even (x * 10 ^ p)) :: real"
  have pos: "(0::real) < 10 ^ p" by simp
  have "round_fixed p x - x = (?R - x * 10 ^ p) / 10 ^ p"
    using pos by (simp add: round_fixed_def diff_divide_distrib)
  then have "\<bar>round_fixed p x - x\<bar> = \<bar>?R - x * 10 ^ p\<bar> / 10 ^ p"
    by simp
  also have "\<dots> \<le> (1 / 2) / 10 ^ p"
    by (rule divide_right_mono [OF round_half_even_dist]) simp
  finally show ?thesis by simp
qed

lemma round_fixed_monotone: "x \<le> y \<Longrightarrow> round_fixed p x \<le> round_fixed p y"
  unfolding round_fixed_def
  by (intro divide_right_mono) (simp_all add: round_half_even_mono)

section \<open>The characters of a formatted number\<close>

lemma digits_pad_digits: "c \<in> set (digits_pad k n) \<Longrightarrow> is_digit c"
  by (induction k arbitrary: n) auto

lemma format_fixed_chars:
  "c \<in> set (format_fixed p x) \<Longrightarrow> is_digit c \<or> c = CHR ''-'' \<or> c = CHR ''.''"
  by (auto simp add: format_fixed_def format_unsigned_def split: if_splits
           dest: string_of_nat_digits digits_pad_digits)

lemma not_is_digit_space [simp]: "\<not> is_digit (CHR '' '')"
  by (simp add: is_digit_def digit_value_def)

lemma not_is_digit_semicolon [simp]: "\<not> is_digit (CHR '';'')"
  by (simp add: is_digit_def digit_value_def)

lemma space_notin_format_fixed [simp]: "CHR '' '' \<notin> set (format_fixed p x)"
  using format_fixed_chars [of "CHR '' ''" p x] by auto

lemma semicolon_notin_format_fixed [simp]: "CHR '';'' \<notin> set (format_fixed p x)"
  using format_fixed_chars [of "CHR '';''" p x] by auto


text \<open>Evaluating the format on a concrete value.\<close>

lemmas format_eval =
  format_fixed_def format_unsigned_def round_half_even_def string_of_nat.simps digit_char_def
  char_of_def bit_0 digits_pad_numeral

section \<open>Properties of the format\<close>

text \<open>
  C15. What \<^verbatim>\<open>{:.<p>f}\<close> prints denotes a number, read back by \<open>parse_fixed\<close>,
  within half a unit of the last printed place of the value formatted.
\<close>

theorem format_fixed_accurate:
  "\<exists>y. parse_fixed p (format_fixed p x) = Some y \<and> \<bar>y - x\<bar> \<le> 1 / (2 * 10 ^ p)"
  using round_fixed_dist by simp

text \<open>
  C28. Printing keeps the order: the numbers two \<^verbatim>\<open>{:.pf}\<close> fields denote, read
  back from the printed text, are ordered as the values formatted (a sign lost or a
  digit dropped would break it).
\<close>

theorem format_fixed_order:
  assumes "x \<le> y"
  shows "\<exists>a b. parse_fixed p (format_fixed p x) = Some a \<and> parse_fixed p (format_fixed p y) = Some b \<and>
                a \<le> b"
  using round_fixed_monotone [OF assms] by simp

theorem format_fixed_order_witness:
  "(-1.5 :: real) \<le> 0.5 \<and>
   (\<exists>a b. parse_fixed 3 (format_fixed 3 (-1.5)) = Some a \<and> parse_fixed 3 (format_fixed 3 0.5) = Some b \<and>
          a \<le> b)"
  using format_fixed_order [of "-1.5" "0.5" 3] by simp


text \<open>
  C20. The shape of a \<^verbatim>\<open>{:.pf}\<close> field with \<open>p > 0\<close>, the spec's "exactly three
  decimal places": the sign, a non-empty run of integer digits, the point, and
  exactly \<open>p\<close> fraction digits.
\<close>

theorem format_fixed_shape:
  assumes "0 < p"
  shows "\<exists>ip fr. format_fixed p x = (if x < 0 then ''-'' else []) @ ip @ CHR ''.'' # fr \<and>
                ip \<noteq> [] \<and> length fr = p \<and> (\<forall>c\<in>set (ip @ fr). is_digit c)"
proof -
  let ?m = "nat \<bar>round_half_even (x * 10 ^ p)\<bar>"
  let ?ip = "string_of_nat (?m div 10 ^ p)" and ?fr = "digits_pad p (?m mod 10 ^ p)"
  have "format_fixed p x = (if x < 0 then ''-'' else []) @ ?ip @ CHR ''.'' # ?fr"
    using assms by (simp add: format_fixed_def format_unsigned_def)
  moreover have "\<forall>c\<in>set (?ip @ ?fr). is_digit c"
    by (auto dest: string_of_nat_digits digits_pad_digits)
  ultimately show ?thesis by fastforce
qed

theorem format_fixed_shape_witness:
  "0 < (3::nat) \<and>
   (\<exists>ip fr. format_fixed 3 699.75 = [] @ ip @ CHR ''.'' # fr \<and>
            ip \<noteq> [] \<and> length fr = 3 \<and> (\<forall>c\<in>set (ip @ fr). is_digit c))"
  using format_fixed_shape [of 3 "699.75"] by simp

end
