(* ===== verification/InfoMessage.thy ===== *)
theory InfoMessage
  imports Decimal "HOL-Library.Monad_Syntax"
begin

text \<open>
  The dataclass \<^verbatim>\<open>InfoMessage\<close> (\<^verbatim>\<open>src/homework.py\<close>, lines 4--25): a record of five
  fields and \<^verbatim>\<open>get_message\<close>, which fills the class attribute \<^verbatim>\<open>MESSAGE\<close> with
  \<^verbatim>\<open>asdict(self).values()\<close>, the field values in declaration order. The template has
  one \<^verbatim>\<open>{}\<close> (the type name, a \<^verbatim>\<open>str\<close>, copied as it is) and four \<^verbatim>\<open>{:.3f}\<close>
  (\<open>format_fixed 3\<close>); \<^verbatim>\<open>MESSAGE\<close> is modelled as its six literal segments, between
  which the five formatted fields go. A parser reads a message back.
\<close>

record info_message =
  training_type :: string
  duration :: real
  distance :: real
  speed :: real
  calories :: real

section \<open>The template\<close>

text \<open>
  The literal text of \<^verbatim>\<open>MESSAGE\<close> (lines 12--16) around its five replacement fields,
  in UTF-8, the Russian words given by their code points. In English the segments read
  \<^verbatim>\<open>'Training type: '\<close>, \<^verbatim>\<open>'; Duration: '\<close>, \<^verbatim>\<open>' h.; Distance: '\<close>,
  \<^verbatim>\<open>' km; Avg. speed: '\<close>, \<^verbatim>\<open>' km/h; Calories burned: '\<close> and \<^verbatim>\<open>'.'\<close>.
\<close>

definition MESSAGE :: "string list" where
  "MESSAGE =
    [utf8 [0x422, 0x438, 0x43F] @ '' '' @
       utf8 [0x442, 0x440, 0x435, 0x43D, 0x438, 0x440, 0x43E, 0x432, 0x43A, 0x438] @ '': '',
     ''; '' @ utf8 [0x414, 0x43B, 0x438, 0x442, 0x435, 0x43B, 0x44C, 0x43D, 0x43E, 0x441, 0x442, 0x44C]
       @ '': '',
     '' '' @ utf8 [0x447] @ ''.; '' @
       utf8 [0x414, 0x438, 0x441, 0x442, 0x430, 0x43D, 0x446, 0x438, 0x44F] @ '': '',
     '' '' @ utf8 [0x43A, 0x43C] @ ''; '' @ utf8 [0x421, 0x440] @ ''. '' @
       utf8 [0x441, 0x43A, 0x43E, 0x440, 0x43E, 0x441, 0x442, 0x44C] @ '': '',
     '' '' @ utf8 [0x43A, 0x43C] @ ''/'' @ utf8 [0x447] @ ''; '' @
       utf8 [0x41F, 0x43E, 0x442, 0x440, 0x430, 0x447, 0x435, 0x43D, 0x43E] @ '' '' @
       utf8 [0x43A, 0x43A, 0x430, 0x43B] @ '': '',
     ''.'']"

text \<open>
  \<^verbatim>\<open>str.format\<close> with automatically numbered fields over a template of literal
  segments: segment, field \<open>i\<close>, segment, \<open>\<dots>\<close>, segment. A field with no argument left
  raises \<^verbatim>\<open>IndexError\<close>; arguments beyond the last field are ignored.
\<close>

fun format_fields :: "nat \<Rightarrow> string list \<Rightarrow> string list \<Rightarrow> string pyres" where
  "format_fields i [] fs = Inr []"
| "format_fields i [l] fs = Inr l"
| "format_fields i (l # l' # ls) [] = Inl (IndexError i)"
| "format_fields i (l # l' # ls) (f # fs) =
     pbind (format_fields (Suc i) (l' # ls) fs) (\<lambda>r. Inr (l @ f @ r))"

definition fill_template :: "string list \<Rightarrow> string list \<Rightarrow> string pyres" where
  "fill_template ls fs = format_fields 0 ls fs"

text \<open>\<^verbatim>\<open>asdict(self).values()\<close>, each formatted by its replacement field's spec.\<close>

definition message_fields :: "info_message \<Rightarrow> string list" where
  "message_fields m =
     [training_type m, format_fixed 3 (duration m), format_fixed 3 (distance m),
      format_fixed 3 (speed m), format_fixed 3 (calories m)]"

definition get_message :: "info_message \<Rightarrow> string pyres" where
  "get_message m = fill_template MESSAGE (message_fields m)"

text \<open>For stating properties: segments and fields alternately, as a plain string.\<close>

fun interleave :: "string list \<Rightarrow> string list \<Rightarrow> string" where
  "interleave (l # ls) (f # fs) = l @ f @ interleave ls fs"
| "interleave ls [] = concat ls"
| "interleave [] fs = []"

section \<open>Reading a message back\<close>

fun strip_prefix :: "string \<Rightarrow> string \<Rightarrow> string option" where
  "strip_prefix [] s = Some s"
| "strip_prefix (c # cs) [] = None"
| "strip_prefix (c # cs) (d # ds) = (if c = d then strip_prefix cs ds else None)"

text \<open>
  A formatted number ends at the next space; the type name ends at the first
  \<^verbatim>\<open>;\<close>; the last number is followed by the closing point.
\<close>

definition parse_message :: "string \<Rightarrow> (string \<times> real \<times> real \<times> real \<times> real) option" where
  "parse_message s = do {
     r0 \<leftarrow> strip_prefix (MESSAGE ! 0) s;
     let name = takeWhile (\<lambda>c. c \<noteq> CHR '';'') r0;
     r1 \<leftarrow> strip_prefix (MESSAGE ! 1) (dropWhile (\<lambda>c. c \<noteq> CHR '';'') r0);
     d \<leftarrow> parse_fixed 3 (takeWhile (\<lambda>c. c \<noteq> CHR '' '') r1);
     r2 \<leftarrow> strip_prefix (MESSAGE ! 2) (dropWhile (\<lambda>c. c \<noteq> CHR '' '') r1);
     x \<leftarrow> parse_fixed 3 (takeWhile (\<lambda>c. c \<noteq> CHR '' '') r2);
     r3 \<leftarrow> strip_prefix (MESSAGE ! 3) (dropWhile (\<lambda>c. c \<noteq> CHR '' '') r2);
     v \<leftarrow> parse_fixed 3 (takeWhile (\<lambda>c. c \<noteq> CHR '' '') r3);
     r4 \<leftarrow> strip_prefix (MESSAGE ! 4) (dropWhile (\<lambda>c. c \<noteq> CHR '' '') r3);
     if r4 \<noteq> [] \<and> last r4 = CHR ''.'' then do {
       k \<leftarrow> parse_fixed 3 (butlast r4);
       Some (name, d, x, v, k)
     } else None
   }"

section \<open>The message, piece by piece\<close>

lemma strip_prefix_append [simp]: "strip_prefix xs (xs @ ys) = Some ys"
  by (induction xs) simp_all

lemma format_fields_interleave:
  "length ls = Suc (length fs) \<Longrightarrow> format_fields i ls fs = Inr (interleave ls fs)"
  by (induction i ls fs rule: format_fields.induct) auto

lemma interleave_MESSAGE:
  "interleave MESSAGE [a, b, c, d, e] =
     MESSAGE ! 0 @ a @ MESSAGE ! 1 @ b @ MESSAGE ! 2 @ c @ MESSAGE ! 3 @ d @ MESSAGE ! 4 @ e @
     MESSAGE ! 5"
  by (simp add: MESSAGE_def)

lemma get_message_eq:
  "get_message m =
     Inr (MESSAGE ! 0 @ training_type m @ MESSAGE ! 1 @ format_fixed 3 (duration m) @
          MESSAGE ! 2 @ format_fixed 3 (distance m) @ MESSAGE ! 3 @ format_fixed 3 (speed m) @
          MESSAGE ! 4 @ format_fixed 3 (calories m) @ MESSAGE ! 5)"
proof -
  have "length MESSAGE = Suc (length (message_fields m))"
    by (simp add: MESSAGE_def message_fields_def)
  then show ?thesis
    by (simp add: get_message_def fill_template_def format_fields_interleave message_fields_def
        interleave_MESSAGE)
qed

text \<open>Where each literal segment starts: the type name ends at a semicolon, each number at a space.\<close>

lemma MESSAGE_starts:
  "\<exists>t. MESSAGE ! 1 = CHR '';'' # t" "\<exists>t. MESSAGE ! 2 = CHR '' '' # t"
  "\<exists>t. MESSAGE ! 3 = CHR '' '' # t" "\<exists>t. MESSAGE ! 4 = CHR '' '' # t"
  "MESSAGE ! 5 = ''.''"
  by (simp_all add: MESSAGE_def)

text \<open>The parser on the text of a message: each field is cut at its segment.\<close>

lemma parse_message_fields:
  assumes "CHR '';'' \<notin> set name"
  shows "parse_message
           (MESSAGE ! 0 @ name @ MESSAGE ! 1 @ format_fixed 3 a @ MESSAGE ! 2 @ format_fixed 3 b @
            MESSAGE ! 3 @ format_fixed 3 c @ MESSAGE ! 4 @ format_fixed 3 d @ MESSAGE ! 5) =
         Some (name, round_fixed 3 a, round_fixed 3 b, round_fixed 3 c, round_fixed 3 d)"
proof -
  obtain t1 t2 t3 t4 where
    "MESSAGE ! 1 = CHR '';'' # t1" "MESSAGE ! 2 = CHR '' '' # t2"
    "MESSAGE ! 3 = CHR '' '' # t3" "MESSAGE ! 4 = CHR '' '' # t4"
    using MESSAGE_starts by blast
  with assms show ?thesis
    by (simp add: parse_message_def MESSAGE_starts(5) butlast_append)
qed

section \<open>Properties of the message\<close>

text \<open>
  C14. A rendered message reads back: the type name, and the four values as rounded to
  three places, provided the name holds no semicolon (the class names hold none).
\<close>

theorem get_message_roundtrip:
  assumes "CHR '';'' \<notin> set (training_type m)"
  shows "\<exists>s. get_message m = Inr s \<and>
    parse_message s =
      Some (training_type m, round_fixed 3 (duration m), round_fixed 3 (distance m),
            round_fixed 3 (speed m), round_fixed 3 (calories m))"
  unfolding get_message_eq using parse_message_fields [OF assms] by simp

theorem get_message_roundtrip_witness:
  "\<exists>s. get_message \<lparr>training_type = ''Running'', duration = 1, distance = 9.75,
                      speed = 9.75, calories = 699.75\<rparr> = Inr s \<and>
     parse_message s =
       Some (''Running'', round_fixed 3 1, round_fixed 3 9.75, round_fixed 3 9.75,
             round_fixed 3 699.75)"
  using get_message_roundtrip [of "\<lparr>training_type = ''Running'', duration = 1, distance = 9.75,
                                   speed = 9.75, calories = 699.75\<rparr>"]
  by simp

end
