(* ===== verification/Training.thy ===== *)
theory Training
  imports InfoMessage
begin

text \<open>
  The calculation hierarchy of \<^verbatim>\<open>src/homework.py\<close> (lines 28--152): the base class
  \<^verbatim>\<open>Training\<close> and its subclasses \<^verbatim>\<open>Running\<close>, \<^verbatim>\<open>SportsWalking\<close> and \<^verbatim>\<open>Swimming\<close>.
  An instance is a value of \<open>workout\<close>, one constructor per class, holding the
  instance attributes as a record; the subclasses that add attributes extend the
  record \<open>training\<close> of the base class, as their \<^verbatim>\<open>__init__\<close> extends the base
  \<^verbatim>\<open>__init__\<close>. Each method of each class is one definition
  (\<open>Training_get_mean_speed\<close>, \<open>Swimming_get_mean_speed\<close>, \<dots>), and the method
  called on an instance is chosen by its class (\<open>get_mean_speed\<close>,
  \<open>get_spent_calories\<close>), as Python's attribute lookup chooses it. Class attributes
  are constants; \<^verbatim>\<open>LEN_STEP\<close>, the one a subclass overrides, is looked up by class.
  Numbers are reals: float arithmetic without rounding (see the root theory).
\<close>

section \<open>Classes, attributes and instances\<close>

datatype py_class = Training_class | Running_class | SportsWalking_class | Swimming_class

text \<open>Instance attributes set by \<^verbatim>\<open>Training.__init__\<close> (lines 34--41).\<close>

record training =
  action :: real
  duration :: real
  weight :: real

text \<open>\<^verbatim>\<open>SportsWalking.__init__\<close> (lines 97--104) adds \<^verbatim>\<open>height\<close>.\<close>

record sports_walking = training +
  height :: real

text \<open>\<^verbatim>\<open>Swimming.__init__\<close> (lines 129--137) adds the pool attributes, spelled as in the source.\<close>

record swimming = training +
  lenght_pool :: real
  count_pool :: real

datatype workout =
    Training training
  | Running training
  | SportsWalking sports_walking
  | Swimming swimming

primrec class_of :: "workout \<Rightarrow> py_class" where
  "class_of (Training t) = Training_class"
| "class_of (Running t) = Running_class"
| "class_of (SportsWalking s) = SportsWalking_class"
| "class_of (Swimming s) = Swimming_class"

text \<open>\<^verbatim>\<open>type(self).__name__\<close>.\<close>

primrec class_name :: "py_class \<Rightarrow> string" where
  "class_name Training_class = ''Training''"
| "class_name Running_class = ''Running''"
| "class_name SportsWalking_class = ''SportsWalking''"
| "class_name Swimming_class = ''Swimming''"

text \<open>The attributes every instance has from \<^verbatim>\<open>Training.__init__\<close>.\<close>

primrec base :: "workout \<Rightarrow> training" where
  "base (Training t) = t"
| "base (Running t) = t"
| "base (SportsWalking s) = training.truncate s"
| "base (Swimming s) = training.truncate s"

subsection \<open>Class attributes\<close>

definition M_IN_KM :: real where [class_attrs]: "M_IN_KM = 1000"

definition MINUT_IN_HOUR :: real where [class_attrs]: "MINUT_IN_HOUR = 60"

definition Training_LEN_STEP :: real where [class_attrs]: "Training_LEN_STEP = 0.65"

definition Swimming_LEN_STEP :: real where [class_attrs]: "Swimming_LEN_STEP = 1.38"

text \<open>\<^verbatim>\<open>self.LEN_STEP\<close>: \<^verbatim>\<open>Swimming\<close> overrides it, the others inherit it.\<close>

primrec LEN_STEP :: "py_class \<Rightarrow> real" where
  "LEN_STEP Training_class = Training_LEN_STEP"
| "LEN_STEP Running_class = Training_LEN_STEP"
| "LEN_STEP SportsWalking_class = Training_LEN_STEP"
| "LEN_STEP Swimming_class = Swimming_LEN_STEP"

definition Running_COEFF_CALORIE_1 :: real where [class_attrs]: "Running_COEFF_CALORIE_1 = 18"

definition Running_COEFF_CALORIE_2 :: real where [class_attrs]: "Running_COEFF_CALORIE_2 = 20"

definition SportsWalking_COEFF_CALORIE_1 :: real where
  [class_attrs]: "SportsWalking_COEFF_CALORIE_1 = 0.035"

text \<open>An \<^verbatim>\<open>int\<close> exponent: \<^verbatim>\<open>speed ** 2\<close> is the square of a float.\<close>

definition SportsWalking_COEFF_CALORIE_2 :: nat where
  [class_attrs]: "SportsWalking_COEFF_CALORIE_2 = 2"

definition SportsWalking_COEFF_CALORIE_3 :: real where
  [class_attrs]: "SportsWalking_COEFF_CALORIE_3 = 0.029"

definition Swimming_COEFF_CALORIE_1 :: real where [class_attrs]: "Swimming_COEFF_CALORIE_1 = 1.1"

definition Swimming_COEFF_CALORIE_2 :: real where [class_attrs]: "Swimming_COEFF_CALORIE_2 = 2"

section \<open>Methods\<close>

text \<open>\<^verbatim>\<open>Training.get_distance\<close> (lines 43--45), inherited by every subclass.\<close>

definition get_distance :: "workout \<Rightarrow> real" where
  "get_distance w = action (base w) * LEN_STEP (class_of w) / M_IN_KM"

text \<open>\<^verbatim>\<open>Training.get_mean_speed\<close> (lines 47--52).\<close>

definition Training_get_mean_speed :: "workout \<Rightarrow> real pyres" where
  "Training_get_mean_speed w = py_truediv (get_distance w) (duration (base w))"

text \<open>\<^verbatim>\<open>Swimming.get_mean_speed\<close> (lines 139--146).\<close>

definition Swimming_get_mean_speed :: "swimming \<Rightarrow> real pyres" where
  "Swimming_get_mean_speed s = py_truediv (lenght_pool s * count_pool s / M_IN_KM) (duration s)"

text \<open>\<^verbatim>\<open>self.get_mean_speed()\<close>: the override of \<^verbatim>\<open>Swimming\<close>, the base method otherwise.\<close>

fun get_mean_speed :: "workout \<Rightarrow> real pyres" where
  "get_mean_speed (Swimming s) = Swimming_get_mean_speed s"
| "get_mean_speed w = Training_get_mean_speed w"

text \<open>
  \<^verbatim>\<open>Training.get_spent_calories\<close> (lines 54--58) raises, naming the class of
  \<^verbatim>\<open>self\<close>: \<^verbatim>\<open>'Opredelite get_spent_calories v %s.'\<close> (Russian: define \<dots> in).
\<close>

definition Training_get_spent_calories :: "workout \<Rightarrow> real pyres" where
  "Training_get_spent_calories w =
     Inl (NotImplementedError
       (utf8 [0x41E, 0x43F, 0x440, 0x435, 0x434, 0x435, 0x43B, 0x438, 0x442, 0x435] @
        '' get_spent_calories '' @ utf8 [0x432] @ '' '' @ class_name (class_of w) @ ''.''))"

text \<open>\<^verbatim>\<open>Running.get_spent_calories\<close> (lines 76--88).\<close>

definition Running_get_spent_calories :: "training \<Rightarrow> real pyres" where
  "Running_get_spent_calories t =
     pbind (get_mean_speed (Running t)) (\<lambda>v.
       Inr ((Running_COEFF_CALORIE_1 * v - Running_COEFF_CALORIE_2) * weight t / M_IN_KM
            * duration t * MINUT_IN_HOUR))"

text \<open>
  \<^verbatim>\<open>SportsWalking.get_spent_calories\<close> (lines 106--120): \<^verbatim>\<open>**\<close> binds tighter than
  \<^verbatim>\<open>//\<close>, so the squared speed is floor-divided by the height.
\<close>

definition SportsWalking_get_spent_calories :: "sports_walking \<Rightarrow> real pyres" where
  "SportsWalking_get_spent_calories s =
     pbind (get_mean_speed (SportsWalking s)) (\<lambda>v.
     pbind (py_floordiv (v ^ SportsWalking_COEFF_CALORIE_2) (height s)) (\<lambda>q.
       Inr ((SportsWalking_COEFF_CALORIE_1 * weight s + q * SportsWalking_COEFF_CALORIE_3 * weight s)
            * duration s * MINUT_IN_HOUR)))"

text \<open>\<^verbatim>\<open>Swimming.get_spent_calories\<close> (lines 148--152).\<close>

definition Swimming_get_spent_calories :: "swimming \<Rightarrow> real pyres" where
  "Swimming_get_spent_calories s =
     pbind (get_mean_speed (Swimming s)) (\<lambda>v.
       Inr ((v + Swimming_COEFF_CALORIE_1) * Swimming_COEFF_CALORIE_2 * weight s))"

text \<open>\<^verbatim>\<open>self.get_spent_calories()\<close>: each subclass overrides it.\<close>

primrec get_spent_calories :: "workout \<Rightarrow> real pyres" where
  "get_spent_calories (Training t) = Training_get_spent_calories (Training t)"
| "get_spent_calories (Running t) = Running_get_spent_calories t"
| "get_spent_calories (SportsWalking s) = SportsWalking_get_spent_calories s"
| "get_spent_calories (Swimming s) = Swimming_get_spent_calories s"

text \<open>
  \<^verbatim>\<open>Training.show_training_info\<close> (lines 60--68). The arguments of the
  \<^verbatim>\<open>InfoMessage\<close> call are evaluated left to right; \<^verbatim>\<open>get_distance\<close> cannot raise,
  so the first that can is \<^verbatim>\<open>get_mean_speed\<close>, then \<^verbatim>\<open>get_spent_calories\<close>.
\<close>

definition show_training_info :: "workout \<Rightarrow> info_message pyres" where
  "show_training_info w =
     pbind (get_mean_speed w) (\<lambda>v.
     pbind (get_spent_calories w) (\<lambda>c.
       Inr \<lparr>training_type = class_name (class_of w), info_message.duration = duration (base w),
            distance = get_distance w, speed = v, calories = c\<rparr>))"

section \<open>Behaviour of the methods\<close>

lemma truncate_attrs [simp]:
  "action (training.truncate r) = action r" "duration (training.truncate r) = duration r"
  "weight (training.truncate r) = weight r"
  by (simp_all add: training.defs)

lemma class_attr_nonzero [simp]: "M_IN_KM \<noteq> 0" "MINUT_IN_HOUR \<noteq> 0"
  by (simp_all add: class_attrs)

lemma get_mean_speed_zero:
  "duration (base w) = 0 \<Longrightarrow> get_mean_speed w = Inl (ZeroDivisionError TrueDivision)"
  by (cases w) (simp_all add: Training_get_mean_speed_def Swimming_get_mean_speed_def)

lemma get_mean_speed_Swimming:
  "duration s \<noteq> 0 \<Longrightarrow>
   get_mean_speed (Swimming s) = Inr (lenght_pool s * count_pool s / M_IN_KM / duration s)"
  by (simp add: Swimming_get_mean_speed_def)

lemma get_mean_speed_default:
  "class_of w \<noteq> Swimming_class \<Longrightarrow> duration (base w) \<noteq> 0 \<Longrightarrow>
   get_mean_speed w = Inr (get_distance w / duration (base w))"
  by (cases w) (simp_all add: Training_get_mean_speed_def)

lemma get_mean_speed_Inr_iff: "(\<exists>v. get_mean_speed w = Inr v) \<longleftrightarrow> duration (base w) \<noteq> 0"
  by (cases w) (simp_all add: Training_get_mean_speed_def Swimming_get_mean_speed_def
      py_truediv_def)

lemma get_mean_speed_Inr_dest:
  "get_mean_speed w = Inr v \<Longrightarrow> duration (base w) \<noteq> 0"
  using get_mean_speed_Inr_iff by blast

lemmas calories_defs =
  Running_get_spent_calories_def SportsWalking_get_spent_calories_def
  Swimming_get_spent_calories_def Training_get_spent_calories_def

lemma get_spent_calories_zero:
  "duration (base w) = 0 \<Longrightarrow> class_of w \<noteq> Training_class \<Longrightarrow>
   get_spent_calories w = Inl (ZeroDivisionError TrueDivision)"
  by (cases w) (simp_all add: calories_defs get_mean_speed_zero del: get_mean_speed.simps)

lemma get_spent_calories_Training:
  "get_spent_calories (Training t) =
     Inl (NotImplementedError
       (utf8 [0x41E, 0x43F, 0x440, 0x435, 0x434, 0x435, 0x43B, 0x438, 0x442, 0x435] @
        '' get_spent_calories '' @ utf8 [0x432] @ '' Training.''))"
  by (simp add: Training_get_spent_calories_def)

lemma get_spent_calories_Inr_iff:
  "(\<exists>c. get_spent_calories w = Inr c) \<longleftrightarrow>
     class_of w \<noteq> Training_class \<and> duration (base w) \<noteq> 0 \<and>
     (case w of SportsWalking s \<Rightarrow> height s \<noteq> 0 | _ \<Rightarrow> True)"
proof (cases "duration (base w) = 0")
  case True
  with get_spent_calories_zero [OF True] show ?thesis
    by (cases w) (simp_all add: Training_get_spent_calories_def)
next
  case False
  then show ?thesis
    by (cases w) (simp_all add: calories_defs get_mean_speed_default get_mean_speed_Swimming
        py_floordiv_def del: get_mean_speed.simps)
qed

lemma show_training_info_Inr_iff_methods:
  "(\<exists>i. show_training_info w = Inr i) \<longleftrightarrow>
     (\<exists>v. get_mean_speed w = Inr v) \<and> (\<exists>c. get_spent_calories w = Inr c)"
  by (auto simp add: show_training_info_def pbind_eq_Inr_iff)

lemmas speed_defs = Training_get_mean_speed_def Swimming_get_mean_speed_def get_distance_def

section \<open>Properties of the hierarchy\<close>

text \<open>
  C5. \<^verbatim>\<open>show_training_info\<close> returns a message exactly for an instance of a subclass
  with a non-zero duration and, for a walk, a non-zero height; otherwise it raises.
\<close>

theorem show_training_info_Inr_iff:
  "(\<exists>i. show_training_info w = Inr i) \<longleftrightarrow>
     class_of w \<noteq> Training_class \<and> duration (base w) \<noteq> 0 \<and>
     (case w of SportsWalking s \<Rightarrow> height s \<noteq> 0 | _ \<Rightarrow> True)"
  by (auto simp add: show_training_info_Inr_iff_methods get_mean_speed_Inr_iff
      get_spent_calories_Inr_iff)

text \<open>
  C6. A zero duration raises \<^verbatim>\<open>ZeroDivisionError\<close> from the true division in
  \<^verbatim>\<open>get_mean_speed\<close>, for every class: also for the base class, whose missing
  \<^verbatim>\<open>get_spent_calories\<close> is never reached.
\<close>

theorem show_training_info_zero_duration:
  "duration (base w) = 0 \<Longrightarrow> show_training_info w = Inl (ZeroDivisionError TrueDivision)"
  by (simp add: show_training_info_def get_mean_speed_zero)

theorem show_training_info_zero_duration_witness:
  "show_training_info (Training \<lparr>action = 100, duration = 0, weight = 70\<rparr>) =
     Inl (ZeroDivisionError TrueDivision)"
  by (rule show_training_info_zero_duration) simp

text \<open>
  C7. An instance of the base class with a non-zero duration raises
  \<^verbatim>\<open>NotImplementedError\<close> with the message naming the class \<^verbatim>\<open>Training\<close>.
\<close>

theorem show_training_info_base_class:
  "duration t \<noteq> 0 \<Longrightarrow>
   show_training_info (Training t) =
     Inl (NotImplementedError
       (utf8 [0x41E, 0x43F, 0x440, 0x435, 0x434, 0x435, 0x43B, 0x438, 0x442, 0x435] @
        '' get_spent_calories '' @ utf8 [0x432] @ '' Training.''))"
  by (simp add: show_training_info_def speed_defs Training_get_spent_calories_def)

theorem show_training_info_base_class_witness:
  "show_training_info (Training \<lparr>action = 100, duration = 1, weight = 70\<rparr>) =
     Inl (NotImplementedError
       (utf8 [0x41E, 0x43F, 0x440, 0x435, 0x434, 0x435, 0x43B, 0x438, 0x442, 0x435] @
        '' get_spent_calories '' @ utf8 [0x432] @ '' Training.''))"
  by (rule show_training_info_base_class) simp

text \<open>
  C8. The calories of a run, for a non-zero duration, are
  \<open>(18 * speed - 20) * weight / 1000 * duration * 60\<close> with
  \<open>speed = action * 0.65 / 1000 / duration\<close>.
\<close>

theorem Running_calories_formula:
  "duration t \<noteq> 0 \<Longrightarrow>
   get_spent_calories (Running t) =
     Inr ((18 * (action t * 0.65 / 1000 / duration t) - 20) * weight t / 1000 * duration t * 60)"
  by (simp add: Running_get_spent_calories_def speed_defs class_attrs)

theorem Running_calories_formula_witness:
  "get_spent_calories (Running \<lparr>action = 15000, duration = 1, weight = 75\<rparr>) = Inr 699.75"
proof -
  have "get_spent_calories (Running \<lparr>action = 15000, duration = 1, weight = 75\<rparr>) =
     Inr ((18 * (15000 * 0.65 / 1000 / 1) - 20) * 75 / 1000 * 1 * 60)"
    using Running_calories_formula [of "\<lparr>action = 15000, duration = 1, weight = 75\<rparr>"] by simp
  then show ?thesis by simp
qed

text \<open>
  C9. The mean speed of a swim is \<open>length_pool * count_pool / 1000 / duration\<close>,
  whatever the number of strokes \<^verbatim>\<open>action\<close>.
\<close>

theorem Swimming_mean_speed_formula:
  "duration s \<noteq> 0 \<Longrightarrow>
   get_mean_speed (Swimming (s\<lparr>action := a\<rparr>)) =
     Inr (lenght_pool s * count_pool s / 1000 / duration s)"
  by (simp add: Swimming_get_mean_speed_def class_attrs)

theorem Swimming_mean_speed_formula_witness:
  "get_mean_speed
     (Swimming (\<lparr>action = 720, duration = 1, weight = 80, lenght_pool = 25, count_pool = 40\<rparr>
                \<lparr>action := 5\<rparr>)) = Inr 1"
  using Swimming_mean_speed_formula
    [of "\<lparr>action = 720, duration = 1, weight = 80, lenght_pool = 25, count_pool = 40\<rparr>" 5]
  by simp

text \<open>
  C10. Walking: when the squared mean speed is below the height (in the source's units,
  every walk slower than \<open>sqrt height\<close> km/h, about 13 km/h for 180 cm), the floor division
  \<^verbatim>\<open>speed ** 2 // height\<close> is 0 and the calories are \<open>0.035 * weight * duration * 60\<close>,
  the same for every speed.
\<close>

theorem SportsWalking_calories_speed_free:
  assumes "duration s \<noteq> 0" and "(action s * 0.65 / 1000 / duration s) ^ 2 < height s"
  shows "get_spent_calories (SportsWalking s) = Inr (0.035 * weight s * duration s * 60)"
proof -
  let ?v = "action s * 0.65 / 1000 / duration s"
  have h: "height s \<noteq> 0" using assms(2) by (metis power2_less_0 zero_power2 less_irrefl)
  have "\<lfloor>?v ^ 2 / height s\<rfloor> = 0"
    using assms(2) by (simp add: floor_divide_eq_zero)
  with assms(1) h show ?thesis
    by (simp add: SportsWalking_get_spent_calories_def speed_defs class_attrs)
qed

theorem SportsWalking_calories_speed_free_witness:
  "get_spent_calories (SportsWalking \<lparr>action = 9000, duration = 1, weight = 75, height = 180\<rparr>) =
     Inr 157.5"
proof -
  have "get_spent_calories (SportsWalking \<lparr>action = 9000, duration = 1, weight = 75, height = 180\<rparr>)
          = Inr (0.035 * 75 * 1 * 60)"
    using SportsWalking_calories_speed_free
      [of "\<lparr>action = 9000, duration = 1, weight = 75, height = 180\<rparr>"]
    by (simp add: power2_eq_square)
  then show ?thesis by simp
qed

text \<open>
  C16. For a run of positive duration and weight, the calories are negative exactly when
  the mean speed is below \<open>20 / 18 = 10 / 9\<close> km/h.
\<close>

theorem Running_calories_negative_iff:
  assumes "0 < duration t" and "0 < weight t"
    and "get_spent_calories (Running t) = Inr c"
  shows "c < 0 \<longleftrightarrow> action t * 0.65 / 1000 / duration t < 10 / 9"
proof -
  let ?v = "action t * 0.65 / 1000 / duration t"
  let ?k = "weight t / 1000 * duration t * 60"
  have "c = (18 * ?v - 20) * weight t / 1000 * duration t * 60"
    using assms by (simp add: Running_get_spent_calories_def speed_defs class_attrs)
  then have c: "c = (18 * ?v - 20) * ?k"
    by simp
  have "0 < ?k" using assms(1,2) by simp
  then have "c < 0 \<longleftrightarrow> 18 * ?v - 20 < 0"
    unfolding c by (rule mult_pos_neg_iff)
  then show ?thesis by linarith
qed

theorem Running_calories_negative_iff_witness:
  "get_spent_calories (Running \<lparr>action = 1000, duration = 1, weight = 75\<rparr>) = Inr (-37.35) \<and>
   (-37.35 < (0::real) \<longleftrightarrow> 1000 * 0.65 / 1000 / 1 < (10 / 9 :: real))"
proof -
  have c: "get_spent_calories (Running \<lparr>action = 1000, duration = 1, weight = 75\<rparr>) = Inr (-37.35)"
    by (simp add: Running_get_spent_calories_def speed_defs class_attrs)
  from Running_calories_negative_iff [of "\<lparr>action = 1000, duration = 1, weight = 75\<rparr>", OF _ _ c]
  show ?thesis using c by simp
qed

end
