(* ===== verification/ReadPackage.thy ===== *)
theory ReadPackage
  imports Training
begin

text \<open>
  The factory \<^verbatim>\<open>read_package\<close> (\<^verbatim>\<open>src/homework.py\<close>, lines 155--164): the dict
  \<^verbatim>\<open>parameters_workout\<close> from workout codes to classes, and the call
  \<^verbatim>\<open>cls(*data)\<close>, which Python checks against the number of positional parameters
  of the class's \<^verbatim>\<open>__init__\<close> (\<^verbatim>\<open>TypeError\<close> on a mismatch). An unknown code
  raises \<^verbatim>\<open>ValueError\<close> with a message naming it. The readings are reals; a
  reading that is no number is outside the model.
\<close>

section \<open>Calling a class\<close>

text \<open>The \<^verbatim>\<open>__init__\<close> that a call of the class runs, and its positional parameters.\<close>

primrec init_qualname :: "py_class \<Rightarrow> string" where
  "init_qualname Training_class = ''Training.__init__''"
| "init_qualname Running_class = ''Training.__init__''"
| "init_qualname SportsWalking_class = ''SportsWalking.__init__''"
| "init_qualname Swimming_class = ''Swimming.__init__''"

primrec init_arity :: "py_class \<Rightarrow> nat" where
  "init_arity Training_class = 3"
| "init_arity Running_class = 3"
| "init_arity SportsWalking_class = 4"
| "init_arity Swimming_class = 5"

text \<open>
  \<^verbatim>\<open>cls(*data)\<close>: the arguments bind to the parameters in order
  (\<^verbatim>\<open>Training.__init__\<close>, lines 34--41; \<^verbatim>\<open>SportsWalking.__init__\<close>, lines 97--104;
  \<^verbatim>\<open>Swimming.__init__\<close>, lines 129--137).
\<close>

fun instantiate :: "py_class \<Rightarrow> real list \<Rightarrow> workout pyres" where
  "instantiate Training_class [a, d, w] =
     Inr (Training \<lparr>action = a, duration = d, weight = w\<rparr>)"
| "instantiate Running_class [a, d, w] =
     Inr (Running \<lparr>action = a, duration = d, weight = w\<rparr>)"
| "instantiate SportsWalking_class [a, d, w, h] =
     Inr (SportsWalking \<lparr>action = a, duration = d, weight = w, height = h\<rparr>)"
| "instantiate Swimming_class [a, d, w, l, c] =
     Inr (Swimming \<lparr>action = a, duration = d, weight = w, lenght_pool = l, count_pool = c\<rparr>)"
| "instantiate cls data = Inl (TypeError (init_qualname cls) (init_arity cls) (length data))"

section \<open>The factory\<close>

text \<open>The dict literal \<^verbatim>\<open>parameters_workout\<close> (lines 157--160).\<close>

definition parameters_workout :: "string \<rightharpoonup> py_class" where
  "parameters_workout =
     [''SWM'' \<mapsto> Swimming_class, ''RUN'' \<mapsto> Running_class, ''WLK'' \<mapsto> SportsWalking_class]"

text \<open>
  \<^verbatim>\<open>read_package\<close> (lines 155--164); the message is
  \<^verbatim>\<open>f"Trenirovka {workout_type} ne naidena"\<close> (Russian: workout \<dots> not found).
\<close>

definition read_package :: "string \<Rightarrow> real list \<Rightarrow> workout pyres" where
  "read_package workout_type data =
     (case parameters_workout workout_type of
        Some cls \<Rightarrow> instantiate cls data
      | None \<Rightarrow> Inl (ValueError
          (utf8 [0x422, 0x440, 0x435, 0x43D, 0x438, 0x440, 0x43E, 0x432, 0x43A, 0x430] @ '' '' @
           workout_type @ '' '' @ utf8 [0x43D, 0x435] @ '' '' @
           utf8 [0x43D, 0x430, 0x439, 0x434, 0x435, 0x43D, 0x430])))"

text \<open>For stating properties: the positional arguments that build an instance.\<close>

primrec init_args :: "workout \<Rightarrow> real list" where
  "init_args (Training t) = [action t, duration t, weight t]"
| "init_args (Running t) = [action t, duration t, weight t]"
| "init_args (SportsWalking s) = [action s, duration s, weight s, height s]"
| "init_args (Swimming s) = [action s, duration s, weight s, lenght_pool s, count_pool s]"

section \<open>Calling a class, by cases\<close>

lemma instantiate_init_args: "instantiate (class_of w) (init_args w) = Inr w"
  by (cases w) simp_all

lemma length_init_args: "length (init_args w) = init_arity (class_of w)"
  by (cases w) simp_all

lemma instantiate_Inr: "instantiate cls data = Inr w \<Longrightarrow> class_of w = cls \<and> init_args w = data"
  by (induction cls data rule: instantiate.induct) auto

lemma instantiate_arity:
  "length data \<noteq> init_arity cls \<Longrightarrow>
   instantiate cls data = Inl (TypeError (init_qualname cls) (init_arity cls) (length data))"
  by (induction cls data rule: instantiate.induct) simp_all

lemma instantiate_ok_iff: "(\<exists>w. instantiate cls data = Inr w) \<longleftrightarrow> length data = init_arity cls"
proof
  assume "\<exists>w. instantiate cls data = Inr w"
  then obtain w where "instantiate cls data = Inr w" by blast
  from instantiate_Inr [OF this] show "length data = init_arity cls"
    using length_init_args [of w] by simp
next
  assume "length data = init_arity cls"
  then show "\<exists>w. instantiate cls data = Inr w"
    by (cases cls) (auto simp add: length_Suc_conv numeral_eq_Suc)
qed

lemma parameters_workout_Some_iff:
  "parameters_workout wt = Some cls \<longleftrightarrow>
     wt = ''SWM'' \<and> cls = Swimming_class \<or> wt = ''RUN'' \<and> cls = Running_class \<or>
     wt = ''WLK'' \<and> cls = SportsWalking_class"
  by (auto simp add: parameters_workout_def)

lemma parameters_workout_None_iff:
  "parameters_workout wt = None \<longleftrightarrow> wt \<notin> {''SWM'', ''RUN'', ''WLK''}"
  by (simp add: parameters_workout_def)

section \<open>Properties of the factory\<close>

text \<open>
  C1. \<^verbatim>\<open>read_package\<close> returns an instance exactly for the three codes with readings
  of the arity of the class's \<^verbatim>\<open>__init__\<close>: five for \<^verbatim>\<open>SWM\<close>, three for
  \<^verbatim>\<open>RUN\<close>, four for \<^verbatim>\<open>WLK\<close>.
\<close>

theorem read_package_Inr_iff:
  "(\<exists>w. read_package wt data = Inr w) \<longleftrightarrow>
     wt = ''SWM'' \<and> length data = 5 \<or> wt = ''RUN'' \<and> length data = 3 \<or>
     wt = ''WLK'' \<and> length data = 4"
proof (cases "parameters_workout wt")
  case None
  then have "wt \<notin> {''SWM'', ''RUN'', ''WLK''}" by (simp add: parameters_workout_None_iff)
  with None show ?thesis by (auto simp add: read_package_def)
next
  case (Some cls)
  then show ?thesis
    using parameters_workout_Some_iff [of wt cls]
    by (auto simp add: read_package_def instantiate_ok_iff)
qed

text \<open>
  C2. An unknown workout code raises \<^verbatim>\<open>ValueError\<close> carrying the code, whatever the
  readings.
\<close>

theorem read_package_unknown_code:
  "wt \<notin> {''SWM'', ''RUN'', ''WLK''} \<Longrightarrow>
   read_package wt data =
     Inl (ValueError
       (utf8 [0x422, 0x440, 0x435, 0x43D, 0x438, 0x440, 0x43E, 0x432, 0x43A, 0x430] @ '' '' @
        wt @ '' '' @ utf8 [0x43D, 0x435] @ '' '' @ utf8 [0x43D, 0x430, 0x439, 0x434, 0x435, 0x43D, 0x430]))"
  by (simp add: read_package_def parameters_workout_None_iff [THEN iffD2])

theorem read_package_unknown_code_witness:
  "read_package ''XYZ'' [1, 1, 1] =
     Inl (ValueError
       (utf8 [0x422, 0x440, 0x435, 0x43D, 0x438, 0x440, 0x43E, 0x432, 0x43A, 0x430] @ '' '' @
        ''XYZ'' @ '' '' @ utf8 [0x43D, 0x435] @ '' '' @
        utf8 [0x43D, 0x430, 0x439, 0x434, 0x435, 0x43D, 0x430]))"
  by (rule read_package_unknown_code) simp

text \<open>
  C3. A known code with readings of the wrong arity raises the \<^verbatim>\<open>TypeError\<close> of the
  class's \<^verbatim>\<open>__init__\<close>, not an error of the factory.
\<close>

theorem read_package_arity:
  "parameters_workout wt = Some cls \<Longrightarrow> length data \<noteq> init_arity cls \<Longrightarrow>
   read_package wt data = Inl (TypeError (init_qualname cls) (init_arity cls) (length data))"
  by (simp add: read_package_def instantiate_arity)

theorem read_package_arity_witness:
  "read_package ''RUN'' [15000, 1] = Inl (TypeError ''Training.__init__'' 3 2)"
proof -
  have "parameters_workout ''RUN'' = Some Running_class"
    by (simp add: parameters_workout_def)
  from read_package_arity [OF this, of "[15000, 1]"] show ?thesis by simp
qed

text \<open>
  C4. An instance the factory returns is of the class the code names and holds the
  readings, in order, as its constructor arguments.
\<close>

theorem read_package_init_args:
  "read_package wt data = Inr w \<Longrightarrow>
   parameters_workout wt = Some (class_of w) \<and> init_args w = data"
  using instantiate_Inr
  by (auto simp add: read_package_def split: option.splits)

theorem read_package_init_args_witness:
  "parameters_workout ''SWM'' = Some Swimming_class \<and>
   init_args (Swimming \<lparr>action = 720, duration = 1, weight = 80, lenght_pool = 25, count_pool = 40\<rparr>)
     = [720, 1, 80, 25, 40]"
proof -
  have "read_package ''SWM'' [720, 1, 80, 25, 40] =
        Inr (Swimming \<lparr>action = 720, duration = 1, weight = 80, lenght_pool = 25, count_pool = 40\<rparr>)"
    by (simp add: read_package_def parameters_workout_def)
  from read_package_init_args [OF this] show ?thesis by simp
qed

end
