(* ===== verification/Classes.thy ===== *)
theory Classes
  imports ReadPackage
begin

text \<open>
  The classes of \<^verbatim>\<open>src/homework.py\<close> as Python objects: the namespace of each class
  statement (its class attributes and the functions it defines), the bases, the method
  resolution order, attribute lookup on a class and on an instance (\<^verbatim>\<open>self.x\<close>:
  the instance's own attributes set by \<^verbatim>\<open>__init__\<close>, then the classes of the MRO),
  and Python's \<^verbatim>\<open>issubclass\<close> and \<^verbatim>\<open>isinstance\<close> over them. The property of
  the theory is the type of what the factory returns.
\<close>

section \<open>Class namespaces\<close>

text \<open>
  Values bound in a namespace: an \<^verbatim>\<open>int\<close> or \<^verbatim>\<open>float\<close> literal, or a function,
  named by its qualified name. Instance attributes hold the readings, which the model
  reads as reals (\<open>PyFloat\<close>).
\<close>

datatype py_value = PyInt int | PyFloat real | PyFunction string

text \<open>\<^verbatim>\<open>class Training:\<close> (lines 28--68): three class attributes and five functions.\<close>

definition Training_dict :: "string \<rightharpoonup> py_value" where
  "Training_dict =
     [''M_IN_KM'' \<mapsto> PyInt 1000, ''LEN_STEP'' \<mapsto> PyFloat 0.65, ''MINUT_IN_HOUR'' \<mapsto> PyInt 60,
      ''__init__'' \<mapsto> PyFunction ''Training.__init__'',
      ''get_distance'' \<mapsto> PyFunction ''Training.get_distance'',
      ''get_mean_speed'' \<mapsto> PyFunction ''Training.get_mean_speed'',
      ''get_spent_calories'' \<mapsto> PyFunction ''Training.get_spent_calories'',
      ''show_training_info'' \<mapsto> PyFunction ''Training.show_training_info'']"

text \<open>\<^verbatim>\<open>class Running(Training):\<close> (lines 71--88).\<close>

definition Running_dict :: "string \<rightharpoonup> py_value" where
  "Running_dict =
     [''COEFF_CALORIE_1'' \<mapsto> PyInt 18, ''COEFF_CALORIE_2'' \<mapsto> PyInt 20,
      ''get_spent_calories'' \<mapsto> PyFunction ''Running.get_spent_calories'']"

text \<open>\<^verbatim>\<open>class SportsWalking(Training):\<close> (lines 91--120).\<close>

definition SportsWalking_dict :: "string \<rightharpoonup> py_value" where
  "SportsWalking_dict =
     [''COEFF_CALORIE_1'' \<mapsto> PyFloat 0.035, ''COEFF_CALORIE_2'' \<mapsto> PyInt 2,
      ''COEFF_CALORIE_3'' \<mapsto> PyFloat 0.029,
      ''__init__'' \<mapsto> PyFunction ''SportsWalking.__init__'',
      ''get_spent_calories'' \<mapsto> PyFunction ''SportsWalking.get_spent_calories'']"

text \<open>\<^verbatim>\<open>class Swimming(Training):\<close> (lines 123--152); it rebinds \<^verbatim>\<open>LEN_STEP\<close>.\<close>

definition Swimming_dict :: "string \<rightharpoonup> py_value" where
  "Swimming_dict =
     [''LEN_STEP'' \<mapsto> PyFloat 1.38, ''COEFF_CALORIE_1'' \<mapsto> PyFloat 1.1,
      ''COEFF_CALORIE_2'' \<mapsto> PyInt 2,
      ''__init__'' \<mapsto> PyFunction ''Swimming.__init__'',
      ''get_mean_speed'' \<mapsto> PyFunction ''Swimming.get_mean_speed'',
      ''get_spent_calories'' \<mapsto> PyFunction ''Swimming.get_spent_calories'']"

text \<open>\<^verbatim>\<open>C.__dict__\<close>.\<close>

primrec class_dict :: "py_class \<Rightarrow> string \<rightharpoonup> py_value" where
  "class_dict Training_class = Training_dict"
| "class_dict Running_class = Running_dict"
| "class_dict SportsWalking_class = SportsWalking_dict"
| "class_dict Swimming_class = Swimming_dict"

section \<open>Bases and method resolution order\<close>

text \<open>\<^verbatim>\<open>C.__bases__\<close>, with \<^verbatim>\<open>object\<close> left out (it defines none of the names used).\<close>

primrec bases :: "py_class \<Rightarrow> py_class list" where
  "bases Training_class = []"
| "bases Running_class = [Training_class]"
| "bases SportsWalking_class = [Training_class]"
| "bases Swimming_class = [Training_class]"

text \<open>The depth of a class below \<^verbatim>\<open>Training\<close>; the MRO recursion descends it.\<close>

primrec class_depth :: "py_class \<Rightarrow> nat" where
  "class_depth Training_class = 0"
| "class_depth Running_class = 1"
| "class_depth SportsWalking_class = 1"
| "class_depth Swimming_class = 1"

text \<open>
  \<^verbatim>\<open>C.__mro__\<close>: the class, then the linearisations of its bases. With single
  inheritance this is the C3 linearisation.
\<close>

function mro :: "py_class \<Rightarrow> py_class list" where
  "mro cls = cls # concat (map mro (bases cls))"
  by auto
termination
proof (relation "measure class_depth")
  fix cls b
  assume "b \<in> set (bases cls)"
  then show "(b, cls) \<in> measure class_depth" by (cases cls) auto
qed simp

declare mro.simps [simp del]

section \<open>Attribute lookup\<close>

text \<open>The first class of a list whose namespace binds the name, with the value.\<close>

fun find_attr :: "py_class list \<Rightarrow> string \<Rightarrow> (py_class \<times> py_value) option" where
  "find_attr [] n = None"
| "find_attr (c # cs) n =
     (case class_dict c n of Some v \<Rightarrow> Some (c, v) | None \<Rightarrow> find_attr cs n)"

text \<open>\<^verbatim>\<open>getattr(C, n)\<close> on a class, and the class of the MRO that provides it.\<close>

definition class_getattr :: "py_class \<Rightarrow> string \<Rightarrow> py_value option" where
  "class_getattr cls n = map_option snd (find_attr (mro cls) n)"

definition defining_class :: "py_class \<Rightarrow> string \<Rightarrow> py_class option" where
  "defining_class cls n = map_option fst (find_attr (mro cls) n)"

text \<open>
  The instance namespace \<^verbatim>\<open>self.__dict__\<close> that \<^verbatim>\<open>__init__\<close> fills
  (\<^verbatim>\<open>Training.__init__\<close>, lines 39--41; \<^verbatim>\<open>SportsWalking.__init__\<close>, line 104;
  \<^verbatim>\<open>Swimming.__init__\<close>, lines 136--137, which stores the parameter
  \<^verbatim>\<open>length_pool\<close> as \<^verbatim>\<open>self.lenght_pool\<close>).
\<close>

primrec instance_dict :: "workout \<Rightarrow> string \<rightharpoonup> py_value" where
  "instance_dict (Training t) =
     [''action'' \<mapsto> PyFloat (action t), ''duration'' \<mapsto> PyFloat (duration t),
      ''weight'' \<mapsto> PyFloat (weight t)]"
| "instance_dict (Running t) =
     [''action'' \<mapsto> PyFloat (action t), ''duration'' \<mapsto> PyFloat (duration t),
      ''weight'' \<mapsto> PyFloat (weight t)]"
| "instance_dict (SportsWalking s) =
     [''action'' \<mapsto> PyFloat (action s), ''duration'' \<mapsto> PyFloat (duration s),
      ''weight'' \<mapsto> PyFloat (weight s), ''height'' \<mapsto> PyFloat (height s)]"
| "instance_dict (Swimming s) =
     [''action'' \<mapsto> PyFloat (action s), ''duration'' \<mapsto> PyFloat (duration s),
      ''weight'' \<mapsto> PyFloat (weight s), ''lenght_pool'' \<mapsto> PyFloat (lenght_pool s),
      ''count_pool'' \<mapsto> PyFloat (count_pool s)]"

text \<open>
  \<^verbatim>\<open>self.n\<close>: the instance namespace, then the MRO of its class; neither binding the
  name raises \<^verbatim>\<open>AttributeError\<close>.
\<close>

definition py_getattr :: "workout \<Rightarrow> string \<Rightarrow> py_value pyres" where
  "py_getattr w n =
     (case instance_dict w n of
        Some v \<Rightarrow> Inr v
      | None \<Rightarrow>
          (case class_getattr (class_of w) n of
             Some v \<Rightarrow> Inr v
           | None \<Rightarrow> Inl (AttributeError (class_name (class_of w)) n)))"

text \<open>\<^verbatim>\<open>issubclass(C, D)\<close> and \<^verbatim>\<open>isinstance(obj, D)\<close>.\<close>

definition issubclass :: "py_class \<Rightarrow> py_class \<Rightarrow> bool" where
  "issubclass c d \<longleftrightarrow> d \<in> set (mro c)"

definition isinstance :: "workout \<Rightarrow> py_class \<Rightarrow> bool" where
  "isinstance w d \<longleftrightarrow> issubclass (class_of w) d"

section \<open>The MRO, evaluated\<close>

lemma mro_eq: "mro cls = (if cls = Training_class then [Training_class] else [cls, Training_class])"
  by (cases cls) (simp_all add: mro.simps)

section \<open>Properties of the classes\<close>

text \<open>
  C17. Types: every object \<^verbatim>\<open>read_package\<close> returns is an instance of \<^verbatim>\<open>Training\<close>,
  as its annotation says, and of a proper subclass of it, never of the base class.
\<close>

theorem read_package_isinstance:
  assumes "read_package wt data = Inr w"
  shows "isinstance w Training_class \<and> class_of w \<noteq> Training_class"
proof -
  obtain cls where cls: "parameters_workout wt = Some cls" "instantiate cls data = Inr w"
    using assms by (auto simp add: read_package_def split: option.splits)
  then have "class_of w = cls" using instantiate_Inr by blast
  moreover have "cls \<noteq> Training_class"
    using cls(1) parameters_workout_Some_iff by auto
  ultimately show ?thesis
    by (simp add: isinstance_def issubclass_def mro_eq)
qed

theorem read_package_isinstance_witness:
  "isinstance (Running \<lparr>action = 15000, duration = 1, weight = 75\<rparr>) Training_class \<and>
   Running_class \<noteq> Training_class"
proof -
  have "read_package ''RUN'' [15000, 1, 75] = Inr (Running \<lparr>action = 15000, duration = 1, weight = 75\<rparr>)"
    by (simp add: read_package_def parameters_workout_def)
  from read_package_isinstance [OF this] show ?thesis by simp
qed

end
