(* ===== verification/PyFormat.thy ===== *)
theory PyFormat
  imports InfoMessage
begin

text \<open>
  Python's \<^verbatim>\<open>str.format\<close> with positional arguments, for the format strings this
  program can meet: literal text, the escapes \<^verbatim>\<open>{{\<close> and \<^verbatim>\<open>}}\<close>, and
  replacement fields \<^verbatim>\<open>{}\<close>, \<^verbatim>\<open>{i}\<close>, \<^verbatim>\<open>{:.pf}\<close>, \<^verbatim>\<open>{i:.pf}\<close> and keyword
  fields \<^verbatim>\<open>{name}\<close>, scanned
  left to right as CPython's \<^verbatim>\<open>MarkupIterator\<close> does, with its errors (a single
  brace, an unclosed field, switching between automatic and manual numbering, an
  index out of range, a keyword with no keyword arguments, the format code
  \<^verbatim>\<open>f\<close> on a \<^verbatim>\<open>str\<close>). A format string or an argument outside this subset
  (attribute or item access in a field name, a conversion
  \<^verbatim>\<open>!r\<close>, nested fields, other format specifications, \<^verbatim>\<open>{}\<close> of a float) gives
  \<open>None\<close>: not modelled, rather than a guess. The template \<^verbatim>\<open>MESSAGE\<close> is given
  here as the literal of the source (lines 12--16), and the theory proves that
  formatting it with \<^verbatim>\<open>asdict(self).values()\<close> is the \<open>get_message\<close> of
  \<open>InfoMessage\<close>, and that the segment model \<open>fill_template\<close> is this engine on
  every template of literal segments and \<^verbatim>\<open>{}\<close> fields.
\<close>

section \<open>Arguments and the numbering state\<close>

text \<open>An argument: a \<^verbatim>\<open>str\<close>, or a number (an \<^verbatim>\<open>int\<close> or \<^verbatim>\<open>float\<close>, as a real).\<close>

datatype fmt_arg = FStr string | FNum real

text \<open>
  CPython's \<^verbatim>\<open>AutoNumberState\<close>: no field numbered yet, automatic numbering
  (\<^verbatim>\<open>{}\<close>), or manual (\<^verbatim>\<open>{0}\<close>); the next automatic index is kept beside it.
\<close>

datatype numbering = Unnumbered | AutoNumbered | ManualNumbered

text \<open>Text in single quotes, as Python's error messages quote names.\<close>

definition py_quote :: "string \<Rightarrow> string" where
  "py_quote s = CHR 0x27 # s @ [CHR 0x27]"

text \<open>Output text in front of the rest of the result, when the rest succeeds.\<close>

definition fcons :: "string \<Rightarrow> string pyres option \<Rightarrow> string pyres option" where
  "fcons s r = map_option (map_sum id (\<lambda>t. s @ t)) r"

section \<open>Replacement fields\<close>

text \<open>
  The argument index of a field name, and the numbering state after it. Any other
  name is a keyword, looked up in the keyword arguments; the program passes none, so
  it raises \<^verbatim>\<open>KeyError\<close>. Attribute and item access in a field name
  (\<^verbatim>\<open>{0.x}\<close>, \<^verbatim>\<open>{0[1]}\<close>) is not modelled.
\<close>

definition field_index ::
  "numbering \<Rightarrow> nat \<Rightarrow> string \<Rightarrow> (nat \<times> numbering \<times> nat) pyres option" where
  "field_index st n name =
     (if name = [] then
        (if st = ManualNumbered
         then Some (Inl (ValueError
           ''cannot switch from manual field specification to automatic field numbering''))
         else Some (Inr (n, AutoNumbered, Suc n)))
      else if list_all is_digit name then
        (if st = AutoNumbered
         then Some (Inl (ValueError
           ''cannot switch from automatic field numbering to manual field specification''))
         else map_option (\<lambda>i. Inr (i, ManualNumbered, n)) (digits_acc 0 name))
      else if CHR ''.'' \<in> set name \<or> CHR ''['' \<in> set name then None
      else Some (Inl (KeyError name)))"

text \<open>
  A field's text up to its closing brace: field name, then the format specification
  after the first colon.
\<close>

definition split_field :: "string \<Rightarrow> (string \<times> string) option" where
  "split_field body =
     (if CHR ''{'' \<in> set body \<or> CHR ''!'' \<in> set body then None
      else Some (takeWhile (\<lambda>c. c \<noteq> CHR '':'') body, drop 1 (dropWhile (\<lambda>c. c \<noteq> CHR '':'') body)))"

text \<open>The precision of a specification \<^verbatim>\<open>.pf\<close>.\<close>

definition fixed_precision :: "string \<Rightarrow> nat option" where
  "fixed_precision spec =
     (if 3 \<le> length spec \<and> hd spec = CHR ''.'' \<and> last spec = CHR ''f''
      then digits_acc 0 (butlast (tl spec)) else None)"

text \<open>
  \<^verbatim>\<open>format(value, spec)\<close>: a \<^verbatim>\<open>str\<close> with the empty specification is itself;
  \<^verbatim>\<open>.pf\<close> on a \<^verbatim>\<open>str\<close> raises \<^verbatim>\<open>ValueError\<close>; a number with \<^verbatim>\<open>.pf\<close> is
  \<open>format_fixed p\<close>.
\<close>

definition format_arg :: "fmt_arg \<Rightarrow> string \<Rightarrow> string pyres option" where
  "format_arg a spec =
     (case a of
        FStr s \<Rightarrow>
          if spec = [] then Some (Inr s)
          else if fixed_precision spec \<noteq> None
          then Some (Inl (ValueError (''Unknown format code '' @ py_quote ''f'' @
                                      '' for object of type '' @ py_quote ''str'')))
          else None
      | FNum x \<Rightarrow> map_option (\<lambda>p. Inr (format_fixed p x)) (fixed_precision spec))"

section \<open>The scan\<close>

text \<open>
  One pass over the format string, left to right: the first error met is the one
  raised.
\<close>

function fmt_run :: "numbering \<Rightarrow> nat \<Rightarrow> fmt_arg list \<Rightarrow> string \<Rightarrow> string pyres option" where
  "fmt_run st n args [] = Some (Inr [])"
| "fmt_run st n args (c # cs) =
     (if c = CHR ''{'' then
        (if cs = [] then Some (Inl (ValueError (''Single '' @ py_quote ''{'' @ '' encountered in format string'')))
         else if hd cs = CHR ''{'' then fcons ''{'' (fmt_run st n args (tl cs))
         else if CHR ''}'' \<notin> set cs
         then Some (Inl (ValueError (''expected '' @ py_quote ''}'' @ '' before end of string'')))
         else
           (case split_field (takeWhile (\<lambda>x. x \<noteq> CHR ''}'') cs) of
              None \<Rightarrow> None
            | Some (name, spec) \<Rightarrow>
                (case field_index st n name of
                   None \<Rightarrow> None
                 | Some (Inl e) \<Rightarrow> Some (Inl e)
                 | Some (Inr (i, st', n')) \<Rightarrow>
                     if i < length args then
                       (case format_arg (args ! i) spec of
                          None \<Rightarrow> None
                        | Some (Inl e) \<Rightarrow> Some (Inl e)
                        | Some (Inr s) \<Rightarrow>
                            fcons s (fmt_run st' n' args (tl (dropWhile (\<lambda>x. x \<noteq> CHR ''}'') cs))))
                     else Some (Inl (IndexError i)))))
      else if c = CHR ''}'' then
        (if cs \<noteq> [] \<and> hd cs = CHR ''}'' then fcons ''}'' (fmt_run st n args (tl cs))
         else Some (Inl (ValueError (''Single '' @ py_quote ''}'' @ '' encountered in format string''))))
      else fcons [c] (fmt_run st n args cs))"
  by pat_completeness auto
termination
  by (relation "measure (\<lambda>(st, n, args, s). length s)")
    (auto simp add: le_imp_less_Suc le_trans [OF diff_le_self length_dropWhile_le])

text \<open>\<^verbatim>\<open>template.format(*args)\<close>.\<close>

definition py_format :: "string \<Rightarrow> fmt_arg list \<Rightarrow> string pyres option" where
  "py_format template args = fmt_run Unnumbered 0 args template"

section \<open>The program's template\<close>

text \<open>
  \<^verbatim>\<open>InfoMessage.MESSAGE\<close> (lines 12--16), the five adjacent literals joined, in
  UTF-8, the Russian words by their code points.
\<close>

definition MESSAGE_literal :: string where
  "MESSAGE_literal =
     utf8 [0x422, 0x438, 0x43F] @ '' '' @
     utf8 [0x442, 0x440, 0x435, 0x43D, 0x438, 0x440, 0x43E, 0x432, 0x43A, 0x438] @ '': {}; '' @
     utf8 [0x414, 0x43B, 0x438, 0x442, 0x435, 0x43B, 0x44C, 0x43D, 0x43E, 0x441, 0x442, 0x44C] @
     '': {:.3f} '' @ utf8 [0x447] @ ''.; '' @
     utf8 [0x414, 0x438, 0x441, 0x442, 0x430, 0x43D, 0x446, 0x438, 0x44F] @ '': {:.3f} '' @
     utf8 [0x43A, 0x43C] @ ''; '' @
     utf8 [0x421, 0x440] @ ''. '' @ utf8 [0x441, 0x43A, 0x43E, 0x440, 0x43E, 0x441, 0x442, 0x44C] @
     '': {:.3f} '' @ utf8 [0x43A, 0x43C] @ ''/'' @ utf8 [0x447] @ ''; '' @
     utf8 [0x41F, 0x43E, 0x442, 0x440, 0x430, 0x447, 0x435, 0x43D, 0x43E] @ '' '' @
     utf8 [0x43A, 0x43A, 0x430, 0x43B] @ '': {:.3f}.''"

text \<open>\<^verbatim>\<open>asdict(self).values()\<close>: the fields in declaration order.\<close>

definition asdict_values :: "info_message \<Rightarrow> fmt_arg list" where
  "asdict_values m =
     [FStr (training_type m), FNum (duration m), FNum (distance m), FNum (speed m), FNum (calories m)]"

section \<open>The scan, by pieces\<close>

lemma fcons_Nil [simp]: "fcons [] r = r"
proof (cases r)
  case (Some a)
  then show ?thesis by (cases a) (simp_all add: fcons_def)
qed (simp add: fcons_def)

lemma fcons_fcons [simp]: "fcons a (fcons b r) = fcons (a @ b) r"
proof (cases r)
  case (Some x)
  then show ?thesis by (cases x) (simp_all add: fcons_def)
qed (simp add: fcons_def)

lemma fcons_Some_Inr [simp]: "fcons a (Some (Inr t)) = Some (Inr (a @ t))"
  by (simp add: fcons_def)

lemma fcons_Some_Inl [simp]: "fcons a (Some (Inl e)) = Some (Inl e)"
  by (simp add: fcons_def)

lemma fcons_None [simp]: "fcons a None = None"
  by (simp add: fcons_def)

lemma fmt_run_other:
  "CHR ''{'' \<noteq> c \<Longrightarrow> CHR ''}'' \<noteq> c \<Longrightarrow>
   fmt_run st n args (c # cs) = fcons [c] (fmt_run st n args cs)"
  by simp

lemma fmt_run_literal:
  "CHR ''{'' \<notin> set lit \<Longrightarrow> CHR ''}'' \<notin> set lit \<Longrightarrow>
   fmt_run st n args (lit @ rest) = fcons lit (fmt_run st n args rest)"
  by (induction lit) (simp_all add: fmt_run_other del: fmt_run.simps)

lemma fmt_run_auto_field:
  assumes "st \<noteq> ManualNumbered" "CHR ''{'' \<notin> set spec" "CHR ''}'' \<notin> set spec" "CHR ''!'' \<notin> set spec"
  shows "fmt_run st n args (CHR ''{'' # CHR '':'' # spec @ CHR ''}'' # rest) =
     (if n < length args then
        (case format_arg (args ! n) spec of
           None \<Rightarrow> None
         | Some (Inl e) \<Rightarrow> Some (Inl e)
         | Some (Inr s) \<Rightarrow> fcons s (fmt_run AutoNumbered (Suc n) args rest))
      else Some (Inl (IndexError n)))"
  using assms by (simp add: split_field_def field_index_def split: option.split sum.split)

lemma fmt_run_auto_field_empty:
  assumes "st \<noteq> ManualNumbered"
  shows "fmt_run st n args (CHR ''{'' # CHR ''}'' # rest) =
     (if n < length args then
        (case format_arg (args ! n) [] of
           None \<Rightarrow> None
         | Some (Inl e) \<Rightarrow> Some (Inl e)
         | Some (Inr s) \<Rightarrow> fcons s (fmt_run AutoNumbered (Suc n) args rest))
      else Some (Inl (IndexError n)))"
  using assms by (simp add: split_field_def field_index_def split: option.split sum.split)

lemma fmt_run_fixed_field:
  assumes "st \<noteq> ManualNumbered" "is_digit d"
  shows "fmt_run st n args (CHR ''{'' # CHR '':'' # CHR ''.'' # d # CHR ''f'' # CHR ''}'' # rest) =
     (if n < length args then
        (case format_arg (args ! n) [CHR ''.'', d, CHR ''f''] of
           None \<Rightarrow> None
         | Some (Inl e) \<Rightarrow> Some (Inl e)
         | Some (Inr s) \<Rightarrow> fcons s (fmt_run AutoNumbered (Suc n) args rest))
      else Some (Inl (IndexError n)))"
proof -
  from assms(2) have "CHR ''{'' \<noteq> d" "CHR ''}'' \<noteq> d" "CHR ''!'' \<noteq> d"
    by (auto simp add: is_digit_def digit_value_def)
  with assms(1) show ?thesis
    by (simp add: split_field_def field_index_def split: option.split sum.split)
qed

lemma format_arg_fixed:
  "digit_value d = Some p \<Longrightarrow> format_arg (FNum x) [CHR ''.'', d, CHR ''f''] = Some (Inr (format_fixed p x))"
  by (simp add: format_arg_def fixed_precision_def)

lemma format_arg_str [simp]: "format_arg (FStr s) [] = Some (Inr s)"
  by (simp add: format_arg_def)

lemma fcons_Some: "fcons a (Some r) = Some (pbind r (\<lambda>t. Inr (a @ t)))"
  by (cases r) (simp_all add: fcons_def)

lemma digit_value_3: "is_digit (CHR ''3'')" "digit_value (CHR ''3'') = Some 3"
  by (simp_all add: is_digit_def digit_value_def)

text \<open>Scanning the program's template, piece by piece.\<close>

lemmas message_scan =
  fmt_run_literal utf8_two_byte_notin fmt_run_other fmt_run_auto_field_empty
  fmt_run_fixed_field format_arg_fixed digit_value_3 MESSAGE_def fmt_run.simps(1)

text \<open>
  The segment model on a template of literal segments and automatic \<^verbatim>\<open>{}\<close> fields
  with \<^verbatim>\<open>str\<close> arguments, from field \<open>i\<close> on.
\<close>

lemma fmt_run_interleave:
  assumes "\<forall>l\<in>set ls. CHR ''{'' \<notin> set l \<and> CHR ''}'' \<notin> set l" "st \<noteq> ManualNumbered"
  shows "fmt_run st i (map FStr fs) (interleave ls (replicate (length ls - 1) ''{}'')) =
           Some (format_fields i ls (drop i fs))"
  using assms
proof (induction ls arbitrary: st i)
  case Nil
  then show ?case by simp
next
  case (Cons l ls)
  show ?case
  proof (cases ls)
    case Nil
    with Cons.prems show ?thesis
      using fmt_run_literal [of l st i "map FStr fs" "[]"] by simp
  next
    case (Cons l' ls')
    have rest: "interleave (l # ls) (replicate (length (l # ls) - 1) ''{}'') =
                l @ CHR ''{'' # CHR ''}'' # interleave ls (replicate (length ls - 1) ''{}'')"
      using Cons by simp
    show ?thesis
    proof (cases "i < length fs")
      case True
      then have "drop i fs = fs ! i # drop (Suc i) fs" by (simp add: Cons_nth_drop_Suc)
      with True Cons Cons.prems Cons.IH [of AutoNumbered "Suc i"] show ?thesis
        unfolding rest
        by (simp add: fmt_run_literal fmt_run_auto_field_empty fcons_Some pbind_assoc del: fmt_run.simps)
    next
      case False
      with Cons Cons.prems show ?thesis
        unfolding rest
        by (simp add: fmt_run_literal fmt_run_auto_field_empty del: fmt_run.simps)
    qed
  qed
qed

section \<open>The engine on the program's template\<close>

text \<open>
  The literal of lines 12--16 formatted with \<^verbatim>\<open>asdict(self).values()\<close> by the
  engine is the message of \<open>get_message\<close>; and the segment model \<open>fill_template\<close>
  is the engine on every template of brace-free segments and \<^verbatim>\<open>{}\<close> fields with
  \<^verbatim>\<open>str\<close> arguments. These relate the segment model used by the properties to
  \<^verbatim>\<open>str.format\<close>.
\<close>

lemma message_literal_format: "py_format MESSAGE_literal (asdict_values m) = Some (get_message m)"
  unfolding py_format_def MESSAGE_literal_def asdict_values_def get_message_eq
  by (simp add: message_scan del: fmt_run.simps(2))

lemma fill_template_is_format:
  assumes "\<forall>l\<in>set ls. CHR ''{'' \<notin> set l \<and> CHR ''}'' \<notin> set l"
  shows "py_format (interleave ls (replicate (length ls - 1) ''{}'')) (map FStr fs) =
           Some (fill_template ls fs)"
  using fmt_run_interleave [OF assms, of Unnumbered 0 fs]
  by (simp add: py_format_def fill_template_def)

end
