(* ===== verification/Binary64.thy ===== *)
theory Binary64
  imports Decimal
begin

text \<open>
  Python's \<^verbatim>\<open>float\<close>: an IEEE-754 binary64 number, and the operations the program
  applies to floats (\<^verbatim>\<open>+\<close>, \<^verbatim>\<open>-\<close>, \<^verbatim>\<open>*\<close>, \<^verbatim>\<open>/\<close>, \<^verbatim>\<open>//\<close>, \<^verbatim>\<open>** 2\<close>)
  as CPython computes them: each result of the C double operation rounded to the
  nearest double, ties to even, with overflow to infinity, signed zeros and NaN; the
  Python-level checks on top (\<^verbatim>\<open>ZeroDivisionError\<close> for a zero divisor of \<^verbatim>\<open>/\<close> and
  \<^verbatim>\<open>//\<close>, \<^verbatim>\<open>OverflowError\<close> for \<^verbatim>\<open>**\<close>); floor division by CPython's algorithm
  \<^verbatim>\<open>_float_div_mod\<close>; and \<^verbatim>\<open>format(x, '.pf')\<close> of a float. The exact value of a
  finite double is a real; every finite value this theory builds is rounded by
  \<open>round64\<close>, so it is a double.
\<close>

section \<open>Values\<close>

text \<open>
  A double: a finite value (\<open>Fin 0\<close> is \<^verbatim>\<open>0.0\<close>), \<^verbatim>\<open>-0.0\<close>, the two infinities,
  or NaN.
\<close>

datatype f64 = Fin real | NegZero | PosInf | NegInf | NaN

text \<open>
  The sign bit, the zero test, the infinity and finiteness tests and the value of a
  finite double.
\<close>

primrec f_neg :: "f64 \<Rightarrow> bool" where
  "f_neg (Fin x) = (x < 0)"
| "f_neg NegZero = True"
| "f_neg PosInf = False"
| "f_neg NegInf = True"
| "f_neg NaN = False"

primrec f_zero :: "f64 \<Rightarrow> bool" where
  "f_zero (Fin x) = (x = 0)"
| "f_zero NegZero = True"
| "f_zero PosInf = False"
| "f_zero NegInf = False"
| "f_zero NaN = False"

definition f_inf :: "f64 \<Rightarrow> bool" where
  "f_inf a \<longleftrightarrow> a = PosInf \<or> a = NegInf"

definition f_finite :: "f64 \<Rightarrow> bool" where
  "f_finite a \<longleftrightarrow> a \<noteq> NaN \<and> \<not> f_inf a"

primrec f_val :: "f64 \<Rightarrow> real" where
  "f_val (Fin x) = x"
| "f_val NegZero = 0"
| "f_val PosInf = 0"
| "f_val NegInf = 0"
| "f_val NaN = 0"

section \<open>Rounding\<close>

text \<open>
  The exponent of the binade of \<open>x > 0\<close>, \<open>2 ^ e \<le> x < 2 ^ (e + 1)\<close>, found by
  search; below \<open>2 ^ -1022\<close> the subnormal range keeps the exponent \<open>-1022\<close>. The fuel
  covers the whole range of finite doubles.
\<close>

fun exp_up :: "nat \<Rightarrow> int \<Rightarrow> real \<Rightarrow> int" where
  "exp_up 0 e x = e"
| "exp_up (Suc k) e x = (if 2 powi (e + 1) \<le> x then exp_up k (e + 1) x else e)"

fun exp_down :: "nat \<Rightarrow> int \<Rightarrow> real \<Rightarrow> int" where
  "exp_down 0 e x = e"
| "exp_down (Suc k) e x = (if x < 2 powi e then exp_down k (e - 1) x else e)"

definition float_exp :: "real \<Rightarrow> int" where
  "float_exp x = (if 1 \<le> x then exp_up 1024 0 x else exp_down 1022 0 x)"

text \<open>Rounding to a multiple of the unit in the last place, \<open>2 ^ (e - 52)\<close>, ties to even.\<close>

definition round_binary64 :: "real \<Rightarrow> real" where
  "round_binary64 x =
     (if x = 0 then 0
      else let q = 2 powi (float_exp \<bar>x\<bar> - 52) in of_int (round_half_even (x / q)) * q)"

text \<open>The least magnitude that rounds to infinity: \<open>2 ^ 1024 - 2 ^ 970\<close>.\<close>

definition overflow_threshold :: real where
  "overflow_threshold = 2 ^ 1024 - 2 ^ 970"

text \<open>
  The double nearest to \<open>x\<close>; \<open>s\<close> is the sign the operation gives an exact zero
  result. A non-zero result that rounds to zero keeps the sign of \<open>x\<close>.
\<close>

definition round64 :: "bool \<Rightarrow> real \<Rightarrow> f64" where
  "round64 s x =
     (if overflow_threshold \<le> x then PosInf
      else if x \<le> - overflow_threshold then NegInf
      else let y = round_binary64 x in
        if y = 0 then (if x < 0 \<or> x = 0 \<and> s then NegZero else Fin 0) else Fin y)"

text \<open>
  A number literal or an \<^verbatim>\<open>int\<close> converted to \<^verbatim>\<open>float\<close> (both correctly rounded in
  CPython), and a reading: a \<^verbatim>\<open>float\<close> is itself, an \<^verbatim>\<open>int\<close> is converted.
\<close>

definition to_float :: "real \<Rightarrow> f64" where
  "to_float x = round64 False x"

section \<open>Arithmetic\<close>

definition fneg :: "f64 \<Rightarrow> f64" where
  "fneg a =
     (case a of Fin x \<Rightarrow> if x = 0 then NegZero else Fin (- x) | NegZero \<Rightarrow> Fin 0
      | PosInf \<Rightarrow> NegInf | NegInf \<Rightarrow> PosInf | NaN \<Rightarrow> NaN)"

definition fadd :: "f64 \<Rightarrow> f64 \<Rightarrow> f64" where
  "fadd a b =
     (if a = NaN \<or> b = NaN \<or> f_inf a \<and> f_inf b \<and> f_neg a \<noteq> f_neg b then NaN
      else if f_inf a then a
      else if f_inf b then b
      else round64 (f_neg a \<and> f_neg b) (f_val a + f_val b))"

definition fsub :: "f64 \<Rightarrow> f64 \<Rightarrow> f64" where
  "fsub a b = fadd a (fneg b)"

definition fmul :: "f64 \<Rightarrow> f64 \<Rightarrow> f64" where
  "fmul a b =
     (if a = NaN \<or> b = NaN \<or> f_zero a \<and> f_inf b \<or> f_inf a \<and> f_zero b then NaN
      else if f_inf a \<or> f_inf b then (if f_neg a = f_neg b then PosInf else NegInf)
      else round64 (f_neg a \<noteq> f_neg b) (f_val a * f_val b))"

text \<open>The C division, for a divisor that is not zero.\<close>

definition fdiv :: "f64 \<Rightarrow> f64 \<Rightarrow> f64" where
  "fdiv a b =
     (if a = NaN \<or> b = NaN \<or> f_inf a \<and> f_inf b then NaN
      else if f_inf a then (if f_neg a = f_neg b then PosInf else NegInf)
      else if f_inf b then (if f_neg a = f_neg b then Fin 0 else NegZero)
      else round64 (f_neg a \<noteq> f_neg b) (f_val a / f_val b))"

text \<open>Python's \<^verbatim>\<open>x / y\<close> on floats (\<^verbatim>\<open>float_div\<close>).\<close>

definition py_fdiv :: "f64 \<Rightarrow> f64 \<Rightarrow> f64 pyres" where
  "py_fdiv a b = (if f_zero b then Inl (ZeroDivisionError TrueDivision) else Inr (fdiv a b))"

text \<open>
  Python's \<^verbatim>\<open>a / b\<close> on two \<^verbatim>\<open>int\<close>s (\<^verbatim>\<open>long_true_divide\<close>), for the
  integers \<open>a\<close> and \<open>b\<close>: the exact quotient correctly rounded, the sign of a zero
  result that of the quotient, \<^verbatim>\<open>ZeroDivisionError\<close> for \<open>b = 0\<close>, and
  \<^verbatim>\<open>OverflowError\<close> where the rounded quotient would be infinite.
\<close>

definition py_int_truediv :: "real \<Rightarrow> real \<Rightarrow> f64 pyres" where
  "py_int_truediv a b =
     (if b = 0 then Inl (ZeroDivisionError TrueDivision)
      else let r = round64 ((a < 0) \<noteq> (b < 0)) (a / b) in
        if f_inf r then Inl (OverflowError ''integer division result too large for a float'')
        else Inr r)"

text \<open>C's \<^verbatim>\<open>fmod\<close>, exact: the remainder of the quotient truncated toward zero.\<close>

definition fmod :: "f64 \<Rightarrow> f64 \<Rightarrow> f64" where
  "fmod a b =
     (if a = NaN \<or> b = NaN \<or> f_inf a then NaN
      else if f_inf b then a
      else let x = f_val a; y = f_val b;
               t = (if 0 \<le> x / y then \<lfloor>x / y\<rfloor> else \<lceil>x / y\<rceil>);
               r = x - y * of_int t
           in if r = 0 then (if f_neg a then NegZero else Fin 0) else Fin r)"

text \<open>C's \<^verbatim>\<open>floor\<close>, \<^verbatim>\<open>copysign(0.0, z)\<close>, \<^verbatim>\<open>x < 0\<close>, \<^verbatim>\<open>x > 0.5\<close> and \<^verbatim>\<open>if (x)\<close>.\<close>

definition ffloor :: "f64 \<Rightarrow> f64" where
  "ffloor a = (case a of Fin x \<Rightarrow> Fin (of_int \<lfloor>x\<rfloor>) | _ \<Rightarrow> a)"

definition copysign_zero :: "f64 \<Rightarrow> f64" where
  "copysign_zero z = (if f_neg z then NegZero else Fin 0)"

definition f_less_zero :: "f64 \<Rightarrow> bool" where
  "f_less_zero a \<longleftrightarrow> a \<noteq> NaN \<and> f_neg a \<and> \<not> f_zero a"

definition f_greater_half :: "f64 \<Rightarrow> bool" where
  "f_greater_half a \<longleftrightarrow> (case a of Fin x \<Rightarrow> 1 / 2 < x | PosInf \<Rightarrow> True | _ \<Rightarrow> False)"

definition f_true :: "f64 \<Rightarrow> bool" where
  "f_true a \<longleftrightarrow> \<not> f_zero a"

text \<open>
  Python's \<^verbatim>\<open>x // y\<close> on floats: \<^verbatim>\<open>float_floor_div\<close> and \<^verbatim>\<open>_float_div_mod\<close> of
  CPython's \<^verbatim>\<open>Objects/floatobject.c\<close>, step by step.
\<close>

definition py_ffloordiv :: "f64 \<Rightarrow> f64 \<Rightarrow> f64 pyres" where
  "py_ffloordiv v w =
     (if f_zero w then Inl (ZeroDivisionError FloorDivision)
      else
        let m = fmod v w;
            d = fdiv (fsub v m) w;
            d' = (if f_true m \<and> f_less_zero w \<noteq> f_less_zero m then fsub d (Fin 1) else d)
        in Inr (if f_true d'
                then (let fd = ffloor d' in if f_greater_half (fsub d' fd) then fadd fd (Fin 1) else fd)
                else copysign_zero (fdiv v w)))"

text \<open>
  Python's \<^verbatim>\<open>x ** 2\<close> for a float \<^verbatim>\<open>x\<close> (\<^verbatim>\<open>float_pow\<close>): the special cases of
  CPython, then C's \<^verbatim>\<open>pow\<close>, taken to be correctly rounded, with an overflow raised as
  \<^verbatim>\<open>OverflowError\<close>.
\<close>

definition py_fpow2 :: "f64 \<Rightarrow> f64 pyres" where
  "py_fpow2 a =
     (case a of
        NaN \<Rightarrow> Inr NaN
      | PosInf \<Rightarrow> Inr PosInf
      | NegInf \<Rightarrow> Inr PosInf
      | NegZero \<Rightarrow> Inr (Fin 0)
      | Fin x \<Rightarrow>
          if x = 0 then Inr (Fin 0)
          else if x = 1 then Inr (Fin 1)
          else (let r = round64 False (x * x) in
                if r = PosInf
                then Inl (OverflowError (''(34, '' @ CHR 0x27 # ''Numerical result out of range'' @
                                         CHR 0x27 # '')''))
                else Inr r))"

section \<open>Formatting\<close>

text \<open>\<^verbatim>\<open>format(x, '.pf')\<close> of a float: the exact value of the double; signed zero, \<^verbatim>\<open>inf\<close>, \<^verbatim>\<open>nan\<close>.\<close>

definition format_f64 :: "nat \<Rightarrow> f64 \<Rightarrow> string" where
  "format_f64 p a =
     (case a of Fin x \<Rightarrow> format_fixed p x | NegZero \<Rightarrow> ''-'' @ format_fixed p 0
      | PosInf \<Rightarrow> ''inf'' | NegInf \<Rightarrow> ''-inf'' | NaN \<Rightarrow> ''nan'')"

section \<open>Rounding error\<close>

text \<open>A rounded value is within half a unit in the last place of the exact one.\<close>

lemma round_binary64_error:
  "\<bar>round_binary64 x - x\<bar> \<le> 2 powi (float_exp \<bar>x\<bar> - 52) / 2"
proof (cases "x = 0")
  case False
  let ?q = "(2::real) powi (float_exp \<bar>x\<bar> - 52)"
  have q: "0 < ?q" by simp
  have "\<bar>of_int (round_half_even (x / ?q)) * ?q - x\<bar> = \<bar>of_int (round_half_even (x / ?q)) - x / ?q\<bar> * ?q"
  proof -
    have "of_int (round_half_even (x / ?q)) * ?q - x = (of_int (round_half_even (x / ?q)) - x / ?q) * ?q"
      using q by (simp add: field_simps)
    with q show ?thesis by (simp add: abs_mult)
  qed
  also have "\<dots> \<le> 1 / 2 * ?q"
    using q round_half_even_dist [of "x / ?q"] by (intro mult_right_mono) simp_all
  finally show ?thesis using False by (simp add: round_binary64_def Let_def)
qed (simp add: round_binary64_def)

section \<open>Evaluation\<close>

lemma exp_up_numeral:
  "exp_up (numeral k) e x = (if 2 powi (e + 1) \<le> x then exp_up (pred_numeral k) (e + 1) x else e)"
  by (subst numeral_eq_Suc) (rule exp_up.simps(2))

lemma exp_down_numeral:
  "exp_down (numeral k) e x = (if x < 2 powi e then exp_down (pred_numeral k) (e - 1) x else e)"
  by (subst numeral_eq_Suc) (rule exp_down.simps(2))

lemma fneg_Fin: "fneg (Fin x) = (if x = 0 then NegZero else Fin (- x))"
  by (simp add: fneg_def)

lemma fadd_Fin: "fadd (Fin x) (Fin y) = round64 (x < 0 \<and> y < 0) (x + y)"
  by (simp add: fadd_def f_inf_def)

lemma fsub_Fin: "fsub (Fin x) (Fin y) = round64 (x < 0 \<and> 0 \<le> y) (x - y)"
  by (cases "y = 0") (simp_all add: fsub_def fneg_def fadd_def f_inf_def le_less)

lemma fmul_Fin: "fmul (Fin x) (Fin y) = round64 ((x < 0) \<noteq> (y < 0)) (x * y)"
  by (simp add: fmul_def f_inf_def)

lemma fdiv_Fin: "fdiv (Fin x) (Fin y) = round64 ((x < 0) \<noteq> (y < 0)) (x / y)"
  by (simp add: fdiv_def f_inf_def)

lemma py_fdiv_Fin:
  "py_fdiv (Fin x) (Fin y) = (if y = 0 then Inl (ZeroDivisionError TrueDivision) else Inr (fdiv (Fin x) (Fin y)))"
  by (simp add: py_fdiv_def)

lemma fmod_Fin:
  "fmod (Fin x) (Fin y) =
     (let t = (if 0 \<le> x / y then \<lfloor>x / y\<rfloor> else \<lceil>x / y\<rceil>); r = x - y * of_int t
      in if r = 0 then (if x < 0 then NegZero else Fin 0) else Fin r)"
  by (simp add: fmod_def f_inf_def)

lemma py_ffloordiv_Fin:
  "py_ffloordiv (Fin x) (Fin y) =
     (if y = 0 then Inl (ZeroDivisionError FloorDivision)
      else
        let m = fmod (Fin x) (Fin y);
            d = fdiv (fsub (Fin x) m) (Fin y);
            d' = (if f_true m \<and> f_less_zero (Fin y) \<noteq> f_less_zero m then fsub d (Fin 1) else d)
        in Inr (if f_true d'
                then (let fd = ffloor d' in if f_greater_half (fsub d' fd) then fadd fd (Fin 1) else fd)
                else copysign_zero (fdiv (Fin x) (Fin y))))"
  by (simp add: py_ffloordiv_def)

lemma py_fpow2_Fin:
  "py_fpow2 (Fin x) =
     (if x = 0 then Inr (Fin 0)
      else if x = 1 then Inr (Fin 1)
      else (let r = round64 False (x * x) in
            if r = PosInf
            then Inl (OverflowError (''(34, '' @ CHR 0x27 # ''Numerical result out of range'' @
                                     CHR 0x27 # '')''))
            else Inr r))"
  by (simp add: py_fpow2_def)

text \<open>Evaluating float arithmetic on concrete doubles.\<close>

lemmas f64_eval =
  to_float_def round64_def round_binary64_def float_exp_def exp_down_numeral exp_up_numeral
  overflow_threshold_def round_half_even_def Let_def
  fneg_Fin fadd_Fin fsub_Fin fmul_Fin fdiv_Fin py_fdiv_Fin fmod_Fin py_ffloordiv_Fin py_fpow2_Fin
  ffloor_def copysign_zero_def f_less_zero_def f_greater_half_def f_true_def format_f64_def
  py_int_truediv_def f_inf_def

section \<open>Signs, squares and small quotients\<close>

text \<open>
  When \<^verbatim>\<open>** 2\<close> raises, that a rounded non-negative value is non-negative, and that
  \<^verbatim>\<open>//\<close> of a non-negative double by a larger one is \<^verbatim>\<open>0.0\<close>.
\<close>

lemma py_fpow2_Inl_iff:
  "py_fpow2 a = Inl e \<longleftrightarrow>
     (case a of Fin x \<Rightarrow> overflow_threshold \<le> x * x | _ \<Rightarrow> False) \<and>
     e = OverflowError (''(34, '' @ CHR 0x27 # ''Numerical result out of range'' @ CHR 0x27 # '')'')"
proof (cases a)
  case (Fin x)
  have "0 \<le> x * x" by simp
  moreover have "0 < overflow_threshold" by (simp add: overflow_threshold_def)
  ultimately show ?thesis using Fin
    by (auto simp add: py_fpow2_def round64_def Let_def overflow_threshold_def)
qed (simp_all add: py_fpow2_def)

lemma round_binary64_nonneg: "0 \<le> x \<Longrightarrow> 0 \<le> round_binary64 x"
  by (simp add: round_binary64_def Let_def round_half_even_nonneg)

lemma round64_not_neg: "0 \<le> x \<Longrightarrow> \<not> f_neg (round64 False x)"
  using round_binary64_nonneg [of x] by (auto simp add: round64_def Let_def)

lemma round64_Fin_nonneg: "0 \<le> x \<Longrightarrow> round64 s x = Fin y \<Longrightarrow> 0 \<le> y"
  using round_binary64_nonneg [of x]
  by (auto simp add: round64_def Let_def split: if_splits)

lemma py_fpow2_nonneg:
  assumes "py_fpow2 a = Inr (Fin q)" shows "0 \<le> q"
proof (cases a)
  case (Fin x)
  have "0 \<le> x * x" by simp
  with Fin assms round64_Fin_nonneg [of "x * x" False q] show ?thesis
    by (auto simp add: py_fpow2_def Let_def split: if_splits)
qed (use assms in \<open>auto simp add: py_fpow2_def\<close>)

lemma py_ffloordiv_below:
  assumes "0 \<le> q" "q < h"
  shows "py_ffloordiv (Fin q) (Fin h) = Inr (Fin 0)"
proof -
  from assms have h: "0 < h" by linarith
  from assms h have t: "\<lfloor>q / h\<rfloor> = 0" by (simp add: floor_eq_iff)
  show ?thesis
  proof (cases "q = 0")
    case True
    with h show ?thesis
      by (simp add: py_ffloordiv_def fmod_def fsub_Fin fdiv_Fin f_inf_def f_true_def copysign_zero_def
          round64_def round_binary64_def overflow_threshold_def Let_def)
  next
    case False
    with assms have "0 < q / h" by simp
    then have "\<not> f_neg (round64 False (q / h))" by (intro round64_not_neg) simp
    with False assms h t show ?thesis
      by (simp add: py_ffloordiv_def fmod_def fsub_Fin fdiv_Fin f_inf_def f_true_def copysign_zero_def
          f_less_zero_def Let_def round64_def round_binary64_def overflow_threshold_def)
  qed
qed

end
