(* ===== verification/Entry.thy ===== *)
theory Entry
  imports ReadPackage
begin

text \<open>
  The entry point of \<^verbatim>\<open>src/homework.py\<close>: \<^verbatim>\<open>main\<close> (lines 167--170) builds the
  message of one instance and prints it, and the \<^verbatim>\<open>__main__\<close> block (lines 173--182)
  runs the factory and \<^verbatim>\<open>main\<close> over three sample packages. Standard output is the
  state: the bytes printed so far, threaded through every step. An exception ends the
  loop at once, with what was printed before it kept.
\<close>

section \<open>Printing\<close>

definition newline :: string where
  "newline = [char_of (10::nat)]"

text \<open>\<^verbatim>\<open>print(s)\<close> for a \<^verbatim>\<open>str\<close>: the text, then a line feed.\<close>

definition print_str :: "string \<Rightarrow> string \<Rightarrow> string" where
  "print_str s out = out @ s @ newline"

section \<open>The entry point\<close>

text \<open>
  \<^verbatim>\<open>main(training)\<close>: the message is built before \<^verbatim>\<open>print\<close> runs, so nothing is
  printed when \<^verbatim>\<open>show_training_info\<close> or \<^verbatim>\<open>get_message\<close> raises.
\<close>

definition main :: "workout \<Rightarrow> string \<Rightarrow> unit pyres \<times> string" where
  "main training out =
     (case pbind (show_training_info training) get_message of
        Inl e \<Rightarrow> (Inl e, out)
      | Inr s \<Rightarrow> (Inr (), print_str s out))"

text \<open>The list \<^verbatim>\<open>packages\<close> of the \<^verbatim>\<open>__main__\<close> block (lines 174--178).\<close>

definition packages :: "(string \<times> real list) list" where
  "packages =
     [(''SWM'', [720, 1, 80, 25, 40]), (''RUN'', [15000, 1, 75]), (''WLK'', [9000, 1, 75, 180])]"

text \<open>The \<^verbatim>\<open>for\<close> loop (lines 180--182), one package per iteration.\<close>

fun run_packages :: "(string \<times> real list) list \<Rightarrow> string \<Rightarrow> unit pyres \<times> string" where
  "run_packages [] out = (Inr (), out)"
| "run_packages ((workout_type, data) # ps) out =
     (case read_package workout_type data of
        Inl e \<Rightarrow> (Inl e, out)
      | Inr training \<Rightarrow>
          (case main training out of
             (Inl e, out') \<Rightarrow> (Inl e, out')
           | (Inr u, out') \<Rightarrow> run_packages ps out'))"

text \<open>Running the script: the loop over \<^verbatim>\<open>packages\<close>, from an empty output.\<close>

definition program :: "unit pyres \<times> string" where
  "program = run_packages packages []"

section \<open>A reference for the loop\<close>

text \<open>
  What one package contributes: its line of output, or the exception it raises. The
  loop prints the lines of the packages before the first exception and stops there.
\<close>

definition package_line :: "string \<times> real list \<Rightarrow> string pyres" where
  "package_line p =
     pbind (read_package (fst p) (snd p)) (\<lambda>t.
     pbind (show_training_info t) (\<lambda>i.
     pbind (get_message i) (\<lambda>s. Inr (s @ newline))))"

definition run_reference :: "(string \<times> real list) list \<Rightarrow> string \<Rightarrow> unit pyres \<times> string" where
  "run_reference ps out =
     (let rs = map package_line ps
      in (case dropWhile (\<lambda>r. \<not> isl r) rs of [] \<Rightarrow> Inr () | r # _ \<Rightarrow> Inl (projl r),
          out @ concat (map projr (takeWhile (\<lambda>r. \<not> isl r) rs))))"

section \<open>The loop against its reference\<close>

text \<open>Unfolding one package: the factory, the methods and the class attributes.\<close>

lemmas package_eval =
  package_line_def read_package_def parameters_workout_def show_training_info_def
  speed_defs calories_defs class_attrs

lemma run_reference_Nil [simp]: "run_reference [] out = (Inr (), out)"
  by (simp add: run_reference_def)

lemma run_reference_Cons_Inl:
  "package_line p = Inl e \<Longrightarrow> run_reference (p # ps) out = (Inl e, out)"
  by (simp add: run_reference_def)

lemma run_reference_Cons_Inr:
  "package_line p = Inr l \<Longrightarrow> run_reference (p # ps) out = run_reference ps (out @ l)"
  by (simp add: run_reference_def Let_def)

lemma main_eq_package_line:
  "read_package wt d = Inr t \<Longrightarrow>
   main t out = (case package_line (wt, d) of Inl e \<Rightarrow> (Inl e, out) | Inr l \<Rightarrow> (Inr (), out @ l))"
  by (simp add: package_line_def main_def print_str_def pbind_assoc [symmetric] split: sum.split)

lemma run_packages_step:
  "run_packages (p # ps) out =
     (case package_line p of Inl e \<Rightarrow> (Inl e, out) | Inr l \<Rightarrow> run_packages ps (out @ l))"
proof (cases p)
  case (Pair wt d)
  show ?thesis
  proof (cases "read_package wt d")
    case (Inl e)
    with Pair show ?thesis by (simp add: package_line_def)
  next
    case (Inr t)
    with Pair show ?thesis by (simp add: main_eq_package_line split: sum.split)
  qed
qed

section \<open>Properties of the entry point\<close>

text \<open>
  C13. The loop of the \<^verbatim>\<open>__main__\<close> block is its reference: it prints the lines of the
  packages before the first one that raises, in order, and ends with that exception,
  or with none when every package succeeds.
\<close>

theorem run_packages_eq_reference: "run_packages ps out = run_reference ps out"
proof (induction ps arbitrary: out)
  case Nil
  show ?case by simp
next
  case (Cons p ps)
  show ?case
  proof (cases "package_line p")
    case (Inl e)
    then show ?thesis by (simp add: run_packages_step run_reference_Cons_Inl)
  next
    case (Inr l)
    then show ?thesis by (simp add: run_packages_step run_reference_Cons_Inr Cons.IH)
  qed
qed

end
