(* ===== verification/FloatProgram.thy ===== *)
theory FloatProgram
  imports Binary64 Entry
begin

text \<open>
  The program again, with Python's float arithmetic in place of exact arithmetic: the
  same classes, methods, factory and loop as \<open>Training\<close> and \<open>Entry\<close>, every number
  a double (\<open>f64\<close>) and every operation of the source the CPython operation of
  \<open>Binary64\<close>. The readings and class attributes enter as \<^verbatim>\<open>float\<close> (an \<^verbatim>\<open>int\<close>
  is converted, correctly rounded, when it meets a float).
\<close>

section \<open>Methods\<close>

text \<open>\<^verbatim>\<open>Training.get_distance\<close> (lines 43--45).\<close>

definition get_distance_f :: "workout \<Rightarrow> f64" where
  "get_distance_f w =
     fdiv (fmul (to_float (action (base w))) (to_float (LEN_STEP (class_of w)))) (to_float M_IN_KM)"

text \<open>\<^verbatim>\<open>Training.get_mean_speed\<close> (lines 47--52).\<close>

definition Training_get_mean_speed_f :: "workout \<Rightarrow> f64 pyres" where
  "Training_get_mean_speed_f w = py_fdiv (get_distance_f w) (to_float (duration (base w)))"

text \<open>
  \<^verbatim>\<open>Swimming.get_mean_speed\<close> (lines 139--146). The pool readings are \<^verbatim>\<open>int\<close>s
  (as in the packages), so \<^verbatim>\<open>lenght_pool * count_pool\<close> is an exact \<^verbatim>\<open>int\<close> and
  \<^verbatim>\<open>/ M_IN_KM\<close> an \<^verbatim>\<open>int / int\<close> division; the duration divides the float.
\<close>

definition Swimming_get_mean_speed_f :: "swimming \<Rightarrow> f64 pyres" where
  "Swimming_get_mean_speed_f s =
     pbind (py_int_truediv (lenght_pool s * count_pool s) M_IN_KM) (\<lambda>q.
       py_fdiv q (to_float (duration s)))"

fun get_mean_speed_f :: "workout \<Rightarrow> f64 pyres" where
  "get_mean_speed_f (Swimming s) = Swimming_get_mean_speed_f s"
| "get_mean_speed_f w = Training_get_mean_speed_f w"

text \<open>\<^verbatim>\<open>Running.get_spent_calories\<close> (lines 76--88).\<close>

definition Running_get_spent_calories_f :: "training \<Rightarrow> f64 pyres" where
  "Running_get_spent_calories_f t =
     pbind (get_mean_speed_f (Running t)) (\<lambda>v.
       Inr (fmul (fmul (fdiv (fmul (fsub (fmul (to_float Running_COEFF_CALORIE_1) v)
                                        (to_float Running_COEFF_CALORIE_2))
                                  (to_float (weight t)))
                            (to_float M_IN_KM))
                      (to_float (duration t)))
                (to_float MINUT_IN_HOUR)))"

text \<open>
  \<^verbatim>\<open>SportsWalking.get_spent_calories\<close> (lines 106--120): \<^verbatim>\<open>COEFF_CALORIE_1 * weight\<close>
  first, then the squared speed floor-divided by the height.
\<close>

definition SportsWalking_get_spent_calories_f :: "sports_walking \<Rightarrow> f64 pyres" where
  "SportsWalking_get_spent_calories_f s =
     pbind (get_mean_speed_f (SportsWalking s)) (\<lambda>v.
     pbind (py_fpow2 v) (\<lambda>sq.
     pbind (py_ffloordiv sq (to_float (height s))) (\<lambda>k.
       Inr (fmul (fmul (fadd (fmul (to_float SportsWalking_COEFF_CALORIE_1) (to_float (weight s)))
                             (fmul (fmul k (to_float SportsWalking_COEFF_CALORIE_3))
                                   (to_float (weight s))))
                       (to_float (duration s)))
                 (to_float MINUT_IN_HOUR)))))"

text \<open>\<^verbatim>\<open>Swimming.get_spent_calories\<close> (lines 148--152).\<close>

definition Swimming_get_spent_calories_f :: "swimming \<Rightarrow> f64 pyres" where
  "Swimming_get_spent_calories_f s =
     pbind (get_mean_speed_f (Swimming s)) (\<lambda>v.
       Inr (fmul (fmul (fadd v (to_float Swimming_COEFF_CALORIE_1)) (to_float Swimming_COEFF_CALORIE_2))
                 (to_float (weight s))))"

text \<open>The base class raises before any arithmetic (lines 54--58).\<close>

primrec get_spent_calories_f :: "workout \<Rightarrow> f64 pyres" where
  "get_spent_calories_f (Training t) =
     Inl (NotImplementedError
       (utf8 [0x41E, 0x43F, 0x440, 0x435, 0x434, 0x435, 0x43B, 0x438, 0x442, 0x435] @
        '' get_spent_calories '' @ utf8 [0x432] @ '' '' @ class_name Training_class @ ''.''))"
| "get_spent_calories_f (Running t) = Running_get_spent_calories_f t"
| "get_spent_calories_f (SportsWalking s) = SportsWalking_get_spent_calories_f s"
| "get_spent_calories_f (Swimming s) = Swimming_get_spent_calories_f s"

section \<open>The message\<close>

text \<open>The \<^verbatim>\<open>InfoMessage\<close> that \<^verbatim>\<open>show_training_info\<close> builds, with float fields.\<close>

record info_message_f =
  f_training_type :: string
  f_duration :: f64
  f_distance :: f64
  f_speed :: f64
  f_calories :: f64

definition show_training_info_f :: "workout \<Rightarrow> info_message_f pyres" where
  "show_training_info_f w =
     pbind (get_mean_speed_f w) (\<lambda>v.
     pbind (get_spent_calories_f w) (\<lambda>c.
       Inr \<lparr>f_training_type = class_name (class_of w), f_duration = to_float (duration (base w)),
            f_distance = get_distance_f w, f_speed = v, f_calories = c\<rparr>))"

definition get_message_f :: "info_message_f \<Rightarrow> string pyres" where
  "get_message_f m =
     fill_template MESSAGE
       [f_training_type m, format_f64 3 (f_duration m), format_f64 3 (f_distance m),
        format_f64 3 (f_speed m), format_f64 3 (f_calories m)]"

section \<open>The entry point and the loop\<close>

definition main_f :: "workout \<Rightarrow> string \<Rightarrow> unit pyres \<times> string" where
  "main_f training out =
     (case pbind (show_training_info_f training) get_message_f of
        Inl e \<Rightarrow> (Inl e, out)
      | Inr s \<Rightarrow> (Inr (), print_str s out))"

fun run_packages_f :: "(string \<times> real list) list \<Rightarrow> string \<Rightarrow> unit pyres \<times> string" where
  "run_packages_f [] out = (Inr (), out)"
| "run_packages_f ((workout_type, data) # ps) out =
     (case read_package workout_type data of
        Inl e \<Rightarrow> (Inl e, out)
      | Inr training \<Rightarrow>
          (case main_f training out of
             (Inl e, out') \<Rightarrow> (Inl e, out')
           | (Inr u, out') \<Rightarrow> run_packages_f ps out'))"

definition program_f :: "unit pyres \<times> string" where
  "program_f = run_packages_f packages []"

section \<open>The sample packages in float arithmetic\<close>

text \<open>
  What CPython computes for the three sample packages; the values are the doubles
  Python prints with \<^verbatim>\<open>repr\<close>: the swim covers \<^verbatim>\<open>0.9935999999999999\<close> km and
  the walk burns \<^verbatim>\<open>157.50000000000003\<close> kcal.
\<close>

lemma show_training_info_f_WLK: "show_training_info_f (SportsWalking \<lparr>action = 9000, duration = 1, weight = 75, height = 180\<rparr>) =
  Inr \<lparr>f_training_type = ''SportsWalking'', f_duration = Fin 1, f_distance = Fin (3293257227514675/562949953421312),
       f_speed = Fin (3293257227514675/562949953421312), f_calories = Fin (5541538603991041/35184372088832)\<rparr>"
  by (simp add: show_training_info_f_def SportsWalking_get_spent_calories_f_def Training_get_mean_speed_f_def get_distance_f_def class_attrs f64_eval)
lemma show_training_info_f_SWM: "show_training_info_f (Swimming \<lparr>action = 720, duration = 1, weight = 80, lenght_pool = 25, count_pool = 40\<rparr>) =
  Inr \<lparr>f_training_type = ''Swimming'', f_duration = Fin 1, f_distance = Fin (8949553179510649/9007199254740992),
       f_speed = Fin 1, f_calories = Fin 336\<rparr>"
  by (simp add: show_training_info_f_def Swimming_get_spent_calories_f_def Swimming_get_mean_speed_f_def get_distance_f_def class_attrs f64_eval)
lemma get_message_f_eq:
  "get_message_f m =
     Inr (interleave MESSAGE [f_training_type m, format_f64 3 (f_duration m), format_f64 3 (f_distance m),
                            format_f64 3 (f_speed m), format_f64 3 (f_calories m)])"
proof -
  have "length MESSAGE = Suc (length [f_training_type m, format_f64 3 (f_duration m),
          format_f64 3 (f_distance m), format_f64 3 (f_speed m), format_f64 3 (f_calories m)])"
    by (simp add: MESSAGE_def)
  then show ?thesis by (simp add: get_message_f_def fill_template_def format_fields_interleave)
qed

lemma show_training_info_f_RUN: "show_training_info_f (Running \<lparr>action = 15000, duration = 1, weight = 75\<rparr>) =
  Inr \<lparr>f_training_type = ''Running'', f_duration = Fin 1, f_distance = Fin (39/4), f_speed = Fin (39/4), f_calories = Fin (2799/4)\<rparr>"
  by (simp add: show_training_info_f_def Running_get_spent_calories_f_def Training_get_mean_speed_f_def get_distance_f_def class_attrs f64_eval)

lemma program_f_sample:
  "program_f =
     (Inr (),
      interleave MESSAGE [''Swimming'', ''1.000'', ''0.994'', ''1.000'', ''336.000''] @ newline @
      interleave MESSAGE [''Running'', ''1.000'', ''9.750'', ''9.750'', ''699.750''] @ newline @
      interleave MESSAGE [''SportsWalking'', ''1.000'', ''5.850'', ''5.850'', ''157.500''] @
      newline)"
  by (simp add: program_f_def packages_def read_package_def parameters_workout_def main_f_def
      print_str_def show_training_info_f_SWM show_training_info_f_RUN show_training_info_f_WLK get_message_f_eq format_f64_def format_eval)

text \<open>
  A run of no steps and a negative duration: the speed is \<^verbatim>\<open>0.0 / -1.0\<close>, a
  negative zero, printed \<^verbatim>\<open>-0.000\<close>, where the exact model has \<open>0\<close>.
\<close>

lemma negative_zero_speed:
  "get_mean_speed_f (Running \<lparr>action = 0, duration = -1, weight = 75\<rparr>) = Inr NegZero \<and>
   format_f64 3 NegZero = ''-0.000'' \<and>
   get_mean_speed (Running \<lparr>action = 0, duration = -1, weight = 75\<rparr>) = Inr 0 \<and>
   format_fixed 3 0 = ''0.000''"
  by (simp add: Training_get_mean_speed_f_def get_distance_f_def Training_get_mean_speed_def
      get_distance_def class_attrs f64_eval format_eval)


section \<open>Exceptions in float arithmetic\<close>

text \<open>
  C24. In CPython's arithmetic a run's summary raises exactly when its duration, as a
  double, is zero, and then \<^verbatim>\<open>ZeroDivisionError\<close> of the true division: no other
  exception, whatever the readings (overflow gives infinities, not errors).
\<close>

theorem show_training_info_f_Running:
  "show_training_info_f (Running t) = Inl e \<longleftrightarrow>
     f_zero (to_float (duration t)) \<and> e = ZeroDivisionError TrueDivision"
  by (auto simp add: show_training_info_f_def Running_get_spent_calories_f_def
      Training_get_mean_speed_f_def py_fdiv_def)

theorem show_training_info_f_Running_witness:
  "show_training_info_f (Running \<lparr>action = 15000, duration = 0, weight = 75\<rparr>) =
     Inl (ZeroDivisionError TrueDivision)"
  using show_training_info_f_Running [of "\<lparr>action = 15000, duration = 0, weight = 75\<rparr>"]
  by (simp add: f64_eval)



text \<open>
  C23. In CPython's arithmetic a swim's summary raises exactly in two cases, checked in
  this order: \<^verbatim>\<open>OverflowError\<close> when the exact \<^verbatim>\<open>int\<close> quotient
  \<^verbatim>\<open>lenght_pool * count_pool / M_IN_KM\<close> is too large for a float, and
  \<^verbatim>\<open>ZeroDivisionError\<close> when the duration, as a double, is zero.
\<close>

theorem show_training_info_f_Swimming:
  "show_training_info_f (Swimming s) = Inl e \<longleftrightarrow>
     (if overflow_threshold \<le> \<bar>lenght_pool s * count_pool s / 1000\<bar>
      then e = OverflowError ''integer division result too large for a float''
      else f_zero (to_float (duration s)) \<and> e = ZeroDivisionError TrueDivision)"
  by (auto simp add: show_training_info_f_def Swimming_get_spent_calories_f_def
      Swimming_get_mean_speed_f_def py_fdiv_def py_int_truediv_def class_attrs round64_def f_inf_def Let_def)

theorem show_training_info_f_Swimming_witness:
  "show_training_info_f (Swimming \<lparr>action = 720, duration = 0, weight = 80, lenght_pool = 25, count_pool = 40\<rparr>) =
     Inl (ZeroDivisionError TrueDivision)"
  using show_training_info_f_Swimming
    [of "\<lparr>action = 720, duration = 0, weight = 80, lenght_pool = 25, count_pool = 40\<rparr>"]
  by (simp add: f64_eval)

text \<open>
  C22. In CPython's arithmetic a walk's summary raises exactly in three cases, checked in
  this order: \<^verbatim>\<open>ZeroDivisionError\<close> of \<^verbatim>\<open>/\<close> for a zero duration,
  \<^verbatim>\<open>OverflowError\<close> of \<^verbatim>\<open>** 2\<close> when the square of the (finite) speed
  overflows, and \<^verbatim>\<open>ZeroDivisionError\<close> of \<^verbatim>\<open>//\<close> for a zero height.
\<close>

theorem show_training_info_f_SportsWalking:
  "show_training_info_f (SportsWalking s) = Inl e \<longleftrightarrow>
     (if f_zero (to_float (duration s)) then e = ZeroDivisionError TrueDivision
      else if (case fdiv (get_distance_f (SportsWalking s)) (to_float (duration s)) of
                 Fin x \<Rightarrow> overflow_threshold \<le> x * x | _ \<Rightarrow> False)
      then e = OverflowError (''(34, '' @ CHR 0x27 # ''Numerical result out of range'' @ CHR 0x27 # '')'')
      else f_zero (to_float (height s)) \<and> e = ZeroDivisionError FloorDivision)"
proof -
  let ?v = "fdiv (get_distance_f (SportsWalking s)) (to_float (duration s))"
  show ?thesis
  proof (cases "f_zero (to_float (duration s))")
    case True
    then show ?thesis
      by (auto simp add: show_training_info_f_def Training_get_mean_speed_f_def py_fdiv_def)
  next
    case False
    then have v: "get_mean_speed_f (SportsWalking s) = Inr ?v"
      by (simp add: Training_get_mean_speed_f_def py_fdiv_def)
    show ?thesis
    proof (cases "py_fpow2 ?v")
      case (Inl e')
      then have c: "(case ?v of Fin x \<Rightarrow> overflow_threshold \<le> x * x | _ \<Rightarrow> False) \<and>
          e' = OverflowError (''(34, '' @ CHR 0x27 # ''Numerical result out of range'' @ CHR 0x27 # '')'')"
        by (simp only: py_fpow2_Inl_iff)
      with Inl False v show ?thesis
        by (auto simp add: show_training_info_f_def SportsWalking_get_spent_calories_f_def)
    next
      case (Inr q)
      then show ?thesis using False v py_fpow2_Inl_iff [of ?v]
        by (auto simp add: show_training_info_f_def SportsWalking_get_spent_calories_f_def
            py_ffloordiv_def Let_def)
    qed
  qed
qed

theorem show_training_info_f_SportsWalking_witness:
  "show_training_info_f (SportsWalking \<lparr>action = 9000, duration = 1, weight = 75, height = 0\<rparr>) =
     Inl (ZeroDivisionError FloorDivision)"
  using show_training_info_f_SportsWalking [of "\<lparr>action = 9000, duration = 1, weight = 75, height = 0\<rparr>"]
  by (simp add: get_distance_f_def class_attrs f64_eval)

text \<open>
  C26. The quirk of line 116 holds in CPython's arithmetic too: when the double
  \<^verbatim>\<open>speed ** 2\<close> is below the height, \<^verbatim>\<open>//\<close> gives \<^verbatim>\<open>0.0\<close> and the walk's
  calories are the same expression in weight and duration alone, for every such speed.
\<close>

theorem SportsWalking_calories_speed_free_f:
  assumes "get_mean_speed_f (SportsWalking s) = Inr v"
    and "py_fpow2 v = Inr (Fin q)" and "to_float (height s) = Fin h" and "q < h"
  shows "SportsWalking_get_spent_calories_f s =
     Inr (fmul (fmul (fadd (fmul (to_float SportsWalking_COEFF_CALORIE_1) (to_float (weight s)))
                           (fmul (fmul (Fin 0) (to_float SportsWalking_COEFF_CALORIE_3))
                                 (to_float (weight s))))
                     (to_float (duration s)))
               (to_float MINUT_IN_HOUR))"
  using assms py_ffloordiv_below [OF py_fpow2_nonneg [OF assms(2)] assms(4)]
  by (simp add: SportsWalking_get_spent_calories_f_def)

theorem SportsWalking_calories_speed_free_f_witness:
  "SportsWalking_get_spent_calories_f \<lparr>action = 9000, duration = 1, weight = 75, height = 180\<rparr> =
     Inr (fmul (fmul (fadd (fmul (to_float SportsWalking_COEFF_CALORIE_1) (to_float 75))
                           (fmul (fmul (Fin 0) (to_float SportsWalking_COEFF_CALORIE_3)) (to_float 75)))
                     (to_float 1))
               (to_float MINUT_IN_HOUR))"
proof -
  let ?s = "\<lparr>action = 9000, duration = 1, weight = 75, height = 180\<rparr> :: sports_walking"
  have v: "get_mean_speed_f (SportsWalking ?s) = Inr (Fin (3293257227514675 / 562949953421312))"
    by (simp add: Training_get_mean_speed_f_def get_distance_f_def class_attrs f64_eval)
  have q: "py_fpow2 (Fin (3293257227514675 / 562949953421312)) = Inr (Fin (1204097173810053 / 35184372088832))"
    by (simp add: f64_eval)
  have h: "to_float (height ?s) = Fin 180" by (simp add: f64_eval)
  from SportsWalking_calories_speed_free_f [OF v q h] show ?thesis by simp
qed

end
