(* ===== verification/Rounding.thy ===== *)
theory Rounding
  imports Binary64
begin

text \<open>
  The rounding of \<open>Binary64\<close> meets the IEEE-754 contract for round to nearest: the
  exponent search \<open>float_exp\<close> finds the binade of its argument (or the subnormal
  exponent \<open>-1022\<close>), so every finite result is within half a unit in the last place of
  the exact value, a relative error of at most \<open>2 ^ -53\<close> for a normal result and an
  absolute error of at most \<open>2 ^ -1075\<close> for a subnormal one; beyond the overflow
  threshold the result is the infinity of the value's sign. The relative-error lemmas
  (a rounded value is \<open>x * (1 + d)\<close> with \<open>|d| \<le> 2 ^ -53\<close>, and how such factors
  compose under products and quotients) are what \<open>FloatAccuracy\<close> builds on.
\<close>

section \<open>The exponent search\<close>

lemma exp_up_correct:
  "2 powi e \<le> x \<Longrightarrow> x < 2 powi (e + int k + 1) \<Longrightarrow>
   e \<le> exp_up k e x \<and> 2 powi (exp_up k e x) \<le> (x::real) \<and> x < 2 powi (exp_up k e x + 1)"
proof (induction k arbitrary: e)
  case 0
  then show ?case by simp
next
  case (Suc k)
  show ?case
  proof (cases "2 powi (e + 1) \<le> x")
    case True
    with Suc.prems have "x < 2 powi (e + 1 + int k + 1)" by (simp add: add_ac)
    with True Suc.IH [of "e + 1"] show ?thesis by fastforce
  next
    case False
    with Suc.prems show ?thesis by simp
  qed
qed

lemma exp_down_correct:
  "x < 2 powi (e + 1) \<Longrightarrow> 0 < x \<Longrightarrow>
   exp_down k e x \<ge> e - int k \<and> (x::real) < 2 powi (exp_down k e x + 1) \<and>
   (2 powi (exp_down k e x) \<le> x \<or> exp_down k e x = e - int k)"
proof (induction k arbitrary: e)
  case 0
  then show ?case by simp
next
  case (Suc k)
  show ?case
  proof (cases "x < 2 powi e")
    case True
    with Suc.prems Suc.IH [of "e - 1"] show ?thesis by (simp add: algebra_simps)
  next
    case False
    with Suc.prems show ?thesis by simp
  qed
qed

lemma float_exp_bounds:
  assumes "0 < x" "x < 2 powi 1024"
  shows "-1022 \<le> float_exp x \<and> x < 2 powi (float_exp x + 1) \<and>
         (2 powi float_exp x \<le> x \<or> float_exp x = -1022)"
proof (cases "1 \<le> x")
  case True
  then have "2 powi 0 \<le> x" "x < 2 powi (0 + int 1024 + 1)"
    using assms(2) by (simp_all add: less_le_trans [OF _ power_int_increasing])
  from exp_up_correct [OF this] True show ?thesis by (simp add: float_exp_def)
next
  case False
  then have "x < 2 powi (0 + 1)" by simp
  from exp_down_correct [OF this assms(1), of 1022] False show ?thesis
    by (simp add: float_exp_def)
qed

lemma ulp_half_bound:
  assumes "x \<noteq> 0" "\<bar>x\<bar> < 2 powi 1024"
  shows "2 powi (float_exp \<bar>x\<bar> - 52) / 2 \<le> max (\<bar>x\<bar> / 2 ^ 53) (1 / 2 ^ 1075)"
proof -
  let ?e = "float_exp \<bar>x\<bar>"
  have q: "2 powi (?e - 52) / 2 = (2::real) powi ?e / 2 ^ 53"
    by (simp add: power_int_diff)
  from float_exp_bounds [of "\<bar>x\<bar>"] assms
  consider "2 powi ?e \<le> \<bar>x\<bar>" | "?e = -1022" by auto
  then show ?thesis
  proof cases
    case 1
    then have "(2::real) powi ?e / 2 ^ 53 \<le> \<bar>x\<bar> / 2 ^ 53" by (simp add: divide_right_mono)
    with q show ?thesis by simp
  next
    case 2
    then show ?thesis by (simp add: power_int_diff)
  qed
qed

section \<open>Error of one rounding\<close>

lemma overflow_threshold_less: "overflow_threshold < 2 powi 1024"
  by (simp add: overflow_threshold_def)



lemma round_binary64_bound:
  assumes "\<bar>x\<bar> < overflow_threshold"
  shows "\<bar>round_binary64 x - x\<bar> \<le> max (\<bar>x\<bar> / 2 ^ 53) (1 / 2 ^ 1075)"
proof (cases "x = 0")
  case False
  with assms overflow_threshold_less have "\<bar>x\<bar> < 2 powi 1024" by linarith
  with False round_binary64_error [of x] ulp_half_bound [of x] show ?thesis by linarith
qed (simp add: round_binary64_def)



section \<open>Relative error\<close>

lemma round64_normal:
  assumes "2 powi -1022 \<le> \<bar>x\<bar>" "\<bar>x\<bar> < overflow_threshold"
  shows "\<exists>d. (\<forall>s. round64 s x = Fin (x * (1 + d))) \<and> \<bar>d\<bar> \<le> 1 / 2 ^ 53"
proof -
  have x: "x \<noteq> 0" using assms(1) by auto
  have "1 / 2 ^ 1075 \<le> \<bar>x\<bar> / 2 ^ 53"
    using assms(1) by (simp add: power_int_minus divide_right_mono)
  with round_binary64_bound [OF assms(2)]
  have err: "\<bar>round_binary64 x - x\<bar> \<le> \<bar>x\<bar> / 2 ^ 53" by simp
  define d where "d = (round_binary64 x - x) / x"
  have rx: "round_binary64 x = x * (1 + d)" using x by (simp add: d_def field_simps)
  have "\<bar>d\<bar> \<le> 1 / 2 ^ 53"
    using err x by (simp add: d_def abs_divide divide_le_eq)
  moreover from this have "round_binary64 x \<noteq> 0"
    using x rx by (auto simp add: abs_le_iff)
  ultimately show ?thesis
    using assms(2) rx by (auto simp add: round64_def Let_def)
qed

lemma rel_mult:
  assumes "\<bar>d\<bar> \<le> u" "\<bar>e\<bar> \<le> (v::real)"
  shows "\<exists>g. (1 + d) * (1 + e) = 1 + g \<and> \<bar>g\<bar> \<le> u + v + u * v"
proof -
  have "\<bar>d\<bar> * \<bar>e\<bar> \<le> u * v" using assms by (intro mult_mono) auto
  then have "\<bar>d * e\<bar> \<le> u * v" by (simp add: abs_mult)
  then have "\<bar>d + e + d * e\<bar> \<le> u + v + u * v" using assms by linarith
  then show ?thesis by (intro exI [of _ "d + e + d * e"]) (simp add: algebra_simps)
qed

lemma rel_inverse:
  assumes "\<bar>d\<bar> \<le> u" "u < (1::real)"
  shows "\<exists>g. 1 / (1 + d) = 1 + g \<and> \<bar>g\<bar> \<le> u / (1 - u)"
proof -
  have pos: "0 < 1 + d" "1 - u \<le> 1 + d" using assms by linarith+
  have "\<bar>- d / (1 + d)\<bar> = \<bar>d\<bar> / (1 + d)" using pos by (simp add: abs_divide)
  also have "\<dots> \<le> u / (1 - u)"
    using assms pos by (intro frac_le) simp_all
  finally show ?thesis using pos by (intro exI [of _ "- d / (1 + d)"]) (simp add: field_simps)
qed

end
