(* ===== verification/FloatAccuracy.thy ===== *)
theory FloatAccuracy
  imports FloatProgram Rounding
begin

text \<open>
  How far the program in CPython's float arithmetic (\<open>FloatProgram\<close>) is from the
  program in exact arithmetic (\<open>Training\<close>). For readings in a wide range (step
  counts and pool products between \<open>1\<close> and \<open>2 ^ 500\<close> in magnitude, durations between
  \<open>2 ^ -400\<close> and \<open>2 ^ 400\<close>) no intermediate value leaves the normal range of doubles,
  so each operation contributes a relative error of at most \<open>2 ^ -53\<close>: the float
  distance is within \<open>5 * 2 ^ -53\<close> of the exact one and the float mean speed within
  \<open>2 ^ -50\<close>. Consequently the digits printed by \<^verbatim>\<open>{:.3f}\<close> are those of the exact
  value unless that value lies within the error of a rounding tie (\<open>clear_of_tie\<close>).
\<close>

section \<open>Ranges and ties\<close>

text \<open>A value whose magnitude is in the normal range of doubles and does not overflow.\<close>

definition normal_range :: "real \<Rightarrow> bool" where
  "normal_range x \<longleftrightarrow> 2 powi -1022 \<le> \<bar>x\<bar> \<and> \<bar>x\<bar> < overflow_threshold"

text \<open>For tracking magnitudes through a computation: \<open>lo \<le> |x| \<le> hi\<close>.\<close>

definition mag_between :: "real \<Rightarrow> real \<Rightarrow> real \<Rightarrow> bool" where
  "mag_between lo hi x \<longleftrightarrow> lo \<le> \<bar>x\<bar> \<and> \<bar>x\<bar> \<le> hi"

text \<open>
  Every value within \<open>r\<close> of \<open>x\<close> prints with the same \<open>p\<close> digits as \<open>x\<close>: the
  interval \<open>[x - r, x + r]\<close>, scaled by \<open>10 ^ p\<close>, stays strictly between the two
  ties around the integer \<open>x * 10 ^ p\<close> rounds to.
\<close>

definition clear_of_tie :: "nat \<Rightarrow> real \<Rightarrow> real \<Rightarrow> bool" where
  "clear_of_tie p r x \<longleftrightarrow>
     (let k = of_int (round_half_even (x * 10 ^ p)) in k - 1 / 2 < (x - r) * 10 ^ p \<and> (x + r) * 10 ^ p < k + 1 / 2)"

section \<open>Composing relative errors\<close>

lemma normal_rangeI:
  assumes "1 / 2 ^ 1000 \<le> \<bar>x\<bar>" "\<bar>x\<bar> \<le> 2 ^ 1020"
  shows "normal_range x"
proof -
  have "(2::real) powi -1022 \<le> 1 / 2 ^ 1000" by (simp add: power_int_minus)
  moreover have "(2::real) ^ 1020 < overflow_threshold" by (simp add: overflow_threshold_def)
  ultimately show ?thesis using assms unfolding normal_range_def by linarith
qed

lemma mag_between_normal: "mag_between lo hi x \<Longrightarrow> 1 / 2 ^ 1000 \<le> lo \<Longrightarrow> hi \<le> 2 ^ 1020 \<Longrightarrow> normal_range x"
  unfolding mag_between_def by (rule normal_rangeI) simp_all

lemma mag_between_times:
  assumes "mag_between l1 h1 x" "mag_between l2 h2 y" "0 \<le> l1" "0 \<le> l2"
  shows "mag_between (l1 * l2) (h1 * h2) (x * y)"
  using assms unfolding mag_between_def abs_mult by (auto intro: mult_mono)

lemma mag_between_divide:
  assumes "mag_between l1 h1 x" "mag_between l2 h2 y" "0 \<le> l1" "0 < l2"
  shows "mag_between (l1 / h2) (h1 / l2) (x / y)"
  using assms unfolding mag_between_def abs_divide by (auto intro: frac_le)

lemma mag_between_rel:
  assumes "mag_between lo hi x" "\<bar>g\<bar> \<le> 1 / 2" "0 \<le> lo"
  shows "mag_between (lo / 2) (2 * hi) (x * (1 + g))"
proof -
  from assms(2) have g: "1 / 2 \<le> \<bar>1 + g\<bar>" "\<bar>1 + g\<bar> \<le> 2" by (simp_all add: abs_le_iff)
  from assms(1) have x: "lo \<le> \<bar>x\<bar>" "\<bar>x\<bar> \<le> hi" by (simp_all add: mag_between_def)
  have "lo * (1 / 2) \<le> \<bar>x\<bar> * \<bar>1 + g\<bar>" using g x assms(3) by (intro mult_mono) simp_all
  moreover have "\<bar>x\<bar> * \<bar>1 + g\<bar> \<le> hi * 2" using g x by (intro mult_mono) simp_all
  ultimately show ?thesis by (simp add: mag_between_def abs_mult)
qed

lemma round64_rel:
  "normal_range x \<Longrightarrow> \<exists>d. (\<forall>s. round64 s x = Fin (x * (1 + d))) \<and> \<bar>d\<bar> \<le> 1 / 2 ^ 53"
  unfolding normal_range_def using round64_normal by blast

lemma round64_rel_step:
  assumes "normal_range (x * (1 + g))" "\<bar>g\<bar> \<le> a"
  shows "\<exists>g'. (\<forall>s. round64 s (x * (1 + g)) = Fin (x * (1 + g'))) \<and> \<bar>g'\<bar> \<le> a + 1 / 2 ^ 53 + a / 2 ^ 53"
proof -
  obtain d where d: "\<forall>s. round64 s (x * (1 + g)) = Fin (x * (1 + g) * (1 + d))" "\<bar>d\<bar> \<le> 1 / 2 ^ 53"
    using round64_rel [OF assms(1)] by blast
  obtain k where k: "(1 + g) * (1 + d) = 1 + k" "\<bar>k\<bar> \<le> a + 1 / 2 ^ 53 + a * (1 / 2 ^ 53)"
    using rel_mult [OF assms(2) d(2)] by blast
  have "x * (1 + g) * (1 + d) = x * (1 + k)" by (simp only: mult.assoc k(1))
  with d k show ?thesis by auto
qed

lemma rel_times:
  assumes "\<bar>g\<bar> \<le> (a::real)" "\<bar>h\<bar> \<le> b"
  shows "\<exists>k. x * (1 + g) * (y * (1 + h)) = x * y * (1 + k) \<and> \<bar>k\<bar> \<le> a + b + a * b"
proof -
  obtain k where k: "(1 + g) * (1 + h) = 1 + k" "\<bar>k\<bar> \<le> a + b + a * b"
    using rel_mult [OF assms] by blast
  have "x * (1 + g) * (y * (1 + h)) = x * y * ((1 + g) * (1 + h))" by (simp only: ac_simps)
  with k show ?thesis by auto
qed

lemma rel_divide:
  assumes "\<bar>g\<bar> \<le> (a::real)" "\<bar>h\<bar> \<le> b" "b < 1"
  shows "\<exists>k. x * (1 + g) / (y * (1 + h)) = x / y * (1 + k) \<and> \<bar>k\<bar> \<le> a + b / (1 - b) + a * (b / (1 - b))"
proof -
  obtain i where i: "1 / (1 + h) = 1 + i" "\<bar>i\<bar> \<le> b / (1 - b)"
    using rel_inverse [OF assms(2,3)] by blast
  obtain k where k: "(1 + g) * (1 + i) = 1 + k" "\<bar>k\<bar> \<le> a + b / (1 - b) + a * (b / (1 - b))"
    using rel_mult [OF assms(1) i(2)] by blast
  have "x * (1 + g) / (y * (1 + h)) = x / y * ((1 + g) * (1 / (1 + h)))" by simp
  with i k show ?thesis by auto
qed

lemma round64_scale_step:
  assumes "mag_between lo hi x" "1 / 2 ^ 999 \<le> lo" "hi \<le> 2 ^ 1019" "\<bar>g\<bar> \<le> a" "a \<le> 1 / 2"
  shows "\<exists>k. (\<forall>s. round64 s (x * (1 + g)) = Fin (x * (1 + k))) \<and> \<bar>k\<bar> \<le> a + 1 / 2 ^ 53 + a / 2 ^ 53"
proof -
  have "\<bar>g\<bar> \<le> 1 / 2" using assms(4,5) by linarith
  from mag_between_rel [OF assms(1) this] assms(2) have "mag_between (lo / 2) (2 * hi) (x * (1 + g))"
    by simp
  then have "normal_range (x * (1 + g))"
    by (rule mag_between_normal) (use assms(2,3) in simp_all)
  from round64_rel_step [OF this assms(4)] show ?thesis .
qed

lemma round64_times_step:
  assumes "mag_between lo hi (x * y)" "1 / 2 ^ 999 \<le> lo" "hi \<le> 2 ^ 1019"
    "\<bar>g\<bar> \<le> a" "\<bar>h\<bar> \<le> b" "a + b + a * b \<le> 1 / 2"
  shows "\<exists>k. (\<forall>s. round64 s (x * (1 + g) * (y * (1 + h))) = Fin (x * y * (1 + k))) \<and>
             \<bar>k\<bar> \<le> (a + b + a * b) + 1 / 2 ^ 53 + (a + b + a * b) / 2 ^ 53"
proof -
  obtain i where i: "x * (1 + g) * (y * (1 + h)) = x * y * (1 + i)" "\<bar>i\<bar> \<le> a + b + a * b"
    using rel_times [OF assms(4,5)] by blast
  show ?thesis unfolding i(1) by (rule round64_scale_step [OF assms(1-3) i(2) assms(6)])
qed

lemma round64_divide_step:
  assumes "mag_between lo hi (x / y)" "1 / 2 ^ 999 \<le> lo" "hi \<le> 2 ^ 1019"
    "\<bar>g\<bar> \<le> a" "\<bar>h\<bar> \<le> b" "b < 1" "a + b / (1 - b) + a * (b / (1 - b)) \<le> 1 / 2"
  shows "\<exists>k. (\<forall>s. round64 s (x * (1 + g) / (y * (1 + h))) = Fin (x / y * (1 + k))) \<and>
             \<bar>k\<bar> \<le> (a + b / (1 - b) + a * (b / (1 - b))) + 1 / 2 ^ 53 +
                   (a + b / (1 - b) + a * (b / (1 - b))) / 2 ^ 53"
proof -
  obtain i where i: "x * (1 + g) / (y * (1 + h)) = x / y * (1 + i)"
      "\<bar>i\<bar> \<le> a + b / (1 - b) + a * (b / (1 - b))"
    using rel_divide [OF assms(4-6)] by blast
  show ?thesis unfolding i(1) by (rule round64_scale_step [OF assms(1-3) i(2) assms(7)])
qed

lemma to_float_rel:
  assumes "mag_between lo hi x" "1 / 2 ^ 1000 \<le> lo" "hi \<le> 2 ^ 1020"
  shows "\<exists>d. to_float x = Fin (x * (1 + d)) \<and> \<bar>d\<bar> \<le> 1 / 2 ^ 53"
  using round64_rel [OF mag_between_normal [OF assms]] unfolding to_float_def by blast

section \<open>Distance and mean speed\<close>

lemma to_float_M_IN_KM: "to_float M_IN_KM = Fin 1000"
  by (simp add: class_attrs f64_eval)

lemma LEN_STEP_range: "0.65 \<le> LEN_STEP c \<and> LEN_STEP c \<le> 1.38"
  by (cases c) (simp_all add: class_attrs)

lemma get_distance_between:
  assumes "1 \<le> \<bar>action (base w)\<bar>" "\<bar>action (base w)\<bar> \<le> b"
  shows "mag_between (0.65 / 1000) (b * 1.38 / 1000) (get_distance w)"
proof -
  have "0.65 \<le> LEN_STEP (class_of w)" "LEN_STEP (class_of w) \<le> 1.38" using LEN_STEP_range by auto
  then have "mag_between 0.65 1.38 (LEN_STEP (class_of w))" by (simp add: mag_between_def)
  moreover have "mag_between 1 b (action (base w))" using assms by (simp add: mag_between_def)
  ultimately have "mag_between (1 * 0.65) (b * 1.38) (action (base w) * LEN_STEP (class_of w))"
    using mag_between_times by fastforce
  then show ?thesis
    by (simp add: get_distance_def class_attrs mag_between_def abs_divide divide_right_mono)
qed

lemma get_distance_f_rel:
  assumes a: "1 \<le> \<bar>action (base w)\<bar>" "\<bar>action (base w)\<bar> \<le> 2 ^ 1000"
  shows "\<exists>g. get_distance_f w = Fin (get_distance w * (1 + g)) \<and> \<bar>g\<bar> \<le> 5 / 2 ^ 53"
proof -
  let ?a = "action (base w)" and ?L = "LEN_STEP (class_of w)"
  let ?u = "1 / 2 ^ 53 :: real"
  have wa: "mag_between 1 (2 ^ 1000) ?a" using a by (simp add: mag_between_def)
  have "0.65 \<le> ?L" "?L \<le> 1.38" using LEN_STEP_range by auto
  then have wL: "mag_between 0.65 1.38 ?L" by (simp add: mag_between_def)
  obtain d1 where d1: "to_float ?a = Fin (?a * (1 + d1))" "\<bar>d1\<bar> \<le> ?u"
    using to_float_rel [OF wa] by auto
  obtain d2 where d2: "to_float ?L = Fin (?L * (1 + d2))" "\<bar>d2\<bar> \<le> ?u"
    using to_float_rel [OF wL] by auto
  have wp: "mag_between 0.65 (2 ^ 1000 * 1.38) (?a * ?L)"
    using mag_between_times [OF wa wL] by simp
  obtain g2 where g2: "\<forall>s. round64 s (?a * (1 + d1) * (?L * (1 + d2))) = Fin (?a * ?L * (1 + g2))"
      "\<bar>g2\<bar> \<le> (?u + ?u + ?u * ?u) + ?u + (?u + ?u + ?u * ?u) / 2 ^ 53"
    using round64_times_step [OF wp _ _ d1(2) d2(2)] by auto
  have wq: "mag_between (0.65 / 1000) (2 ^ 1000 * 1.38 / 1000) (?a * ?L / 1000)"
    using get_distance_between [OF a] by (simp add: get_distance_def class_attrs)
  obtain g3 where g3: "\<forall>s. round64 s (?a * ?L / 1000 * (1 + g2)) = Fin (?a * ?L / 1000 * (1 + g3))"
      "\<bar>g3\<bar> \<le> ((?u + ?u + ?u * ?u) + ?u + (?u + ?u + ?u * ?u) / 2 ^ 53) + ?u +
                ((?u + ?u + ?u * ?u) + ?u + (?u + ?u + ?u * ?u) / 2 ^ 53) / 2 ^ 53"
    using round64_scale_step [OF wq _ _ g2(2)] by auto
  have e: "?a * ?L * (1 + g2) / 1000 = ?a * ?L / 1000 * (1 + g2)" by simp
  have "get_distance_f w = fdiv (fmul (Fin (?a * (1 + d1))) (Fin (?L * (1 + d2)))) (Fin 1000)"
    by (simp only: get_distance_f_def d1(1) d2(1) to_float_M_IN_KM)
  also have "\<dots> = Fin (?a * ?L / 1000 * (1 + g3))"
    by (simp only: fmul_Fin fdiv_Fin g2(1) e g3(1))
  finally have "get_distance_f w = Fin (get_distance w * (1 + g3))"
    by (simp add: get_distance_def class_attrs)
  moreover have "\<bar>g3\<bar> \<le> 5 / 2 ^ 53" using g3(2) by simp
  ultimately show ?thesis by blast
qed

lemma duration_to_float:
  assumes "1 / 2 ^ 400 \<le> \<bar>t\<bar>" "\<bar>t\<bar> \<le> 2 ^ 400"
  shows "\<exists>d. to_float t = Fin (t * (1 + d)) \<and> \<bar>d\<bar> \<le> 1 / 2 ^ 53 \<and> t * (1 + d) \<noteq> 0"
proof -
  have "mag_between (1 / 2 ^ 400) (2 ^ 400) t" using assms by (simp add: mag_between_def)
  from to_float_rel [OF this] obtain d where d: "to_float t = Fin (t * (1 + d))" "\<bar>d\<bar> \<le> 1 / 2 ^ 53"
    by auto
  moreover have "t \<noteq> 0" "1 + d \<noteq> 0" using assms d(2) by (auto simp add: abs_le_iff)
  ultimately show ?thesis by auto
qed

lemma get_mean_speed_f_rel:
  assumes v: "get_mean_speed w = Inr v"
    and t: "1 / 2 ^ 400 \<le> \<bar>duration (base w)\<bar>" "\<bar>duration (base w)\<bar> \<le> 2 ^ 400"
    and r: "case w of Swimming s \<Rightarrow> 1 \<le> \<bar>lenght_pool s * count_pool s\<bar> \<and> \<bar>lenght_pool s * count_pool s\<bar> \<le> 2 ^ 500
             | _ \<Rightarrow> 1 \<le> \<bar>action (base w)\<bar> \<and> \<bar>action (base w)\<bar> \<le> 2 ^ 500"
  shows "\<exists>g. get_mean_speed_f w = Inr (Fin (v * (1 + g))) \<and> \<bar>g\<bar> \<le> 8 / 2 ^ 53"
proof -
  let ?u = "1 / 2 ^ 53 :: real" and ?t = "duration (base w)"
  obtain dt where dt: "to_float ?t = Fin (?t * (1 + dt))" "\<bar>dt\<bar> \<le> ?u" "?t * (1 + dt) \<noteq> 0"
    using duration_to_float [OF t] by blast
  have wt: "mag_between (1 / 2 ^ 400) (2 ^ 400) ?t" using t by (simp add: mag_between_def)
  show ?thesis
  proof (cases "\<exists>s. w = Swimming s")
    case True
    then obtain s where w: "w = Swimming s" by blast
    let ?p = "lenght_pool s * count_pool s"
    from r w have "mag_between 1 (2 ^ 500) ?p" by (simp add: mag_between_def)
    then have wp: "mag_between (1 / 1000) (2 ^ 500 / 1000) (?p / 1000)"
      by (simp add: mag_between_def abs_divide divide_right_mono)
    obtain k1 where k1: "\<forall>s. round64 s (?p / 1000 * (1 + 0)) = Fin (?p / 1000 * (1 + k1))"
        "\<bar>k1\<bar> \<le> 0 + ?u + 0 / 2 ^ 53"
      using round64_scale_step [OF wp, of 0 0] by auto
    have q: "py_int_truediv ?p M_IN_KM = Inr (Fin (?p / 1000 * (1 + k1)))"
      using k1(1) by (simp add: py_int_truediv_def class_attrs f_inf_def Let_def)
    from mag_between_divide [OF wp wt] have "mag_between (1 / 1000 / 2 ^ 400) (2 ^ 500 / 1000 / (1 / 2 ^ 400)) (?p / 1000 / ?t)"
      by simp
    from round64_divide_step [OF this _ _ k1(2) dt(2)] obtain k where
      k: "\<forall>s. round64 s (?p / 1000 * (1 + k1) / (?t * (1 + dt))) = Fin (?p / 1000 / ?t * (1 + k))"
        "\<bar>k\<bar> \<le> ((0 + ?u + 0 / 2 ^ 53) + ?u / (1 - ?u) + (0 + ?u + 0 / 2 ^ 53) * (?u / (1 - ?u))) + ?u +
               ((0 + ?u + 0 / 2 ^ 53) + ?u / (1 - ?u) + (0 + ?u + 0 / 2 ^ 53) * (?u / (1 - ?u))) / 2 ^ 53"
      by auto
    from v w get_mean_speed_Inr_dest [OF v] have "v = ?p / 1000 / ?t"
      by (simp add: Swimming_get_mean_speed_def class_attrs)
    moreover have "get_mean_speed_f w = Inr (Fin (?p / 1000 / ?t * (1 + k)))"
      using w dt q k(1) by (simp add: Swimming_get_mean_speed_f_def py_fdiv_Fin fdiv_Fin)
    moreover have "\<bar>k\<bar> \<le> 8 / 2 ^ 53" using k(2) by simp
    ultimately show ?thesis by blast
  next
    case False
    then have c: "class_of w \<noteq> Swimming_class" by (cases w) auto
    from False r have a: "1 \<le> \<bar>action (base w)\<bar>" "\<bar>action (base w)\<bar> \<le> 2 ^ 500"
      by (cases w; simp)+
    then have "\<bar>action (base w)\<bar> \<le> 2 ^ 1000" by simp
    from get_distance_f_rel [OF a(1) this] obtain g where
      g: "get_distance_f w = Fin (get_distance w * (1 + g))" "\<bar>g\<bar> \<le> 5 / 2 ^ 53" by blast
    from mag_between_divide [OF get_distance_between [OF a] wt]
    have "mag_between (0.65 / 1000 / 2 ^ 400) (2 ^ 500 * 1.38 / 1000 / (1 / 2 ^ 400)) (get_distance w / ?t)"
      by simp
    from round64_divide_step [OF this _ _ g(2) dt(2)] obtain k where
      k: "\<forall>s. round64 s (get_distance w * (1 + g) / (?t * (1 + dt))) = Fin (get_distance w / ?t * (1 + k))"
        "\<bar>k\<bar> \<le> (5 / 2 ^ 53 + ?u / (1 - ?u) + 5 / 2 ^ 53 * (?u / (1 - ?u))) + ?u +
               (5 / 2 ^ 53 + ?u / (1 - ?u) + 5 / 2 ^ 53 * (?u / (1 - ?u))) / 2 ^ 53"
      by auto
    have "v = get_distance w / ?t"
      using get_mean_speed_default [OF c get_mean_speed_Inr_dest [OF v]] v by simp
    moreover have "get_mean_speed_f w = Inr (Fin (get_distance w / ?t * (1 + k)))"
      using False g dt k(1)
      by (cases w) (simp_all add: Training_get_mean_speed_f_def py_fdiv_Fin fdiv_Fin)
    moreover have "\<bar>k\<bar> \<le> 8 / 2 ^ 53" using k(2) by simp
    ultimately show ?thesis by blast
  qed
qed

text \<open>
  A walk of \<open>2 ^ 530\<close> steps in one hour: its speed is a finite double above
  \<open>2 ^ 518\<close>, whose square overflows, so CPython raises \<^verbatim>\<open>OverflowError\<close> in
  \<^verbatim>\<open>get_mean_speed() ** 2\<close>.
\<close>

lemma walk_overflow:
  "show_training_info_f (SportsWalking \<lparr>action = 2 ^ 530, duration = 1, weight = 75, height = 180\<rparr>) =
     Inl (OverflowError (''(34, '' @ CHR 0x27 # ''Numerical result out of range'' @ CHR 0x27 # '')''))"
proof -
  let ?s = "\<lparr>action = 2 ^ 530, duration = 1, weight = 75, height = 180\<rparr> :: sports_walking"
  let ?w = "SportsWalking ?s" and ?D = "get_distance (SportsWalking ?s)"
  have "\<bar>action (base ?w)\<bar> \<le> 2 ^ 1000" "1 \<le> \<bar>action (base ?w)\<bar>" by simp_all
  from get_distance_f_rel [OF this(2,1)] obtain g where
    g: "get_distance_f ?w = Fin (?D * (1 + g))" "\<bar>g\<bar> \<le> 5 / 2 ^ 53" by blast
  have D: "?D = 2 ^ 530 * 13 / 20000" by (simp add: get_distance_def class_attrs)
  then have wD: "mag_between (2 ^ 519) (2 ^ 520) ?D" by (simp add: mag_between_def)
  obtain k where k: "\<forall>s. round64 s (?D * (1 + g)) = Fin (?D * (1 + k))"
      "\<bar>k\<bar> \<le> 5 / 2 ^ 53 + 1 / 2 ^ 53 + 5 / 2 ^ 53 / 2 ^ 53"
    using round64_scale_step [OF wD _ _ g(2)] by auto
  have "\<bar>k\<bar> \<le> 1 / 2" using k(2) by simp
  from mag_between_rel [OF wD this] have x: "2 ^ 518 \<le> \<bar>?D * (1 + k)\<bar>"
    by (simp add: mag_between_def)
  have "(2::real) ^ 518 * 2 ^ 518 \<le> \<bar>?D * (1 + k)\<bar> * \<bar>?D * (1 + k)\<bar>"
    using x by (intro mult_mono) simp_all
  then have "overflow_threshold \<le> ?D * (1 + k) * (?D * (1 + k))"
    by (simp add: overflow_threshold_def abs_mult_self_eq)
  moreover have "?D * (1 + k) \<noteq> 0" "?D * (1 + k) \<noteq> 1" using x by auto
  ultimately have "py_fpow2 (Fin (?D * (1 + k))) =
      Inl (OverflowError (''(34, '' @ CHR 0x27 # ''Numerical result out of range'' @ CHR 0x27 # '')''))"
    by (simp add: py_fpow2_Inl_iff)
  moreover have "to_float 1 = Fin 1" by (simp add: f64_eval)
  ultimately show ?thesis using g(1) k(1)
    by (simp add: show_training_info_f_def SportsWalking_get_spent_calories_f_def
        Training_get_mean_speed_f_def py_fdiv_Fin fdiv_Fin)
qed

section \<open>What is printed\<close>

lemma round_half_even_unique:
  assumes "\<bar>z - of_int k\<bar> < 1 / 2"
  shows "round_half_even z = k"
proof -
  have "\<bar>of_int (round_half_even z) - z\<bar> \<le> 1 / 2" by (rule round_half_even_dist)
  with assms have "real_of_int (round_half_even z) < of_int (k + 1)" "real_of_int k < of_int (round_half_even z + 1)"
    unfolding abs_le_iff abs_less_iff by simp_all
  then have "round_half_even z < k + 1" "k < round_half_even z + 1" by (simp_all only: of_int_less_iff)
  then show ?thesis by linarith
qed

lemma format_fixed_close:
  assumes "\<bar>y - x\<bar> \<le> r" "clear_of_tie p r x" "(y < 0) = (x < 0)"
  shows "format_fixed p y = format_fixed p x"
proof -
  let ?k = "round_half_even (x * 10 ^ p)"
  have pos: "(0::real) < 10 ^ p" by simp
  from assms(1) have "x - r \<le> y" "y \<le> x + r" by (simp_all add: abs_le_iff)
  then have l: "(x - r) * 10 ^ p \<le> y * 10 ^ p" and u: "y * 10 ^ p \<le> (x + r) * 10 ^ p"
    using pos by (simp_all only: mult_right_mono less_imp_le)
  have t: "of_int ?k - 1 / 2 < (x - r) * 10 ^ p \<and> (x + r) * 10 ^ p < of_int ?k + 1 / 2"
    using assms(2) unfolding clear_of_tie_def Let_def .
  from l u t have "\<bar>y * 10 ^ p - of_int ?k\<bar> < 1 / 2"
    unfolding abs_less_iff by linarith
  then have "round_half_even (y * 10 ^ p) = ?k" by (rule round_half_even_unique)
  with assms(3) show ?thesis by (simp add: format_fixed_def)
qed

lemma format_f64_rel:
  assumes "a = Fin (x * (1 + g))" "\<bar>g\<bar> \<le> 8 / 2 ^ 53" "clear_of_tie p (\<bar>x\<bar> / 2 ^ 50) x"
  shows "format_f64 p a = format_fixed p x"
proof -
  have g: "0 < 1 + g" using assms(2) by (simp add: abs_le_iff)
  have "\<bar>x * (1 + g) - x\<bar> = \<bar>x\<bar> * \<bar>g\<bar>" by (simp add: algebra_simps abs_mult)
  also have "\<dots> \<le> \<bar>x\<bar> * (8 / 2 ^ 53)" using assms(2) by (intro mult_left_mono) simp_all
  finally have e: "\<bar>x * (1 + g) - x\<bar> \<le> \<bar>x\<bar> / 2 ^ 50" by simp
  have "(x * (1 + g) < 0) = (x < 0)" using g by (simp add: mult_less_0_iff)
  from format_fixed_close [OF e assms(3) this] assms(1) show ?thesis by (simp add: format_f64_def)
qed

text \<open>
  C21. The distance and mean speed that CPython prints for a workout, with its float
  arithmetic, are the digits of the exact values of the spec's formulas, for every
  workout whose readings are in range and whose exact values are not within
  \<open>2 ^ -50\<close> (relative) of a rounding tie of the third decimal.
\<close>

theorem printed_distance_speed_agree:
  assumes "get_mean_speed w = Inr v"
    and "1 \<le> \<bar>action (base w)\<bar>" "\<bar>action (base w)\<bar> \<le> 2 ^ 500"
    and "1 / 2 ^ 400 \<le> \<bar>duration (base w)\<bar>" "\<bar>duration (base w)\<bar> \<le> 2 ^ 400"
    and "case w of Swimming s \<Rightarrow> 1 \<le> \<bar>lenght_pool s * count_pool s\<bar> \<and> \<bar>lenght_pool s * count_pool s\<bar> \<le> 2 ^ 500
         | _ \<Rightarrow> True"
    and "clear_of_tie 3 (\<bar>get_distance w\<bar> / 2 ^ 50) (get_distance w)" "clear_of_tie 3 (\<bar>v\<bar> / 2 ^ 50) v"
  shows "format_f64 3 (get_distance_f w) = format_fixed 3 (get_distance w) \<and>
         (\<exists>v'. get_mean_speed_f w = Inr v' \<and> format_f64 3 v' = format_fixed 3 v)"
proof
  have "\<bar>action (base w)\<bar> \<le> 2 ^ 1000" using assms(3) by simp
  from get_distance_f_rel [OF assms(2) this] obtain g where
    g: "get_distance_f w = Fin (get_distance w * (1 + g))" "\<bar>g\<bar> \<le> 5 / 2 ^ 53" by blast
  then have "\<bar>g\<bar> \<le> 8 / 2 ^ 53" by simp
  from format_f64_rel [OF g(1) this assms(7)]
  show "format_f64 3 (get_distance_f w) = format_fixed 3 (get_distance w)" .
next
  have "case w of Swimming s \<Rightarrow> 1 \<le> \<bar>lenght_pool s * count_pool s\<bar> \<and> \<bar>lenght_pool s * count_pool s\<bar> \<le> 2 ^ 500
        | _ \<Rightarrow> 1 \<le> \<bar>action (base w)\<bar> \<and> \<bar>action (base w)\<bar> \<le> 2 ^ 500"
    using assms(2,3,6) by (cases w) simp_all
  from get_mean_speed_f_rel [OF assms(1,4,5) this] obtain g where
    "get_mean_speed_f w = Inr (Fin (v * (1 + g)))" "\<bar>g\<bar> \<le> 8 / 2 ^ 53" by blast
  with assms(8) show "\<exists>v'. get_mean_speed_f w = Inr v' \<and> format_f64 3 v' = format_fixed 3 v"
    using format_f64_rel by blast
qed

theorem printed_distance_speed_agree_witness:
  "get_mean_speed (Running \<lparr>action = 15000, duration = 1, weight = 75\<rparr>) = Inr 9.75 \<and>
   format_f64 3 (get_distance_f (Running \<lparr>action = 15000, duration = 1, weight = 75\<rparr>)) = ''9.750'' \<and>
   (\<exists>v'. get_mean_speed_f (Running \<lparr>action = 15000, duration = 1, weight = 75\<rparr>) = Inr v' \<and>
         format_f64 3 v' = ''9.750'')"
proof -
  let ?w = "Running \<lparr>action = 15000, duration = 1, weight = 75\<rparr>"
  have v: "get_mean_speed ?w = Inr 9.75"
    by (simp add: speed_defs class_attrs)
  have d: "get_distance ?w = 9.75" by (simp add: get_distance_def class_attrs)
  have c: "clear_of_tie 3 (\<bar>9.75\<bar> / 2 ^ 50) 9.75"
    by (simp add: clear_of_tie_def round_half_even_def)
  have f: "format_fixed 3 9.75 = ''9.750''" by (simp add: format_eval)
  from printed_distance_speed_agree [OF v] c d f v show ?thesis by simp
qed

end
