(* ===== verification/Spec2Isabelle.thy ===== *)
theory Spec2Isabelle
  imports Classes PyFormat FloatAccuracy
begin

text \<open>
  \<^bold>\<open>A verified model of \<^verbatim>\<open>src/homework.py\<close>\<close> (the fitness tracker of
  alexsevv/hw_python_oop).

  \<^medskip>\<^bold>\<open>The program.\<close> One Python module of 182 lines. A workout code and a list
  of sensor readings go to the factory \<^verbatim>\<open>read_package\<close>, which builds an instance of
  one of the classes \<^verbatim>\<open>Running\<close>, \<^verbatim>\<open>SportsWalking\<close>, \<^verbatim>\<open>Swimming\<close> (subclasses
  of \<^verbatim>\<open>Training\<close>); \<^verbatim>\<open>main\<close> asks the instance for its summary
  (\<^verbatim>\<open>show_training_info\<close>, which calls the methods \<^verbatim>\<open>get_distance\<close>,
  \<^verbatim>\<open>get_mean_speed\<close> and \<^verbatim>\<open>get_spent_calories\<close>, each possibly overridden), renders the
  resulting \<^verbatim>\<open>InfoMessage\<close> with \<^verbatim>\<open>get_message\<close> and prints it. The
  \<^verbatim>\<open>__main__\<close> block does this for three sample packages. There is no state beyond
  the instances' attributes and the output stream, and no concurrency.

  \<^medskip>\<^bold>\<open>The theories\<close>, in import order:
  \<^item> \<open>Py_Prelude\<close>: the exceptions (\<open>py_error\<close>), the result type \<open>'a pyres\<close>
    (\<open>Inl\<close> an exception) and its bind \<open>pbind\<close>, Python's float \<^verbatim>\<open>/\<close> and
    \<^verbatim>\<open>//\<close> with their \<^verbatim>\<open>ZeroDivisionError\<close> (\<open>py_truediv\<close>,
    \<open>py_floordiv\<close>), UTF-8 encoding of the program's Russian text (\<open>utf8\<close>).
  \<^item> \<open>Decimal\<close>: the \<^verbatim>\<open>{:.3f}\<close> format (\<open>format_fixed\<close>: round half to
    even, sign of the value, integer digits, point, padded fraction) and a parser
    (\<open>parse_fixed\<close>) for the round trip.
  \<^item> \<open>InfoMessage\<close>: the dataclass as a record \<open>info_message\<close>, the template
    \<open>MESSAGE\<close> as its six literal segments, \<open>get_message\<close> (lines 24--25) as
    \<^verbatim>\<open>str.format\<close> over \<^verbatim>\<open>asdict(self).values()\<close> (\<open>format_fields\<close>, which
    raises \<^verbatim>\<open>IndexError\<close> when the arguments run out, so \<open>get_message\<close> returns a
    \<open>string pyres\<close> and \<open>main\<close> propagates its exception), and \<open>parse_message\<close>.
  \<^item> \<open>Training\<close>: the class hierarchy (lines 28--152). An instance is a
    \<open>workout\<close>, one constructor per class, over the record \<open>training\<close> of the base
    attributes and its extensions \<open>sports_walking\<close> and \<open>swimming\<close>. Each method of
    each class is a definition named \<open>Class_method\<close>; \<open>get_mean_speed\<close> and
    \<open>get_spent_calories\<close> choose the method by the class, as attribute lookup does;
    \<open>LEN_STEP\<close> is the class attribute looked up by class. \<open>show_training_info\<close>
    (lines 60--68) evaluates its arguments in the source's order.
  \<^item> \<open>ReadPackage\<close>: \<open>parameters_workout\<close> (the dict), \<open>instantiate\<close> (the call
    \<^verbatim>\<open>cls(*data)\<close> with its arity \<^verbatim>\<open>TypeError\<close>), \<open>read_package\<close> (lines
    155--164) with its \<^verbatim>\<open>ValueError\<close>.
  \<^item> \<open>Entry\<close>: \<open>main\<close> (lines 167--170) as a step on the output stream,
    \<open>packages\<close> and the loop \<open>run_packages\<close> of the \<^verbatim>\<open>__main__\<close> block
    (lines 173--182), \<open>program\<close> (the run of the script), and \<open>run_reference\<close>,
    the loop described as the lines of the packages before the first exception.
  \<^item> \<open>Loop\<close>: the same \<^verbatim>\<open>for\<close> loop as a small-step machine: an inductive
    relation \<open>loop_step\<close> on states \<open>loop_state\<close> (packages left and output so far,
    or the end with its outcome), one rule per way an iteration can go.
  \<^item> \<open>Classes\<close> (after \<open>ReadPackage\<close>): the classes as Python objects: the
    namespace of each class statement (\<open>Training_dict\<close>, \<open>Running_dict\<close>,
    \<open>SportsWalking_dict\<close>, \<open>Swimming_dict\<close>), \<open>bases\<close>, the MRO \<open>mro\<close>,
    lookup along it (\<open>class_getattr\<close>, \<open>defining_class\<close>), \<^verbatim>\<open>self.x\<close>
    (\<open>py_getattr\<close>: the instance namespace \<open>instance_dict\<close> that
    \<^verbatim>\<open>__init__\<close> fills, then the MRO, else \<^verbatim>\<open>AttributeError\<close>) and
    \<^verbatim>\<open>isinstance\<close>.
  \<^item> \<open>PyFormat\<close> (after \<open>InfoMessage\<close>): \<^verbatim>\<open>str.format\<close> as a left-to-right
    scan (\<open>fmt_run\<close>) of literal text, brace escapes and positional fields
    \<^verbatim>\<open>{}\<close>/\<^verbatim>\<open>{i}\<close> with an optional \<^verbatim>\<open>:.pf\<close> and keyword fields, with CPython's
    errors (\<^verbatim>\<open>KeyError\<close> for a keyword, as no keyword arguments are passed) and its
    numbering state; \<open>MESSAGE_literal\<close> is the literal of lines 12--16 and
    \<open>asdict_values\<close> the arguments of line 25.
  \<^item> \<open>Binary64\<close> (after \<open>Decimal\<close>): Python's \<^verbatim>\<open>float\<close> as an IEEE-754 double
    (\<open>f64\<close>), rounding (\<open>round64\<close>), the operations \<open>fadd\<close>, \<open>fsub\<close>,
    \<open>fmul\<close>, \<open>fdiv\<close>, \<open>py_fdiv\<close>, \<open>py_ffloordiv\<close>, \<open>py_fpow2\<close>, and
    \<open>format_f64\<close>.
  \<^item> \<open>FloatProgram\<close> (after \<open>Binary64\<close> and \<open>Entry\<close>): the methods, message,
    \<open>main\<close> and loop over floats (names ending in \<open>_f\<close>), and \<open>program_f\<close>.
  \<^item> this theory: the summary that the spec's formulas promise (\<open>spec_summary\<close>)
    and the properties that span the components.

  \<^medskip>\<^bold>\<open>Correspondence.\<close> Python values are modelled as: numbers (the readings,
  attributes and results) as \<open>real\<close>, or as \<open>f64\<close> in the float theories; \<^verbatim>\<open>str\<close> as the bytes of its UTF-8 encoding
  (\<open>string\<close>), which is what \<^verbatim>\<open>print\<close> writes; an exception as \<open>Inl\<close> of
  \<open>py_error\<close>, propagated by \<open>pbind\<close> in evaluation order; standard output as a
  string threaded through \<open>main\<close> and the loop. Every raise of the code is a branch:
  \<^verbatim>\<open>ZeroDivisionError\<close> of \<^verbatim>\<open>/\<close> (a zero duration) and of \<^verbatim>\<open>//\<close> (a zero
  height), \<^verbatim>\<open>NotImplementedError\<close> of the base class, \<^verbatim>\<open>ValueError\<close> of an unknown
  code, \<^verbatim>\<open>TypeError\<close> of a wrong number of readings, \<^verbatim>\<open>IndexError\<close> of
  \<^verbatim>\<open>str.format\<close> (which the five fields of the dataclass never trigger, as
  \<open>get_message_eq\<close> shows). There are no loops but the
  \<^verbatim>\<open>for\<close> over a finite list, so no fuel is needed: every definition is total and
  executable, and the properties below are evaluated on concrete inputs by \<open>simp\<close>.

  \<^medskip>\<^bold>\<open>What is proved\<close> (claims C1--C40 of the manifest):
  \<^item> the factory (C1--C4): which codes and arities succeed, the \<^verbatim>\<open>ValueError\<close> and
    \<^verbatim>\<open>TypeError\<close> paths, and that the instance holds the readings in order;
  \<^item> the hierarchy (C5--C10, C16--C18, C37): when \<^verbatim>\<open>show_training_info\<close>
    succeeds and which exception it raises otherwise (the division error comes before
    the missing method of the base class), the calorie and speed formulas of the spec,
    and the consequences of the code's formulas that the spec does not state (the floor
    division that drops the speed from the walking calories, negative running calories
    below 10/9 km/h, a swim whose distance disagrees with its speed, calories
    proportional to weight and never lower for more steps);
  \<^item> refinement (C11): for every code and readings, the factory followed by
    \<^verbatim>\<open>show_training_info\<close> gives exactly the summary of the spec's formulas, and an
    exception exactly where those formulas divide by zero or the input is invalid;
  \<^item> the script (C12, C13): its output is exactly the three lines of the sample
    packages, the same in exact and in float arithmetic, and the loop prints the lines
    of the packages before the first exception;
  \<^item> the loop as a machine (C20--C26, C36): it is deterministic, never stuck before
    the end, well-founded (no infinite run) with at most one step per package plus
    one, always reaches the end, agrees with \<open>run_packages\<close>, and, by rule induction
    over runs, consumes the packages in order printing exactly their lines, its output
    only growing;
  \<^item> the classes (C27--C32): lookup along the MRO finds the constants and methods the
    per-class definitions of \<open>Training\<close> use and the \<^verbatim>\<open>__init__\<close> that
    \<open>instantiate\<close> runs; \<^verbatim>\<open>self.x\<close> reads what the model reads; the misspelt
    \<^verbatim>\<open>lenght_pool\<close>; and every object \<^verbatim>\<open>read_package\<close> returns is an instance of
    a proper subclass of \<^verbatim>\<open>Training\<close>;
  \<^item> end to end (C38): for every package the spec's formulas define, the script
    prints one line, and it reads back to the spec's summary rounded to three places;
  \<^item> formatting (C14, C15, C19, C33--C35, C39, C40): the message reads back to the type
    name and the rounded values, a printed number is within half a unit of its last
    digit, has exactly \<open>p\<close> fraction digits and is ordered as the values, the minus
    sign appears exactly for negative values
    (also \<^verbatim>\<open>-0.000\<close>); the source's template formatted by the engine is
    \<open>get_message\<close>, raises \<^verbatim>\<open>IndexError\<close> at the first field without an argument,
    and the segment model \<open>fill_template\<close> is the engine on every template of
    literal segments and \<^verbatim>\<open>{}\<close> fields.

  \<^medskip>\<^bold>\<open>Bounds and fuel.\<close> No fuel is used: the only loop runs over a finite
  list, and the machine of \<open>Loop\<close> is proved well-founded through the measure
  \<open>steps_left\<close> (packages left plus one). The format scan \<open>fmt_run\<close> terminates
  on the length of the format string; the MRO recursion on the depth of a class.

  \<^medskip>\<^bold>\<open>Two arithmetics.\<close> The theories up to \<open>Loop\<close> compute with exact reals:
  the formulas as the spec reads them, on which the general properties are proved.
  \<open>Binary64\<close> and \<open>FloatProgram\<close> give the program again with CPython's
  floats: every operation rounded to the nearest double (ties to even), overflow to
  infinity, signed zeros and NaN, \<^verbatim>\<open>//\<close> by CPython's \<^verbatim>\<open>_float_div_mod\<close>,
  \<^verbatim>\<open>** 2\<close> raising \<^verbatim>\<open>OverflowError\<close>. Their values for the sample packages are
  those CPython produces (the swim's distance \<^verbatim>\<open>0.9935999999999999\<close>, the walk's
  calories \<^verbatim>\<open>157.50000000000003\<close>), and C12 shows the script prints the same bytes
  in both. The exponent search of \<open>float_exp\<close> has fuel 1024 upwards and 1022
  downwards, the whole range of finite doubles, subnormals included.

  \<^medskip>\<^bold>\<open>Not modelled.\<close> In the exact theories \<^verbatim>\<open>-0.0\<close> is \<open>0\<close>, and overflow,
  \<open>inf\<close> and \<open>nan\<close> do not arise (the float theories have them). In the float
  theories, C's \<^verbatim>\<open>pow(x, 2.0)\<close> is taken to be correctly rounded (the C standard does
  not promise it); an \<^verbatim>\<open>int\<close> reading too large for a float gives infinity where
  CPython raises \<^verbatim>\<open>OverflowError\<close>; the sign of a NaN is not tracked (no path of the
  program reads it). Readings that are not numbers (Python's \<^verbatim>\<open>TypeError\<close> inside
  arithmetic), keyword arguments, and codes that are not strings are outside the
  model. The bytes written to the terminal are modelled, not the terminal's encoding.
  Of \<^verbatim>\<open>str.format\<close>, attribute and item access in field names, conversions, nested
  fields and other format specifications give \<open>None\<close> (outside the model);
  \<^verbatim>\<open>object\<close> is left out of the MRO, as it binds none of the names the program uses.
  The rest of the source is modelled: the lines the map leaves out are blank lines,
  docstrings, the import and a string statement with no effect (lines 18--22).

  \<^medskip>\<^bold>\<open>Further work.\<close> Error bounds relating the float and the exact
  computation for all inputs (the per-operation bound is \<open>round_binary64_error\<close>);
  monotonicity of the calories in the other readings.
\<close>

section \<open>The summary the spec promises\<close>

text \<open>
  The spec's formulas (section 4.1) for a workout code and its readings: the class name,
  duration, distance, mean speed and calories, where they are defined.
\<close>

definition spec_summary :: "string \<Rightarrow> real list \<Rightarrow> (string \<times> real \<times> real \<times> real \<times> real) option"
  where
  "spec_summary code data =
    (if code = ''RUN'' then
       (case data of
          [a, t, w] \<Rightarrow>
            if t = 0 then None
            else let dist = a * 0.65 / 1000; v = dist / t
                 in Some (''Running'', t, dist, v, (18 * v - 20) * w / 1000 * t * 60)
        | _ \<Rightarrow> None)
     else if code = ''WLK'' then
       (case data of
          [a, t, w, h] \<Rightarrow>
            if t = 0 \<or> h = 0 then None
            else let dist = a * 0.65 / 1000; v = dist / t
                 in Some (''SportsWalking'', t, dist, v,
                          (0.035 * w + of_int \<lfloor>v ^ 2 / h\<rfloor> * 0.029 * w) * t * 60)
        | _ \<Rightarrow> None)
     else if code = ''SWM'' then
       (case data of
          [a, t, w, l, n] \<Rightarrow>
            if t = 0 then None
            else let v = l * n / 1000 / t
                 in Some (''Swimming'', t, a * 1.38 / 1000, v, (v + 1.1) * 2 * w)
        | _ \<Rightarrow> None)
     else None)"

definition info_tuple :: "info_message \<Rightarrow> string \<times> real \<times> real \<times> real \<times> real" where
  "info_tuple i = (training_type i, info_message.duration i, distance i, speed i, calories i)"

text \<open>What the program computes for one package before printing it, as that tuple.\<close>

definition program_summary :: "string \<Rightarrow> real list \<Rightarrow> (string \<times> real \<times> real \<times> real \<times> real) option"
  where
  "program_summary code data =
     (case pbind (read_package code data) show_training_info of
        Inl e \<Rightarrow> None
      | Inr i \<Rightarrow> Some (info_tuple i))"

text \<open>For stating properties: the same instance with another step count.\<close>

primrec with_action :: "workout \<Rightarrow> real \<Rightarrow> workout" where
  "with_action (Training t) a = Training (t\<lparr>action := a\<rparr>)"
| "with_action (Running t) a = Running (t\<lparr>action := a\<rparr>)"
| "with_action (SportsWalking s) a = SportsWalking (s\<lparr>action := a\<rparr>)"
| "with_action (Swimming s) a = Swimming (s\<lparr>action := a\<rparr>)"

lemmas summary_eval =
  program_summary_def spec_summary_def read_package_def parameters_workout_def
  show_training_info_def speed_defs calories_defs class_attrs info_tuple_def

lemma program_summary_RUN: "program_summary ''RUN'' data = spec_summary ''RUN'' data"
  by (auto simp add: summary_eval Let_def split: list.split)

lemma program_summary_WLK: "program_summary ''WLK'' data = spec_summary ''WLK'' data"
  by (auto simp add: summary_eval py_truediv_def Let_def split: list.split)

lemma program_summary_SWM: "program_summary ''SWM'' data = spec_summary ''SWM'' data"
  by (auto simp add: summary_eval Let_def split: list.split)

lemma program_summary_other:
  "code \<notin> {''RUN'', ''WLK'', ''SWM''} \<Longrightarrow> program_summary code data = None"
  by (simp add: program_summary_def read_package_def parameters_workout_def)

lemma spec_summary_codes: "spec_summary code data \<noteq> None \<Longrightarrow> code \<in> {''RUN'', ''WLK'', ''SWM''}"
  by (auto simp add: spec_summary_def split: if_splits)

lemma class_name_no_semicolon: "CHR '';'' \<notin> set (class_name c)"
  by (cases c) simp_all

lemma show_training_info_name:
  "show_training_info w = Inr i \<Longrightarrow> training_type i = class_name (class_of w)"
  by (auto simp add: show_training_info_def pbind_eq_Inr_iff)

section \<open>Properties across the components\<close>

text \<open>
  C11. Refinement: for every workout code and list of readings, building the instance
  with \<^verbatim>\<open>read_package\<close> and summarising it with \<^verbatim>\<open>show_training_info\<close> gives the
  spec's summary, and raises exactly where the spec's formulas are undefined.
\<close>

theorem summary_refines_spec: "program_summary code data = spec_summary code data"
proof -
  consider "code = ''RUN''" | "code = ''WLK''" | "code = ''SWM''"
    | "code \<notin> {''RUN'', ''WLK'', ''SWM''}" by blast
  then show ?thesis
  proof cases
    case 4
    then show ?thesis by (simp add: program_summary_other spec_summary_def)
  qed (simp_all add: program_summary_RUN program_summary_WLK program_summary_SWM)
qed

text \<open>
  C12. Running the script prints exactly three lines, for the sample packages
  \<^verbatim>\<open>SWM\<close>, \<^verbatim>\<open>RUN\<close> and \<^verbatim>\<open>WLK\<close>, with these numbers, and raises nothing;
  and the script run with CPython's binary64 float arithmetic prints the same bytes.
\<close>

theorem sample_output:
  "program =
     (Inr (),
      interleave MESSAGE [''Swimming'', ''1.000'', ''0.994'', ''1.000'', ''336.000''] @ newline @
      interleave MESSAGE [''Running'', ''1.000'', ''9.750'', ''9.750'', ''699.750''] @ newline @
      interleave MESSAGE [''SportsWalking'', ''1.000'', ''5.850'', ''5.850'', ''157.500''] @
      newline) \<and>
   program_f = program"
proof -
  have swm: "package_line (''SWM'', [720, 1, 80, 25, 40]) =
    pbind (get_message \<lparr>training_type = ''Swimming'', info_message.duration = 1,
                        distance = 0.9936, speed = 1, calories = 336\<rparr>) (\<lambda>s. Inr (s @ newline))"
    by (simp add: package_eval)
  have run: "package_line (''RUN'', [15000, 1, 75]) =
    pbind (get_message \<lparr>training_type = ''Running'', info_message.duration = 1,
                        distance = 9.75, speed = 9.75, calories = 699.75\<rparr>) (\<lambda>s. Inr (s @ newline))"
    by (simp add: package_eval)
  have wlk: "package_line (''WLK'', [9000, 1, 75, 180]) =
    pbind (get_message \<lparr>training_type = ''SportsWalking'', info_message.duration = 1,
                        distance = 5.85, speed = 5.85, calories = 157.5\<rparr>) (\<lambda>s. Inr (s @ newline))"
    by (simp add: package_eval power2_eq_square)
  show ?thesis
    using program_f_sample
    by (simp add: program_def packages_def run_packages_step swm run wlk get_message_eq
        interleave_MESSAGE format_eval del: run_packages.simps(2))
qed


text \<open>
  C18. More steps never mean fewer calories: for a non-negative step count, a positive
  duration, a non-negative weight and (for a walk) a positive height, raising the step
  count leaves the calories of every class the same or larger (a swim's do not depend
  on the steps at all).
\<close>

theorem calories_mono_steps:
  assumes "get_spent_calories w = Inr c" "get_spent_calories (with_action w a') = Inr c'"
    "0 \<le> action (base w)" "action (base w) \<le> a'" "0 < duration (base w)" "0 \<le> weight (base w)"
    "case w of SportsWalking s \<Rightarrow> 0 < height s | _ \<Rightarrow> True"
  shows "c \<le> c'"
proof (cases w)
  case (Training t)
  with assms(1) show ?thesis by (simp add: calories_defs)
next
  case (Running t)
  let ?v = "action t * 0.65 / 1000 / duration t" and ?v' = "a' * 0.65 / 1000 / duration t"
  from Running assms have v: "?v \<le> ?v'" by (simp add: divide_right_mono)
  from Running assms have c: "c = (18 * ?v - 20) * weight t / 1000 * duration t * 60"
      and c': "c' = (18 * ?v' - 20) * weight t / 1000 * duration t * 60"
    by (simp_all add: calories_defs speed_defs class_attrs)
  from v Running assms have "(18 * ?v - 20) * weight t \<le> (18 * ?v' - 20) * weight t"
    by (intro mult_right_mono) simp_all
  with v Running assms show ?thesis
    unfolding c c' by (intro mult_right_mono divide_right_mono) simp_all
next
  case (SportsWalking s)
  let ?v = "action s * 0.65 / 1000 / duration s" and ?v' = "a' * 0.65 / 1000 / duration s"
  from SportsWalking assms have v: "0 \<le> ?v" "?v \<le> ?v'" by (simp_all add: divide_right_mono)
  from SportsWalking assms(7) have h: "0 < height s" by simp
  from v(2,1) have "?v ^ 2 \<le> ?v' ^ 2" by (rule power_mono)
  with h have "\<lfloor>?v ^ 2 / height s\<rfloor> \<le> \<lfloor>?v' ^ 2 / height s\<rfloor>"
    by (simp add: floor_mono divide_right_mono)
  moreover from SportsWalking assms h have c: "c = (0.035 * weight s + of_int \<lfloor>?v ^ 2 / height s\<rfloor> * 0.029 * weight s) * duration s * 60"
      and c': "c' = (0.035 * weight s + of_int \<lfloor>?v' ^ 2 / height s\<rfloor> * 0.029 * weight s) * duration s * 60"
    by (simp_all add: calories_defs speed_defs class_attrs py_floordiv_def)
  ultimately show ?thesis using SportsWalking assms
    unfolding c c' by (intro mult_right_mono add_left_mono) simp_all
next
  case (Swimming s)
  with assms show ?thesis by (simp add: calories_defs speed_defs class_attrs)
qed
theorem calories_mono_steps_witness:
  "get_spent_calories (Running \<lparr>action = 15000, duration = 1, weight = 75\<rparr>) = Inr 699.75 \<and>
   get_spent_calories (with_action (Running \<lparr>action = 15000, duration = 1, weight = 75\<rparr>) 16000) =
     Inr 752.4 \<and> (699.75::real) \<le> 752.4"
proof -
  have c: "get_spent_calories (Running \<lparr>action = 15000, duration = 1, weight = 75\<rparr>) = Inr 699.75"
    and c': "get_spent_calories (with_action (Running \<lparr>action = 15000, duration = 1, weight = 75\<rparr>) 16000)
             = Inr 752.4"
    by (simp_all add: calories_defs speed_defs class_attrs)
  from calories_mono_steps [OF c c'] c c' show ?thesis by simp
qed


text \<open>
  C19. End to end: for every package the spec's formulas define, the script prints one
  line for it, and that line reads back to the spec's summary with each number rounded
  to three places: the factory, the methods, the template and the format compose to
  the spec's contract.
\<close>

theorem printed_line_reads_back:
  assumes "spec_summary code data = Some (n, t, km, v, c)"
  shows "\<exists>s. package_line (code, data) = Inr (s @ newline) \<and>
           parse_message s =
             Some (n, round_fixed 3 t, round_fixed 3 km, round_fixed 3 v, round_fixed 3 c)"
proof -
  from assms spec_summary_codes have "code \<in> {''RUN'', ''WLK'', ''SWM''}" by blast
  with assms have "program_summary code data = Some (n, t, km, v, c)"
    using program_summary_RUN program_summary_WLK program_summary_SWM by auto
  then obtain w i where w: "read_package code data = Inr w" and i: "show_training_info w = Inr i"
    and tup: "info_tuple i = (n, t, km, v, c)"
    by (auto simp add: program_summary_def pbind_eq_Inr_iff split: sum.splits)
  from i have "CHR '';'' \<notin> set (training_type i)"
    by (simp add: show_training_info_name class_name_no_semicolon)
  from parse_message_fields [OF this] w i tup show ?thesis
    by (simp add: package_line_def get_message_eq info_tuple_def)
qed

theorem printed_line_reads_back_witness:
  "spec_summary ''RUN'' [15000, 1, 75] = Some (''Running'', 1, 9.75, 9.75, 699.75) \<and>
   (\<exists>s. package_line (''RUN'', [15000, 1, 75]) = Inr (s @ newline) \<and>
        parse_message s =
          Some (''Running'', round_fixed 3 1, round_fixed 3 9.75, round_fixed 3 9.75,
                round_fixed 3 699.75))"
proof -
  have sp: "spec_summary ''RUN'' [15000, 1, 75] = Some (''Running'', 1, 9.75, 9.75, 699.75)"
    by (simp add: spec_summary_def Let_def)
  from printed_line_reads_back [OF sp] sp show ?thesis by blast
qed

end
